(* ===== verification/Prelude.thy ===== *)
theory Prelude
  imports Main "HOL-Library.Sublist"
begin

text \<open>
  Shared vocabulary of the development.  Strings of the TypeScript program are
  modelled as byte strings (\<open>string = char list\<close>, a \<open>char\<close> is one byte): every
  literal of the source is written as its UTF-8 bytes, and JavaScript string
  concatenation is list append (UTF-8 encoding commutes with concatenation).
  The theory fixes the named collections used by the component theories, the
  JavaScript primitives the source calls on strings (truthiness, \<open>includes\<close>,
  \<open>trim\<close>, \<open>toLowerCase\<close> on ASCII), and generic lemmas on lists and options.
\<close>

named_theorems handler_simps "equations of the event handlers, for evaluating runs"
named_theorems inv_simps "unfolding rules of the invariants"

type_synonym js_string = string

subsection \<open>JavaScript truthiness of optional strings\<close>

text \<open>
  \<open>if (x)\<close> on a value of TypeScript type \<open>string | undefined\<close> (or \<open>null\<close>)
  is false for \<open>undefined\<close>, \<open>null\<close> and the empty string.
\<close>

fun js_truthy :: "js_string option \<Rightarrow> bool" where
  "js_truthy None = False"
| "js_truthy (Some s) = (s \<noteq> [])"

text \<open>\<open>x || d\<close> on an optional string.\<close>

fun js_or_default :: "js_string option \<Rightarrow> js_string \<Rightarrow> js_string" where
  "js_or_default None d = d"
| "js_or_default (Some s) d = (if s = [] then d else s)"

text \<open>The text an optional chunk contributes when it is delivered.\<close>

fun opt_text :: "js_string option \<Rightarrow> js_string" where
  "opt_text None = []"
| "opt_text (Some s) = s"

subsection \<open>String primitives\<close>

text \<open>\<open>String.prototype.includes\<close>: substring search, scanning the haystack.\<close>

fun js_includes :: "js_string \<Rightarrow> js_string \<Rightarrow> bool" where
  "js_includes [] t = (t = [])"
| "js_includes (c # s) t = (prefix t (c # s) \<or> js_includes s t)"

text \<open>
  White space removed by \<open>String.prototype.trim\<close>, restricted to the one-byte
  characters (tab, line feed, vertical tab, form feed, carriage return, space).
\<close>

definition js_space :: "char \<Rightarrow> bool" where
  "js_space c \<longleftrightarrow> c \<in> set [CHR 0x09, CHR 0x0A, CHR 0x0B, CHR 0x0C, CHR 0x0D, CHR 0x20]"

definition js_trim :: "js_string \<Rightarrow> js_string" where
  "js_trim s = rev (dropWhile js_space (rev (dropWhile js_space s)))"

text \<open>\<open>toLowerCase\<close> on ASCII letters; other bytes are unchanged.\<close>

definition ascii_lower_char :: "char \<Rightarrow> char" where
  "ascii_lower_char c =
     (let n = of_char c :: nat in if 65 \<le> n \<and> n \<le> 90 then char_of (n + 32) else c)"

definition ascii_lower :: "js_string \<Rightarrow> js_string" where
  "ascii_lower s = map ascii_lower_char s"

text \<open>\<open>Array.prototype.join(sep)\<close> on an array of strings.\<close>

fun js_join :: "js_string \<Rightarrow> js_string list \<Rightarrow> js_string" where
  "js_join sep [] = []"
| "js_join sep [x] = x"
| "js_join sep (x # y # xs) = x @ sep @ js_join sep (y # xs)"

text \<open>A value of type \<open>string | undefined\<close> in a template literal.\<close>

fun js_template :: "js_string option \<Rightarrow> js_string" where
  "js_template None = ''undefined''"
| "js_template (Some s) = s"

text \<open>\<open>s.charAt(0)\<close>: the first UTF-16 code unit of the string.  On the UTF-8 bytes
  of the model this is the lead byte of the first character with its continuation
  bytes (\<open>10xxxxxx\<close>); it is the whole first character for every character of the
  Basic Multilingual Plane (all Vietnamese letters), and the empty string on the
  empty string.\<close>

definition utf8_cont :: "char \<Rightarrow> bool" where
  "utf8_cont c = (digit7 c \<and> \<not> digit6 c)"

fun js_charAt0 :: "js_string \<Rightarrow> js_string" where
  "js_charAt0 [] = []"
| "js_charAt0 (c # cs) = c # takeWhile utf8_cont cs"

text \<open>The characters of a byte string: each is a lead byte with the continuation
  bytes after it.  \<open>s.slice(0, n)\<close> keeps the first \<open>n\<close> UTF-16 code units, which
  on BMP text are the first \<open>n\<close> characters.\<close>

function (sequential) utf8_chars :: "js_string \<Rightarrow> js_string list" where
  "utf8_chars [] = []"
| "utf8_chars (c # cs) = (c # takeWhile utf8_cont cs) # utf8_chars (dropWhile utf8_cont cs)"
  by pat_completeness auto

text \<open>Each step consumes the lead byte, so the length of the rest decreases.\<close>

termination utf8_chars
  by (relation "measure length") (simp_all add: le_imp_less_Suc length_dropWhile_le)

definition js_slice0 :: "nat \<Rightarrow> js_string \<Rightarrow> js_string" where
  "js_slice0 n s = concat (take n (utf8_chars s))"

subsection \<open>Generic lemmas\<close>

lemma js_truthy_iff: "js_truthy t \<longleftrightarrow> (\<exists>s. t = Some s \<and> s \<noteq> [])"
  by (cases t) auto

lemma opt_text_not_truthy: "\<not> js_truthy t \<Longrightarrow> opt_text t = []"
  by (cases t) auto

lemma js_includes_sublist [simp]: "js_includes s t \<longleftrightarrow> sublist t s"
  by (induction s) (auto simp: sublist_Cons_right)

lemma js_includes_Nil [simp]: "js_includes s []"
  by simp

lemma dropWhile_all_or_stop:
  "dropWhile P s = [] \<longleftrightarrow> (\<forall>c\<in>set s. P c)"
  by (induction s) auto

lemma js_trim_empty_iff: "js_trim s = [] \<longleftrightarrow> (\<forall>c\<in>set s. js_space c)"
proof -
  have "js_trim s = [] \<longleftrightarrow> (\<forall>c\<in>set (dropWhile js_space s). js_space c)"
    by (simp add: js_trim_def dropWhile_all_or_stop)
  also have "\<dots> \<longleftrightarrow> (\<forall>c\<in>set s. js_space c)"
    by (induction s) auto
  finally show ?thesis .
qed

lemma ascii_lower_length [simp]: "length (ascii_lower s) = length s"
  by (simp add: ascii_lower_def)

lemma ascii_lower_append [simp]: "ascii_lower (s @ t) = ascii_lower s @ ascii_lower t"
  by (simp add: ascii_lower_def)

lemma sublist_ascii_lower: "sublist t s \<Longrightarrow> sublist (ascii_lower t) (ascii_lower s)"
  by (auto simp: sublist_def) blast

lemma ascii_lower_char_idem [simp]: "ascii_lower_char (ascii_lower_char c) = ascii_lower_char c"
  by (simp add: ascii_lower_char_def Let_def)

lemma ascii_lower_idem [simp]: "ascii_lower (ascii_lower s) = ascii_lower s"
  by (simp add: ascii_lower_def)

lemma prefix_append_self [intro, simp]: "prefix xs (xs @ ys)"
  by (rule prefixI) simp

lemma js_charAt0_prefix [simp]: "prefix (js_charAt0 s) s"
  by (cases s) (simp_all add: takeWhile_is_prefix)

lemma js_charAt0_Nil_iff [simp]: "js_charAt0 s = [] \<longleftrightarrow> s = []"
  by (cases s) simp_all

lemma utf8_chars_concat [simp]: "concat (utf8_chars s) = s"
  by (induction s rule: utf8_chars.induct) simp_all

lemma utf8_chars_length: "length (utf8_chars s) \<le> length s"
proof (induction s rule: utf8_chars.induct)
  case (2 c cs)
  then show ?case using length_dropWhile_le [of utf8_cont cs] by simp
qed simp

lemma js_slice0_prefix [simp]: "prefix (js_slice0 n s) s"
proof -
  have "prefix (concat (take n (utf8_chars s))) (concat (utf8_chars s))"
    by (metis append_take_drop_id concat_append prefix_append_self)
  then show ?thesis by (simp add: js_slice0_def)
qed

lemma js_slice0_short: "length s \<le> n \<Longrightarrow> js_slice0 n s = s"
  using utf8_chars_length [of s] by (simp add: js_slice0_def)

lemma js_charAt0_slice: "js_charAt0 s = js_slice0 1 s"
  by (cases s) (simp_all add: js_slice0_def)

end
