(* ===== verification/Types.thy ===== *)
theory Types
  imports Prelude
begin

text \<open>
  The data model of \<^verbatim>\<open>src/types.ts\<close>: the drafting phases \<open>GenerationStep\<close>
  (a numeric TypeScript enum, here a datatype with the enum's numbering
  \<open>step_num\<close> and the order the code compares phases by), the teacher's form
  \<open>UserInfo\<close>, the chat message and the sequencer state \<open>GenerationState\<close>.
  The types of the initiative records (\<open>Status\<close>, \<open>Initiative\<close>) are in the
  theory \<open>Initiatives\<close>, next to the components that use them.
\<close>

datatype generation_step =
    INPUT_FORM | OUTLINE | PART_I_II | PART_III | PART_IV_SOL1 | PART_IV_SOL2
  | PART_V_VI | APPENDIX | COMPLETED

text \<open>The enum's numeric values (\<open>INPUT_FORM = 0\<close>, \dots, \<open>COMPLETED = 8\<close>).\<close>

fun step_num :: "generation_step \<Rightarrow> nat" where
  "step_num INPUT_FORM = 0"
| "step_num OUTLINE = 1"
| "step_num PART_I_II = 2"
| "step_num PART_III = 3"
| "step_num PART_IV_SOL1 = 4"
| "step_num PART_IV_SOL2 = 5"
| "step_num PART_V_VI = 6"
| "step_num APPENDIX = 7"
| "step_num COMPLETED = 8"

record user_info =
  topic :: js_string
  subject :: js_string
  grade :: js_string
  school :: js_string
  textbook :: js_string

datatype role = User | Model

record chat_message =
  role :: role
  msg_text :: js_string

record generation_state =
  step :: generation_step
  messages :: "chat_message list"
  fullDocument :: js_string
  isStreaming :: bool
  error :: "js_string option"

text \<open>The initial values of the two \<open>useState\<close> hooks of \<open>App\<close>.\<close>

definition empty_user_info :: user_info where
  "empty_user_info = \<lparr>topic = [], subject = [], grade = [], school = [], textbook = []\<rparr>"

definition init_generation_state :: generation_state where
  "init_generation_state =
     \<lparr>step = INPUT_FORM, messages = [], fullDocument = [], isStreaming = False, error = None\<rparr>"


text \<open>
  The code compares phases through their numbers (\<open>state.step > stepNum\<close>,
  \<open>state.step < GenerationStep.COMPLETED\<close>), so the order on phases is the order
  of their numbers.
\<close>

instantiation generation_step :: linorder
begin

definition less_eq_generation_step :: "generation_step \<Rightarrow> generation_step \<Rightarrow> bool" where
  "less_eq_generation_step s t \<longleftrightarrow> step_num s \<le> step_num t"

definition less_generation_step :: "generation_step \<Rightarrow> generation_step \<Rightarrow> bool" where
  "less_generation_step s t \<longleftrightarrow> step_num s < step_num t"

lemma step_num_inj: "step_num s = step_num t \<Longrightarrow> s = t"
  by (cases s; cases t) simp_all

instance
proof
  fix x y z :: generation_step
  show "x < y \<longleftrightarrow> x \<le> y \<and> \<not> y \<le> x"
    by (auto simp: less_eq_generation_step_def less_generation_step_def)
  show "x \<le> x" by (simp add: less_eq_generation_step_def)
  show "x \<le> y \<Longrightarrow> y \<le> z \<Longrightarrow> x \<le> z"
    by (simp add: less_eq_generation_step_def)
  show "x \<le> y \<Longrightarrow> y \<le> x \<Longrightarrow> x = y"
    by (simp add: less_eq_generation_step_def step_num_inj)
  show "x \<le> y \<or> y \<le> x"
    by (auto simp: less_eq_generation_step_def)
qed

end

lemma step_le_iff [simp]: "s \<le> t \<longleftrightarrow> step_num s \<le> step_num t"
  by (simp add: less_eq_generation_step_def)

lemma step_less_iff [simp]: "s < t \<longleftrightarrow> step_num s < step_num t"
  by (simp add: less_generation_step_def)

lemma step_num_le_8: "step_num s \<le> 8"
  by (cases s) simp_all

end
