(* ===== verification/Gemini.thy ===== *)
theory Gemini
  imports Types Constants
begin

text \<open>
  The service module \<^verbatim>\<open>src/services/geminiService.ts\<close>.  The module keeps one
  global \<open>chatSession: Chat | null\<close>; the model of a session records which
  session it is (sessions are numbered in order of creation) and the messages
  sent on it, in order.  The remote model is not modelled: what it streams back
  is an input of the sequencer model (the chunk events of theory
  \<open>Sequencer\<close>).  The module's own logic is modelled exactly:
  \<^item> \<open>initializeGeminiChat\<close> replaces the session by a fresh one;
  \<^item> \<open>sendMessageStream\<close> fails with \<open>"Chat session not initialized"\<close> when
    there is no session, and otherwise issues the message on the session;
  \<^item> its loop \<open>for await (chunk of responseStream) if (chunk.text) onChunk(..)\<close>
    delivers exactly the chunks whose text is truthy (\<open>deliverChunk\<close>);
  \<^item> \<open>getAISuggestions\<close> builds its request and returns \<open>response.text || ""\<close>;
  \<^item> \<open>generateSKKNStructure\<close> builds its request, parses
    \<open>response.text || "{}"\<close> with a JSON parser given as a parameter, and returns
    \<open>null\<close> (here \<open>None\<close>) when parsing fails.
\<close>

text \<open>The \<open>model\<close> and \<open>config\<close> a session is created with; the two real-valued
  sampling parameters (\<open>temperature: 0.7\<close>, \<open>topP: 0.95\<close>) are not modelled.\<close>

record chat_config =
  model_name :: js_string
  systemInstruction :: js_string
  topK :: nat
  maxOutputTokens :: nat
  thinkingBudget :: nat

definition gemini_config :: chat_config where
  "gemini_config =
     \<lparr>model_name = ''gemini-3-pro-preview'', systemInstruction = SYSTEM_INSTRUCTION, topK = 64,
      maxOutputTokens = 4096, thinkingBudget = 1024\<rparr>"

record chat =
  chatNo :: nat
  chat_cfg :: chat_config
  sent :: "js_string list"

definition initializeGeminiChat :: "nat \<Rightarrow> chat" where
  "initializeGeminiChat n = \<lparr>chatNo = n, chat_cfg = gemini_config, sent = []\<rparr>"

definition session_not_initialized :: js_string where
  "session_not_initialized = ''Chat session not initialized''"

text \<open>
  The synchronous part of \<open>sendMessageStream\<close>: the guard on the session and the
  request \<open>chatSession.sendMessageStream({message})\<close>.  \<open>Inl\<close> is the rejected
  promise with its error message.
\<close>

definition sendMessageStream :: "chat option \<Rightarrow> js_string \<Rightarrow> js_string + chat" where
  "sendMessageStream cs message =
     (case cs of
        None \<Rightarrow> Inl session_not_initialized
      | Some c \<Rightarrow> Inr (c\<lparr>sent := sent c @ [message]\<rparr>))"

text \<open>The body of the streaming loop: \<open>if (chunk.text) onChunk(chunk.text)\<close>.\<close>

definition deliverChunk :: "js_string option \<Rightarrow> js_string option" where
  "deliverChunk t = (if js_truthy t then t else None)"

text \<open>\<open>getAISuggestions\<close>: the request's \<open>contents\<close> and the returned text.\<close>

definition suggestion_contents :: "js_string \<Rightarrow> js_string \<Rightarrow> js_string" where
  "suggestion_contents prompt context =
     ''Context: '' @ context @ [CHR 0x0A, CHR 0x0A] @ ''Task: '' @ prompt"

definition getAISuggestions_result :: "js_string option \<Rightarrow> js_string" where
  "getAISuggestions_result response_text = js_or_default response_text []"

text \<open>
  \<open>generateSKKNStructure\<close>: the parsed JSON object is a record of optional
  fields (a field the response lacks reads as \<open>undefined\<close>).  The parser is a
  parameter: \<open>None\<close> is a \<open>JSON.parse\<close> exception, caught and turned into
  \<open>null\<close>.
\<close>

record skkn_structure =
  s_abstract :: "js_string option"
  s_situation :: "js_string option"
  s_solutions :: "js_string list option"
  s_results :: "js_string option"

definition generateSKKNStructure_result ::
  "(js_string \<Rightarrow> skkn_structure option) \<Rightarrow> js_string option \<Rightarrow> skkn_structure option" where
  "generateSKKNStructure_result json_parse response_text =
     json_parse (js_or_default response_text ''{}'')"

text \<open>The request \<open>contents\<close> of \<open>generateSKKNStructure(title, subject, grade)\<close>.\<close>

definition generateSKKNStructure_contents :: "js_string \<Rightarrow> js_string \<Rightarrow> js_string \<Rightarrow> js_string" where
  "generateSKKNStructure_contents title subj grd =
     ''H'' @ [CHR 0xC3, CHR 0xA3] @ ''y t'' @ [CHR 0xE1, CHR 0xBA, CHR 0xA1] @ ''o s''
     @ [CHR 0xC6, CHR 0xB0, CHR 0xE1, CHR 0xBB, CHR 0x9D] @ ''n n'' @ [CHR 0xE1, CHR 0xBB, CHR 0x99]
     @ ''i dung cho s'' @ [CHR 0xC3, CHR 0xA1] @ ''ng ki'' @ [CHR 0xE1, CHR 0xBA, CHR 0xBF]
     @ ''n kinh nghi'' @ [CHR 0xE1, CHR 0xBB, CHR 0x87] @ ''m:'' @ [CHR 0x0A] @ ''      Ti''
     @ [CHR 0xC3, CHR 0xAA] @ ''u '' @ [CHR 0xC4, CHR 0x91, CHR 0xE1, CHR 0xBB, CHR 0x81] @ '': '' @ title
     @ [CHR 0x0A] @ ''      M'' @ [CHR 0xC3, CHR 0xB4] @ ''n: '' @ subj
     @ [CHR 0x0A] @ ''      Kh'' @ [CHR 0xE1, CHR 0xBB, CHR 0x91] @ ''i: '' @ grd"

subsection \<open>The streaming loop\<close>

text \<open>
  The loop \<open>for await (const chunk of responseStream) if (chunk.text) onChunk(chunk.text)\<close>
  of \<open>sendMessageStream\<close>.  The response stream is an iterator: its \<open>i\<close>-th step
  yields a chunk (whose \<open>text\<close> may be undefined), ends, or rejects with an error,
  which the \<open>catch\<close> rethrows.  Nothing bounds the number of chunks, so the loop is
  a \<open>partial_function\<close>: \<open>None\<close> is a loop that never leaves.  Its result records
  the texts handed to \<open>onChunk\<close>, in order, and how the loop left.
\<close>

datatype stream_item = Yield "js_string option" | StreamDone | StreamFail js_string

datatype stream_result = Completed "js_string list" | Failed js_string "js_string list"

fun is_yield :: "stream_item \<Rightarrow> bool" where
  "is_yield (Yield c) = True"
| "is_yield StreamDone = False"
| "is_yield (StreamFail e) = False"

partial_function (option) consume_stream ::
  "(nat \<Rightarrow> stream_item) \<Rightarrow> nat \<Rightarrow> js_string list \<Rightarrow> stream_result option" where
  "consume_stream nx i delivered =
     (case nx i of
        StreamDone \<Rightarrow> Some (Completed delivered)
      | StreamFail e \<Rightarrow> Some (Failed e delivered)
      | Yield c \<Rightarrow>
          consume_stream nx (Suc i)
            (case deliverChunk c of None \<Rightarrow> delivered | Some t \<Rightarrow> delivered @ [t]))"

text \<open>A finite response: the chunks in order, then the way the stream ends.\<close>

definition finite_stream :: "js_string option list \<Rightarrow> stream_item \<Rightarrow> nat \<Rightarrow> stream_item" where
  "finite_stream cs ending i = (if i < length cs then Yield (cs ! i) else ending)"

text \<open>How a stream ends: normally, or with the rejection \<open>e\<close> that the loop rethrows.\<close>

definition stream_ending :: "js_string option \<Rightarrow> stream_item" where
  "stream_ending fail = (case fail of None \<Rightarrow> StreamDone | Some e \<Rightarrow> StreamFail e)"

subsection \<open>Lemmas\<close>

lemma sendMessageStream_None [simp]:
  "sendMessageStream None m = Inl session_not_initialized"
  by (simp add: sendMessageStream_def)

lemma sendMessageStream_Some [simp]:
  "sendMessageStream (Some c) m = Inr (c\<lparr>sent := sent c @ [m]\<rparr>)"
  by (simp add: sendMessageStream_def)

lemma deliverChunk_Some_iff: "deliverChunk t = Some s \<longleftrightarrow> t = Some s \<and> s \<noteq> []"
  by (cases t) (auto simp: deliverChunk_def)

lemma deliverChunk_None_iff: "deliverChunk t = None \<longleftrightarrow> opt_text t = []"
  by (cases t) (auto simp: deliverChunk_def)

text \<open>
  Dropping the chunks with an empty or missing text does not change what the
  delivered texts concatenate to.
\<close>

lemma concat_delivered:
  "concat (map (\<lambda>c. opt_text (deliverChunk c)) cs) = concat (map opt_text cs)"
proof -
  have "opt_text (deliverChunk c) = opt_text c" for c
    by (cases c) (simp_all add: deliverChunk_def)
  then show ?thesis by simp
qed

lemma consume_stream_Done: "nx i = StreamDone \<Longrightarrow> consume_stream nx i acc = Some (Completed acc)"
  by (simp add: consume_stream.simps [of _ i])

lemma consume_stream_Fail: "nx i = StreamFail e \<Longrightarrow> consume_stream nx i acc = Some (Failed e acc)"
  by (simp add: consume_stream.simps [of _ i])

lemma consume_stream_Yield:
  "nx i = Yield c \<Longrightarrow>
   consume_stream nx i acc
   = consume_stream nx (Suc i) (case deliverChunk c of None \<Rightarrow> acc | Some t \<Rightarrow> acc @ [t])"
  by (simp add: consume_stream.simps [of _ i])

lemmas consume_stream_unfold = consume_stream_Done consume_stream_Fail consume_stream_Yield

lemma consume_stream_ends:
  "\<not> is_yield (nx (i + k)) \<Longrightarrow> \<exists>r. consume_stream nx i acc = Some r"
proof (induction k arbitrary: i acc)
  case 0
  then show ?case by (cases "nx i") (simp_all add: consume_stream_unfold)
next
  case (Suc k)
  show ?case
  proof (cases "nx i")
    case (Yield c)
    have "\<not> is_yield (nx (Suc i + k))" using Suc.prems by simp
    from Suc.IH [OF this] Yield show ?thesis by (simp add: consume_stream_Yield)
  qed (simp_all add: consume_stream_unfold)
qed

lemma consume_stream_returns:
  assumes ret: "consume_stream nx i acc = Some r"
  shows "\<exists>n. \<not> is_yield (nx n)"
proof (rule consume_stream.raw_induct [where P = "\<lambda>nx i acc r. \<exists>n. \<not> is_yield (nx n)", OF _ ret])
  fix f nx i acc r
  assume IH: "\<And>nx i acc r. f nx i acc = Some r \<Longrightarrow> \<exists>n. \<not> is_yield (nx n)"
    and eq: "(case nx i of StreamDone \<Rightarrow> Some (Completed acc) | StreamFail e \<Rightarrow> Some (Failed e acc)
       | Yield c \<Rightarrow> f nx (Suc i) (case deliverChunk c of None \<Rightarrow> acc | Some t \<Rightarrow> acc @ [t])) = Some r"
  show "\<exists>n. \<not> is_yield (nx n)"
  proof (cases "nx i")
    case (Yield c)
    with eq IH show ?thesis by auto
  next
    case StreamDone
    then show ?thesis by (intro exI [of _ i]) simp
  next
    case (StreamFail e)
    then show ?thesis by (intro exI [of _ i]) simp
  qed
qed

lemma consume_finite:
  "\<not> is_yield ending \<Longrightarrow> i \<le> length cs \<Longrightarrow>
   consume_stream (finite_stream cs ending) i acc
   = Some (case ending of StreamFail e \<Rightarrow> Failed e (acc @ map the (filter js_truthy (drop i cs)))
           | _ \<Rightarrow> Completed (acc @ map the (filter js_truthy (drop i cs))))"
proof (induction "length cs - i" arbitrary: i acc)
  case 0
  then have "i = length cs" by simp
  with 0 show ?case by (cases ending) (simp_all add: consume_stream_unfold finite_stream_def)
next
  case (Suc m)
  then have lt: "i < length cs" by simp
  have d: "drop i cs = cs ! i # drop (Suc i) cs" using lt by (simp add: Cons_nth_drop_Suc)
  have y: "finite_stream cs ending i = Yield (cs ! i)" using lt by (simp add: finite_stream_def)
  have ih: "consume_stream (finite_stream cs ending) (Suc i) a
     = Some (case ending of StreamFail e \<Rightarrow> Failed e (a @ map the (filter js_truthy (drop (Suc i) cs)))
             | _ \<Rightarrow> Completed (a @ map the (filter js_truthy (drop (Suc i) cs))))" for a
    using Suc.hyps Suc.prems(1) lt by simp
  show ?case unfolding d consume_stream_Yield [where nx = "finite_stream cs ending", OF y] ih
    by (cases "cs ! i") (auto simp: deliverChunk_def split: stream_item.splits)
qed

lemma consume_finite_outcome:
  "consume_stream (finite_stream cs (stream_ending fail)) 0 []
   = Some (case fail of None \<Rightarrow> Completed (map the (filter js_truthy cs))
           | Some e \<Rightarrow> Failed e (map the (filter js_truthy cs)))"
  using consume_finite [of "stream_ending fail" 0 cs "[]"]
  by (cases fail) (simp_all add: stream_ending_def)

lemma concat_delivered_texts: "concat (map the (filter js_truthy cs)) = concat (map opt_text cs)"
  by (induction cs) (auto elim: js_truthy.elims)

text \<open>C10: The streaming loop of \<open>sendMessageStream\<close> leaves (normally or by a
  rejection) exactly when the response stream stops yielding chunks at some point; a
  stream that yields for ever keeps the loop, and the handler awaiting it, running.\<close>

theorem consume_stream_terminates:
  "(\<exists>r. consume_stream nx 0 [] = Some r) \<longleftrightarrow> (\<exists>n. \<not> is_yield (nx n))"
  using consume_stream_ends [of nx 0] consume_stream_returns by auto

theorem consume_stream_terminates_witness:
  "(\<exists>r. consume_stream (finite_stream [Some ''a'', None, Some ''''] StreamDone) 0 [] = Some r)
   \<and> consume_stream (\<lambda>i. Yield None) 0 [] = None"
proof -
  have e: "\<not> is_yield (finite_stream [Some ''a'', None, Some ''''] StreamDone 3)"
    by (simp add: finite_stream_def)
  have "\<not> (\<exists>n. \<not> is_yield ((\<lambda>i. Yield None) n))" by simp
  then have "consume_stream (\<lambda>i. Yield None) 0 [] = None"
    using consume_stream_terminates [of "\<lambda>i. Yield None"] by auto
  moreover have "\<exists>r. consume_stream (finite_stream [Some ''a'', None, Some ''''] StreamDone) 0 [] = Some r"
    using consume_stream_terminates [of "finite_stream [Some ''a'', None, Some ''''] StreamDone"] e by blast
  ultimately show ?thesis by blast
qed

end
