(* ===== verification/Sequencer.thy ===== *)
theory Sequencer
  imports Gemini
begin

text \<open>
  The document-generation step sequencer of \<^verbatim>\<open>src/App.tsx\<close>: the handlers
  \<open>handleUserChange\<close>, \<open>startGeneration\<close> and \<open>generateNextSection\<close>, their
  transition table \<open>nextStepMap\<close> and the streaming callbacks that accumulate
  the document.

  \<^bold>\<open>Asynchrony.\<close>  Each handler is an \<open>async\<close> function.  It runs
  synchronously up to its \<open>await sendMessageStream(..)\<close>; the rest runs later,
  once per streamed chunk (the \<open>onChunk\<close> callback) and once when the stream ends
  (the code after the \<open>await\<close>) or fails (the \<open>catch\<close> block).  The model
  makes each of these pieces one atomic transition of a world state
  \<open>app_world\<close> and keeps the continuations still to run in \<open>streams\<close>, a map
  from a stream identifier to what the continuation needs: the local variable
  \<open>generatedText\<close> of \<open>startGeneration\<close> (\<open>StartStream\<close>) or the target
  phase \<open>currentAction.nextStep\<close> of \<open>generateNextSection\<close>
  (\<open>NextStream\<close>).  React's functional updates \<open>setState(prev => ..)\<close> are
  applied in order, so each piece updates the current state.  Events
  (\<open>event\<close>) are the user's actions and the service's deliveries; a run is a
  list of events.  The handlers read \<open>state.step\<close> of the render they were
  created in; events are taken to happen after React re-rendered, so that is
  the current phase.
\<close>

subsection \<open>The fixed texts and the transition table\<close>

definition API_KEY_ERROR :: js_string where
  "API_KEY_ERROR =
     ''C'' @ [CHR 0xE1, CHR 0xBA, CHR 0xA5] @ ''u h'' @ [CHR 0xC3, CHR 0xAC] @ ''nh API Key kh'' @
     [CHR 0xC3, CHR 0xB4] @ ''ng h'' @ [CHR 0xE1, CHR 0xBB, CHR 0xA3] @ ''p l'' @
     [CHR 0xE1, CHR 0xBB, CHR 0x87] @ ''.''"

text \<open>The template literal \<open>initMessage\<close>, with its line breaks and indentation.\<close>

definition initMessage :: "user_info \<Rightarrow> js_string" where
  "initMessage u =
     (''Ch'' @ [CHR 0xC3, CHR 0xA0] @ ''o chuy'' @ [CHR 0xC3, CHR 0xAA] @ ''n gia. T'' @
      [CHR 0xC3, CHR 0xB4] @ ''i l'' @ [CHR 0xC3, CHR 0xA0] @ '' gi'' @ [CHR 0xC3, CHR 0xA1] @
      ''o vi'' @ [CHR 0xC3, CHR 0xAA] @ ''n VANHA, c'' @ [CHR 0xE1, CHR 0xBA, CHR 0xA7] @ ''n vi'' @
      [CHR 0xE1, CHR 0xBA, CHR 0xBF] @ ''t SKKN.'' @ [CHR 0x0A] @ ''      Th'' @ [CHR 0xC3, CHR 0xB4] @
      ''ng tin:'' @ [CHR 0x0A] @ ''      - '' @ [CHR 0xC4, CHR 0x90, CHR 0xE1, CHR 0xBB, CHR 0x81] @
      '' t'' @ [CHR 0xC3, CHR 0xA0] @ ''i: '') @
     topic u @
     ([CHR 0x0A] @ ''      - M'' @ [CHR 0xC3, CHR 0xB4] @ ''n h'' @ [CHR 0xE1, CHR 0xBB, CHR 0x8D] @
      ''c: '') @
     subject u @
     ([CHR 0x0A] @ ''      - Kh'' @ [CHR 0xE1, CHR 0xBB, CHR 0x91] @ ''i: '') @
     grade u @
     ([CHR 0x0A] @ ''      - Tr'' @ [CHR 0xC6, CHR 0xB0, CHR 0xE1, CHR 0xBB, CHR 0x9D] @ ''ng: '') @
     school u @
     ([CHR 0x0A] @ ''      - B'' @ [CHR 0xE1, CHR 0xBB, CHR 0x99] @ '' s'' @ [CHR 0xC3, CHR 0xA1] @
      ''ch: '') @
     textbook u @
     ([CHR 0x0A] @ ''      H'' @ [CHR 0xC3, CHR 0xA3] @ ''y b'' @ [CHR 0xE1, CHR 0xBA, CHR 0xAF] @
      ''t '' @ [CHR 0xC4, CHR 0x91, CHR 0xE1, CHR 0xBA, CHR 0xA7] @ ''u D'' @ [CHR 0xC3, CHR 0xA0] @
      ''n '' @ [CHR 0xC3, CHR 0xBD] @ '' chi ti'' @ [CHR 0xE1, CHR 0xBA, CHR 0xBF] @ ''t cho t'' @
      [CHR 0xC3, CHR 0xB4] @ ''i.'')"

text \<open>
  \<open>nextStepMap\<close> of \<open>generateNextSection\<close>: the prompt and the target phase for
  each phase that has an entry; \<open>None\<close> is \<open>currentAction\<close> being
  \<open>undefined\<close>.  The entry for \<open>PART_V_VI\<close> has the empty prompt.
\<close>

fun nextStepMap :: "generation_step \<Rightarrow> (js_string \<times> generation_step) option" where
  "nextStepMap OUTLINE =
     Some (''Vi'' @ [CHR 0xE1, CHR 0xBA, CHR 0xBF] @ ''t chi ti'' @ [CHR 0xE1, CHR 0xBA, CHR 0xBF] @
           ''t Ph'' @ [CHR 0xE1, CHR 0xBA, CHR 0xA7] @ ''n I & II.'', PART_I_II)"
| "nextStepMap PART_I_II =
     Some (''Vi'' @ [CHR 0xE1, CHR 0xBA, CHR 0xBF] @ ''t chi ti'' @ [CHR 0xE1, CHR 0xBA, CHR 0xBF] @
           ''t Ph'' @ [CHR 0xE1, CHR 0xBA, CHR 0xA7] @ ''n III.'', PART_III)"
| "nextStepMap PART_III =
     Some (''Vi'' @ [CHR 0xE1, CHR 0xBA, CHR 0xBF] @ ''t chi ti'' @ [CHR 0xE1, CHR 0xBA, CHR 0xBF] @
           ''t Gi'' @ [CHR 0xE1, CHR 0xBA, CHR 0xA3] @ ''i ph'' @ [CHR 0xC3, CHR 0xA1] @ ''p 1.'',
           PART_IV_SOL1)"
| "nextStepMap PART_IV_SOL1 =
     Some (''Vi'' @ [CHR 0xE1, CHR 0xBA, CHR 0xBF] @ ''t c'' @ [CHR 0xC3, CHR 0xA1] @ ''c gi'' @
           [CHR 0xE1, CHR 0xBA, CHR 0xA3] @ ''i ph'' @ [CHR 0xC3, CHR 0xA1] @ ''p c'' @
           [CHR 0xC3, CHR 0xB2] @ ''n l'' @ [CHR 0xE1, CHR 0xBA, CHR 0xA1] @ ''i.'', PART_IV_SOL2)"
| "nextStepMap PART_IV_SOL2 =
     Some (''Vi'' @ [CHR 0xE1, CHR 0xBA, CHR 0xBF] @ ''t Ph'' @ [CHR 0xE1, CHR 0xBA, CHR 0xA7] @
           ''n V, VI v'' @ [CHR 0xC3, CHR 0xA0] @ '' Ph'' @ [CHR 0xE1, CHR 0xBB, CHR 0xA5] @ '' l'' @
           [CHR 0xE1, CHR 0xBB, CHR 0xA5] @ ''c.'', PART_V_VI)"
| "nextStepMap PART_V_VI = Some ([], COMPLETED)"
| "nextStepMap INPUT_FORM = None"
| "nextStepMap APPENDIX = None"
| "nextStepMap COMPLETED = None"

text \<open>
  The phase a successful stream of \<open>generateNextSection\<close> settles on:
  \<open>currentAction.nextStep === PART_V_VI ? COMPLETED : currentAction.nextStep\<close>.
\<close>

definition settled_step :: "generation_step \<Rightarrow> generation_step" where
  "settled_step n = (if n = PART_V_VI then COMPLETED else n)"

subsection \<open>World state and events\<close>

datatype stream_kind = StartStream js_string | NextStream generation_step

record app_world =
  userInfo :: user_info
  state :: generation_state
  apiKey :: "js_string option"
  chatSession :: "chat option"
  chatsCreated :: nat
  streams :: "nat \<rightharpoonup> stream_kind"
  nextId :: nat

definition init_world :: "js_string option \<Rightarrow> app_world" where
  "init_world k =
     \<lparr>userInfo = empty_user_info, state = init_generation_state, apiKey = k,
      chatSession = None, chatsCreated = 0, streams = Map.empty, nextId = 0\<rparr>"

datatype user_field = Topic | Subject | Grade | School | Textbook

datatype event =
    UserChange user_field js_string
  | ClickStart
  | ClickNext
  | Chunk nat "js_string option"
  | StreamEnd nat
  | StreamError nat js_string

subsection \<open>Handlers\<close>

text \<open>\<open>handleUserChange\<close>: \<open>setUserInfo(prev => ({...prev, [field]: value}))\<close>.\<close>

fun handleUserChange :: "user_field \<Rightarrow> js_string \<Rightarrow> user_info \<Rightarrow> user_info" where
  "handleUserChange Topic v u = u\<lparr>topic := v\<rparr>"
| "handleUserChange Subject v u = u\<lparr>subject := v\<rparr>"
| "handleUserChange Grade v u = u\<lparr>grade := v\<rparr>"
| "handleUserChange School v u = u\<lparr>school := v\<rparr>"
| "handleUserChange Textbook v u = u\<lparr>textbook := v\<rparr>"

text \<open>\<open>!process.env.API_KEY\<close>: the key is missing or empty.\<close>

definition api_key_ok :: "js_string option \<Rightarrow> bool" where
  "api_key_ok k = js_truthy k"

text \<open>
  The synchronous part of \<open>startGeneration\<close>: the key guard with its early
  return; then the first \<open>setState\<close>, \<open>initializeGeminiChat()\<close>, the message and
  the call of \<open>sendMessageStream\<close>, whose rejection would run the \<open>catch\<close>.
\<close>

definition startGeneration :: "app_world \<Rightarrow> app_world" where
  "startGeneration w =
     (if \<not> api_key_ok (apiKey w)
      then w\<lparr>state := (state w)\<lparr>error := Some API_KEY_ERROR\<rparr>\<rparr>
      else
        let s1 = (state w)\<lparr>step := OUTLINE, isStreaming := True, error := None\<rparr>;
            c = initializeGeminiChat (chatsCreated w);
            w1 = w\<lparr>state := s1, chatSession := Some c, chatsCreated := Suc (chatsCreated w)\<rparr>
        in case sendMessageStream (chatSession w1) (initMessage (userInfo w)) of
             Inl e \<Rightarrow> w1\<lparr>state := s1\<lparr>isStreaming := False, error := Some e\<rparr>\<rparr>
           | Inr c' \<Rightarrow> w1\<lparr>chatSession := Some c',
                         streams := (streams w)(nextId w \<mapsto> StartStream []),
                         nextId := Suc (nextId w)\<rparr>)"

text \<open>
  The synchronous part of \<open>generateNextSection\<close>: the table lookup with its early
  return, the optimistic \<open>setState\<close> of the target phase, and the call of
  \<open>sendMessageStream\<close>; without a session the promise rejects and the \<open>catch\<close>
  runs.
\<close>

definition generateNextSection :: "app_world \<Rightarrow> app_world" where
  "generateNextSection w =
     (case nextStepMap (step (state w)) of
        None \<Rightarrow> w
      | Some (prompt, nxt) \<Rightarrow>
          let s1 = (state w)\<lparr>isStreaming := True, error := None, step := nxt\<rparr>
          in case sendMessageStream (chatSession w) prompt of
               Inl e \<Rightarrow> w\<lparr>state := s1\<lparr>isStreaming := False, error := Some e\<rparr>\<rparr>
             | Inr c \<Rightarrow> w\<lparr>state := s1, chatSession := Some c,
                          streams := (streams w)(nextId w \<mapsto> NextStream nxt),
                          nextId := Suc (nextId w)\<rparr>)"

text \<open>
  The \<open>onChunk\<close> callback of \<open>startGeneration\<close>: append the chunk to the local
  \<open>generatedText\<close> and store that as the whole document.
\<close>

definition startGeneration_onChunk ::
  "js_string \<Rightarrow> js_string \<Rightarrow> generation_state \<Rightarrow> js_string \<times> generation_state" where
  "startGeneration_onChunk generatedText chunk s =
     (let generatedText' = generatedText @ chunk
      in (generatedText', s\<lparr>fullDocument := generatedText'\<rparr>))"

text \<open>The \<open>onChunk\<close> callback of \<open>generateNextSection\<close>: append to the current document.\<close>

definition generateNextSection_onChunk :: "js_string \<Rightarrow> generation_state \<Rightarrow> generation_state" where
  "generateNextSection_onChunk chunk s = s\<lparr>fullDocument := fullDocument s @ chunk\<rparr>"

text \<open>The code after the \<open>await\<close> of each handler, run when the stream ends normally.\<close>

definition startGeneration_onEnd :: "generation_state \<Rightarrow> generation_state" where
  "startGeneration_onEnd s = s\<lparr>isStreaming := False\<rparr>"

definition generateNextSection_onEnd :: "generation_step \<Rightarrow> generation_state \<Rightarrow> generation_state" where
  "generateNextSection_onEnd nxt s = s\<lparr>isStreaming := False, step := settled_step nxt\<rparr>"

text \<open>The two \<open>catch\<close> blocks, which are the same.\<close>

definition onStreamError :: "js_string \<Rightarrow> generation_state \<Rightarrow> generation_state" where
  "onStreamError e s = s\<lparr>isStreaming := False, error := Some e\<rparr>"

text \<open>Which continuation a pending stream runs.\<close>

fun onStreamChunk ::
  "stream_kind \<Rightarrow> js_string \<Rightarrow> generation_state \<Rightarrow> stream_kind \<times> generation_state" where
  "onStreamChunk (StartStream g) t s =
     (case startGeneration_onChunk g t s of (g', s') \<Rightarrow> (StartStream g', s'))"
| "onStreamChunk (NextStream n) t s = (NextStream n, generateNextSection_onChunk t s)"

fun onStreamEnd :: "stream_kind \<Rightarrow> generation_state \<Rightarrow> generation_state" where
  "onStreamEnd (StartStream g) s = startGeneration_onEnd s"
| "onStreamEnd (NextStream n) s = generateNextSection_onEnd n s"

definition chunk_event :: "app_world \<Rightarrow> nat \<Rightarrow> js_string option \<Rightarrow> app_world" where
  "chunk_event w i c =
     (case streams w i of
        None \<Rightarrow> w
      | Some k \<Rightarrow>
          (case deliverChunk c of
             None \<Rightarrow> w
           | Some t \<Rightarrow>
               (case onStreamChunk k t (state w) of
                  (k', s') \<Rightarrow> w\<lparr>state := s', streams := (streams w)(i \<mapsto> k')\<rparr>)))"

definition end_event :: "app_world \<Rightarrow> nat \<Rightarrow> app_world" where
  "end_event w i =
     (case streams w i of
        None \<Rightarrow> w
      | Some k \<Rightarrow> w\<lparr>state := onStreamEnd k (state w), streams := (streams w)(i := None)\<rparr>)"

definition error_event :: "app_world \<Rightarrow> nat \<Rightarrow> js_string \<Rightarrow> app_world" where
  "error_event w i e =
     (case streams w i of
        None \<Rightarrow> w
      | Some k \<Rightarrow> w\<lparr>state := onStreamError e (state w), streams := (streams w)(i := None)\<rparr>)"

fun app_step :: "app_world \<Rightarrow> event \<Rightarrow> app_world" where
  "app_step w (UserChange f v) = w\<lparr>userInfo := handleUserChange f v (userInfo w)\<rparr>"
| "app_step w ClickStart = startGeneration w"
| "app_step w ClickNext = generateNextSection w"
| "app_step w (Chunk i c) = chunk_event w i c"
| "app_step w (StreamEnd i) = end_event w i"
| "app_step w (StreamError i e) = error_event w i e"

fun run :: "app_world \<Rightarrow> event list \<Rightarrow> app_world" where
  "run w [] = w"
| "run w (e # es) = run (app_step w e) es"

subsection \<open>Example worlds\<close>

text \<open>Fixed worlds at which the properties below are instantiated.\<close>

definition demo_started :: app_world where
  "demo_started = run (init_world (Some ''key'')) [ClickStart]"

definition demo_outline :: app_world where
  "demo_outline = run (init_world (Some ''key'')) [ClickStart, Chunk 0 (Some ''ab''), StreamEnd 0]"

definition demo_next :: app_world where
  "demo_next = run demo_outline [ClickNext]"

definition demo_at :: "generation_step \<Rightarrow> app_world" where
  "demo_at s = demo_outline\<lparr>state := (state demo_outline)\<lparr>step := s\<rparr>\<rparr>"

definition demo_no_session :: app_world where
  "demo_no_session = (init_world (Some ''key''))\<lparr>state := init_generation_state\<lparr>step := OUTLINE\<rparr>\<rparr>"

declare generateNextSection_onChunk_def [simp]
  startGeneration_onEnd_def [simp] generateNextSection_onEnd_def [simp]

declare startGeneration_def [handler_simps] generateNextSection_def [handler_simps]
  chunk_event_def [handler_simps] end_event_def [handler_simps] error_event_def [handler_simps]
  api_key_ok_def [handler_simps] deliverChunk_def [handler_simps] onStreamError_def [handler_simps]
  settled_step_def [handler_simps] init_world_def [handler_simps]
  init_generation_state_def [handler_simps] empty_user_info_def [handler_simps]
  initializeGeminiChat_def [handler_simps]

subsection \<open>Runs\<close>

lemma startGeneration_onChunk_eq [simp]:
  "startGeneration_onChunk g t s = (g @ t, s\<lparr>fullDocument := g @ t\<rparr>)"
  by (simp add: startGeneration_onChunk_def Let_def)

lemma run_append: "run w (xs @ ys) = run (run w xs) ys"
  by (induction xs arbitrary: w) simp_all

lemma nextStepMap_None_iff:
  "nextStepMap s = None \<longleftrightarrow> s \<in> {INPUT_FORM, APPENDIX, COMPLETED}"
  by (cases s) simp_all

lemma nextStepMap_Some_step:
  "nextStepMap s = Some (p, n) \<Longrightarrow> s < n"
  by (cases s) auto

lemma settled_step_ge: "n \<le> settled_step n"
  by (simp add: settled_step_def)

subsection \<open>The stream callbacks\<close>

text \<open>
  A chunk for a stream of \<open>generateNextSection\<close> appends its text, if truthy, to
  the document and changes nothing else.
\<close>

lemma chunk_event_next:
  assumes "streams w i = Some (NextStream n)"
  shows "chunk_event w i c =
           w\<lparr>state := (state w)\<lparr>fullDocument := fullDocument (state w) @ opt_text c\<rparr>\<rparr>"
proof (cases "deliverChunk c")
  case None
  then have "opt_text c = []" by (simp add: deliverChunk_None_iff)
  with None assms show ?thesis by (simp add: chunk_event_def)
next
  case (Some t)
  then have "c = Some t" by (simp add: deliverChunk_Some_iff)
  with Some assms show ?thesis by (simp add: chunk_event_def map_upd_triv)
qed

lemma run_next_chunks:
  assumes "streams w i = Some (NextStream n)"
  shows "run w (map (Chunk i) cs) =
           w\<lparr>state := (state w)\<lparr>fullDocument := fullDocument (state w) @ concat (map opt_text cs)\<rparr>\<rparr>"
  using assms by (induction cs arbitrary: w) (simp_all add: chunk_event_next)

text \<open>
  A chunk for the stream of \<open>startGeneration\<close> appends its text to the local
  \<open>generatedText\<close> and makes that the document.
\<close>

lemma chunk_event_start:
  assumes "streams w i = Some (StartStream g)"
  shows "chunk_event w i c =
           (if opt_text c = [] then w
            else w\<lparr>state := (state w)\<lparr>fullDocument := g @ opt_text c\<rparr>,
                   streams := (streams w)(i \<mapsto> StartStream (g @ opt_text c))\<rparr>)"
proof (cases "deliverChunk c")
  case None
  then have "opt_text c = []" by (simp add: deliverChunk_None_iff)
  with None assms show ?thesis by (simp add: chunk_event_def)
next
  case (Some t)
  then have "c = Some t" "t \<noteq> []" by (simp_all add: deliverChunk_Some_iff)
  with Some assms show ?thesis by (simp add: chunk_event_def)
qed

lemma run_start_chunks:
  assumes "streams w i = Some (StartStream g)"
  shows "run w (map (Chunk i) cs) =
           (if concat (map opt_text cs) = [] then w
            else w\<lparr>state := (state w)\<lparr>fullDocument := g @ concat (map opt_text cs)\<rparr>,
                   streams := (streams w)(i \<mapsto> StartStream (g @ concat (map opt_text cs)))\<rparr>)"
  using assms
proof (induction cs arbitrary: w g)
  case Nil
  then show ?case by simp
next
  case (Cons c cs)
  show ?case
  proof (cases "opt_text c = []")
    case True
    with Cons show ?thesis by (simp add: chunk_event_start)
  next
    case False
    let ?w1 = "w\<lparr>state := (state w)\<lparr>fullDocument := g @ opt_text c\<rparr>,
                 streams := (streams w)(i \<mapsto> StartStream (g @ opt_text c))\<rparr>"
    have "streams ?w1 i = Some (StartStream (g @ opt_text c))" by simp
    from Cons.IH [OF this] False Cons.prems show ?thesis
      by (cases "concat (map opt_text cs) = []")
        (simp_all add: chunk_event_start del: concat_eq_Nil_conv)
  qed
qed

subsection \<open>The handlers on every branch\<close>

lemma generateNextSection_Some:
  assumes "nextStepMap (step (state w)) = Some (p, n)" and "chatSession w = Some c"
  shows "generateNextSection w =
           w\<lparr>state := (state w)\<lparr>isStreaming := True, error := None, step := n\<rparr>,
             chatSession := Some (c\<lparr>sent := sent c @ [p]\<rparr>),
             streams := (streams w)(nextId w \<mapsto> NextStream n),
             nextId := Suc (nextId w)\<rparr>"
  using assms by (simp add: generateNextSection_def)

text \<open>
  One whole step of the sequencer: the click, the chunks of its stream, and the
  normal end of the stream.
\<close>

lemma run_advance:
  assumes "nextStepMap (step (state w)) = Some (p, n)" and "chatSession w = Some c"
  shows "run w (ClickNext # map (Chunk (nextId w)) cs @ [StreamEnd (nextId w)]) =
           w\<lparr>state := (state w)\<lparr>isStreaming := False, error := None, step := settled_step n,
                fullDocument := fullDocument (state w) @ concat (map opt_text cs)\<rparr>,
             chatSession := Some (c\<lparr>sent := sent c @ [p]\<rparr>),
             streams := (streams w)(nextId w := None),
             nextId := Suc (nextId w)\<rparr>"
proof -
  let ?w1 = "generateNextSection w"
  have w1: "?w1 = w\<lparr>state := (state w)\<lparr>isStreaming := True, error := None, step := n\<rparr>,
             chatSession := Some (c\<lparr>sent := sent c @ [p]\<rparr>),
             streams := (streams w)(nextId w \<mapsto> NextStream n),
             nextId := Suc (nextId w)\<rparr>"
    using assms by (rule generateNextSection_Some)
  then have "streams ?w1 (nextId w) = Some (NextStream n)" by simp
  then have "run ?w1 (map (Chunk (nextId w)) cs) =
               ?w1\<lparr>state := (state ?w1)\<lparr>fullDocument :=
                  fullDocument (state ?w1) @ concat (map opt_text cs)\<rparr>\<rparr>"
    by (rule run_next_chunks)
  with w1 show ?thesis by (simp add: run_append end_event_def)
qed

text \<open>C11: Without a usable API key \<open>startGeneration\<close> only records the error message:
  the phase stays where it was, no session is opened and no request is sent.\<close>

theorem startGeneration_missing_key:
  "\<not> api_key_ok (apiKey w) \<Longrightarrow>
   startGeneration w = w\<lparr>state := (state w)\<lparr>error := Some API_KEY_ERROR\<rparr>\<rparr>"
  by (simp add: startGeneration_def)

text \<open>C12: With a key, \<open>startGeneration\<close> moves to \<open>OUTLINE\<close>, sets the streaming flag and
  clears the error before any fragment arrives, replaces the session by a fresh
  one whose only message is the initial prompt built from the form, and leaves
  one stream pending; the document is not touched yet.  The five form fields are
  not checked here.\<close>

theorem startGeneration_with_key:
  "api_key_ok (apiKey w) \<Longrightarrow>
   startGeneration w =
     w\<lparr>state := (state w)\<lparr>step := OUTLINE, isStreaming := True, error := None\<rparr>,
       chatSession := Some \<lparr>chatNo = chatsCreated w, chat_cfg = gemini_config, sent = [initMessage (userInfo w)]\<rparr>,
       chatsCreated := Suc (chatsCreated w),
       streams := (streams w)(nextId w \<mapsto> StartStream []),
       nextId := Suc (nextId w)\<rparr>"
  by (simp add: startGeneration_def initializeGeminiChat_def Let_def)

text \<open>\<open>generateNextSection\<close> is a no-op exactly in the phases without a table entry:
  \<open>INPUT_FORM\<close>, \<open>APPENDIX\<close> and \<open>COMPLETED\<close>.\<close>

theorem generateNextSection_noop:
  "generateNextSection w = w \<longleftrightarrow> step (state w) \<in> {INPUT_FORM, APPENDIX, COMPLETED}"
proof
  assume "step (state w) \<in> {INPUT_FORM, APPENDIX, COMPLETED}"
  then have "nextStepMap (step (state w)) = None" by (simp add: nextStepMap_None_iff)
  then show "generateNextSection w = w" by (simp add: generateNextSection_def)
next
  assume eq: "generateNextSection w = w"
  show "step (state w) \<in> {INPUT_FORM, APPENDIX, COMPLETED}"
  proof (rule ccontr)
    assume "step (state w) \<notin> {INPUT_FORM, APPENDIX, COMPLETED}"
    then obtain p n where map: "nextStepMap (step (state w)) = Some (p, n)"
      by (cases "nextStepMap (step (state w))") (auto simp: nextStepMap_None_iff)
    then have "step (state w) < n" by (rule nextStepMap_Some_step)
    moreover from map have "step (state (generateNextSection w)) = n"
      by (simp add: generateNextSection_def Let_def split: sum.splits)
    ultimately show False using eq by simp
  qed
qed

text \<open>C6: One advance of the sequencer: the click sends the table's prompt on the
  session, and after the stream's fragments and its normal end the phase is the
  settled target, the fragments are appended to the document in order, the flag
  is cleared and the error is empty.\<close>

theorem advance_stream_completes:
  assumes "nextStepMap (step (state w)) = Some (p, n)" and "chatSession w = Some c"
  shows "state (run w (ClickNext # map (Chunk (nextId w)) cs @ [StreamEnd (nextId w)])) =
           (state w)\<lparr>isStreaming := False, error := None, step := settled_step n,
              fullDocument := fullDocument (state w) @ concat (map opt_text cs)\<rparr>
         \<and> chatSession (run w (ClickNext # map (Chunk (nextId w)) cs @ [StreamEnd (nextId w)])) =
           Some (c\<lparr>sent := sent c @ [p]\<rparr>)"
  using run_advance [OF assms] by simp

text \<open>C7: Advancing from \<open>PART_IV_SOL2\<close> shows \<open>PART_V_VI\<close> while the stream runs and
  ends in \<open>COMPLETED\<close>, never resting in \<open>PART_V_VI\<close>.\<close>

theorem advance_from_PART_IV_SOL2:
  assumes "step (state w) = PART_IV_SOL2" and "chatSession w = Some c"
  shows "step (state (generateNextSection w)) = PART_V_VI
         \<and> step (state (run w (ClickNext # map (Chunk (nextId w)) cs @ [StreamEnd (nextId w)])))
             = COMPLETED"
proof -
  obtain p where map: "nextStepMap (step (state w)) = Some (p, PART_V_VI)"
    using assms(1) by simp
  show ?thesis
    using generateNextSection_Some [OF map assms(2)] run_advance [OF map assms(2)]
    by (simp add: settled_step_def)
qed

text \<open>C34: In \<open>PART_V_VI\<close> the code's table still has an entry: \<open>generateNextSection\<close>
  sends the empty prompt and moves to \<open>COMPLETED\<close>, where the specification
  says it is a no-op.\<close>

theorem advance_from_PART_V_VI:
  assumes "step (state w) = PART_V_VI" and "chatSession w = Some c"
  shows "generateNextSection w =
           w\<lparr>state := (state w)\<lparr>isStreaming := True, error := None, step := COMPLETED\<rparr>,
             chatSession := Some (c\<lparr>sent := sent c @ [[]]\<rparr>),
             streams := (streams w)(nextId w \<mapsto> NextStream COMPLETED),
             nextId := Suc (nextId w)\<rparr>"
proof -
  have "nextStepMap (step (state w)) = Some ([], COMPLETED)" using assms(1) by simp
  from generateNextSection_Some [OF this assms(2)] show ?thesis .
qed

text \<open>Without a session \<open>generateNextSection\<close> still moves to the target phase
  and then records \<open>"Chat session not initialized"\<close>: the optimistic phase update
  is not undone.\<close>

theorem advance_without_session:
  assumes "nextStepMap (step (state w)) = Some (p, n)" and "chatSession w = None"
  shows "generateNextSection w =
           w\<lparr>state := (state w)\<lparr>isStreaming := False, error := Some session_not_initialized,
                step := n\<rparr>\<rparr>"
  using assms by (simp add: generateNextSection_def)

text \<open>A stream that fails clears the flag and records the message, keeps the
  phase it had advanced to and the partial document, and is no longer pending.\<close>

theorem stream_error_keeps_step:
  assumes "streams w i = Some k"
  shows "app_step w (StreamError i e) =
           w\<lparr>state := (state w)\<lparr>isStreaming := False, error := Some e\<rparr>,
             streams := (streams w)(i := None)\<rparr>"
  using assms by (simp add: error_event_def onStreamError_def)

text \<open>C14: The fragments of the \<open>startGeneration\<close> stream build the document from its
  local buffer: once some fragment has text the document is that buffer, the
  concatenation of the fragments in order; while none has, the previous document
  is left in place.\<close>

theorem start_fragments_replace:
  assumes "streams w i = Some (StartStream [])"
  shows "fullDocument (state (run w (map (Chunk i) cs))) =
           (if concat (map opt_text cs) = [] then fullDocument (state w)
            else concat (map opt_text cs))"
  using run_start_chunks [OF assms] by simp

subsection \<open>The properties at the example worlds\<close>

lemma demo_outline_facts:
  "step (state demo_outline) = OUTLINE" "fullDocument (state demo_outline) = ''ab''"
  "chatSession demo_outline = Some \<lparr>chatNo = 0, chat_cfg = gemini_config, sent = [initMessage empty_user_info]\<rparr>"
  "nextId demo_outline = 1" "isStreaming (state demo_outline) = False"
  "error (state demo_outline) = None"
  by (simp_all add: demo_outline_def handler_simps Let_def)

lemma demo_next_facts:
  "streams demo_next 1 = Some (NextStream PART_I_II)" "step (state demo_next) = PART_I_II"
  "fullDocument (state demo_next) = ''ab''"
  by (simp_all add: demo_next_def demo_outline_def handler_simps Let_def)

lemma demo_started_facts:
  "streams demo_started 0 = Some (StartStream [])" "fullDocument (state demo_started) = []"
  by (simp_all add: demo_started_def handler_simps Let_def)

theorem startGeneration_missing_key_witness:
  "\<not> api_key_ok (apiKey (init_world None))
   \<and> step (state (startGeneration (init_world None))) = INPUT_FORM
   \<and> error (state (startGeneration (init_world None))) = Some API_KEY_ERROR"
proof -
  have h: "\<not> api_key_ok (apiKey (init_world None))" by (simp add: api_key_ok_def init_world_def)
  show ?thesis
    using h startGeneration_missing_key [OF h] by (simp add: init_world_def init_generation_state_def)
qed

theorem startGeneration_with_key_witness:
  "api_key_ok (apiKey (init_world (Some ''key'')))
   \<and> userInfo (init_world (Some ''key'')) = empty_user_info
   \<and> step (state (startGeneration (init_world (Some ''key'')))) = OUTLINE
   \<and> isStreaming (state (startGeneration (init_world (Some ''key''))))
   \<and> fullDocument (state (startGeneration (init_world (Some ''key'')))) = []"
proof -
  have h: "api_key_ok (apiKey (init_world (Some ''key'')))"
    by (simp add: api_key_ok_def init_world_def)
  show ?thesis
    using h startGeneration_with_key [OF h] by (simp add: init_world_def init_generation_state_def)
qed

theorem generateNextSection_noop_witness:
  "generateNextSection (init_world None) = init_world None
   \<and> generateNextSection demo_outline \<noteq> demo_outline"
  using generateNextSection_noop [of "init_world None"] generateNextSection_noop [of demo_outline]
  by (simp add: init_world_def init_generation_state_def demo_outline_facts)

theorem advance_stream_completes_witness:
  "nextStepMap (step (state demo_outline)) \<noteq> None
   \<and> step (state (run demo_outline
        (ClickNext # map (Chunk 1) [Some ''cd'', None, Some '''', Some ''e''] @ [StreamEnd 1])))
       = PART_I_II
   \<and> fullDocument (state (run demo_outline
        (ClickNext # map (Chunk 1) [Some ''cd'', None, Some '''', Some ''e''] @ [StreamEnd 1])))
       = ''abcde''"
proof -
  obtain p where s: "nextStepMap (step (state demo_outline)) = Some (p, PART_I_II)"
    by (simp add: demo_outline_facts)
  obtain c where c: "chatSession demo_outline = Some c" by (simp add: demo_outline_facts)
  show ?thesis
    using s advance_stream_completes [OF s c, of "[Some ''cd'', None, Some '''', Some ''e'']"]
    by (simp add: demo_outline_facts settled_step_def)
qed

theorem advance_from_PART_IV_SOL2_witness:
  "step (state (demo_at PART_IV_SOL2)) = PART_IV_SOL2
   \<and> chatSession (demo_at PART_IV_SOL2) \<noteq> None
   \<and> step (state (generateNextSection (demo_at PART_IV_SOL2))) = PART_V_VI
   \<and> step (state (run (demo_at PART_IV_SOL2)
        (ClickNext # map (Chunk (nextId (demo_at PART_IV_SOL2))) [Some ''V'']
           @ [StreamEnd (nextId (demo_at PART_IV_SOL2))]))) = COMPLETED"
proof -
  have h1: "step (state (demo_at PART_IV_SOL2)) = PART_IV_SOL2" by (simp add: demo_at_def)
  obtain c where h2: "chatSession (demo_at PART_IV_SOL2) = Some c"
    by (simp add: demo_at_def demo_outline_facts)
  show ?thesis
    using h1 h2 advance_from_PART_IV_SOL2 [OF h1 h2, of "[Some ''V'']"] by simp
qed

theorem advance_from_PART_V_VI_witness:
  "step (state (demo_at PART_V_VI)) = PART_V_VI
   \<and> chatSession (demo_at PART_V_VI) \<noteq> None
   \<and> step (state (generateNextSection (demo_at PART_V_VI))) = COMPLETED
   \<and> map_option sent (chatSession (generateNextSection (demo_at PART_V_VI)))
       = Some [initMessage empty_user_info, []]"
proof -
  have h1: "step (state (demo_at PART_V_VI)) = PART_V_VI" by (simp add: demo_at_def)
  have h2: "chatSession (demo_at PART_V_VI) = Some \<lparr>chatNo = 0, chat_cfg = gemini_config, sent = [initMessage empty_user_info]\<rparr>"
    by (simp add: demo_at_def demo_outline_facts)
  show ?thesis
    using h1 h2 advance_from_PART_V_VI [OF h1 h2] by simp
qed

theorem advance_without_session_witness:
  "nextStepMap (step (state demo_no_session)) \<noteq> None \<and> chatSession demo_no_session = None
   \<and> step (state (generateNextSection demo_no_session)) = PART_I_II
   \<and> error (state (generateNextSection demo_no_session)) = Some session_not_initialized"
proof -
  obtain p where h1: "nextStepMap (step (state demo_no_session)) = Some (p, PART_I_II)"
    by (simp add: demo_no_session_def init_generation_state_def)
  have h2: "chatSession demo_no_session = None" by (simp add: demo_no_session_def init_world_def)
  show ?thesis
    using h1 h2 advance_without_session [OF h1 h2] by simp
qed

theorem stream_error_keeps_step_witness:
  "streams demo_next 1 = Some (NextStream PART_I_II)
   \<and> step (state (app_step demo_next (StreamError 1 ''timeout''))) = PART_I_II
   \<and> \<not> isStreaming (state (app_step demo_next (StreamError 1 ''timeout'')))
   \<and> error (state (app_step demo_next (StreamError 1 ''timeout''))) = Some ''timeout''"
  using demo_next_facts stream_error_keeps_step [OF demo_next_facts(1), of "''timeout''"] by simp

theorem start_fragments_replace_witness:
  "streams demo_started 0 = Some (StartStream [])
   \<and> fullDocument (state (run demo_started (map (Chunk 0) [None, Some ''x'', Some ''yz'']))) = ''xyz''
   \<and> fullDocument (state (run demo_started (map (Chunk 0) [None, Some '''']))) = []"
  using demo_started_facts
    start_fragments_replace [OF demo_started_facts(1), of "[None, Some ''x'', Some ''yz'']"]
    start_fragments_replace [OF demo_started_facts(1), of "[None, Some '''']"]
  by simp

end
