(* ===== verification/Views.thy ===== *)
theory Views
  imports Types Constants
begin

text \<open>
  The parts of the views that decide which actions the user can take:
  \<^item> \<^verbatim>\<open>src/components/SKKNForm.tsx\<close>: \<open>isFormValid\<close> (every field is non-blank
    after \<open>trim\<close>) and the submit button, disabled when the form is invalid or a
    submission is running;
  \<^item> \<^verbatim>\<open>src/components/Button.tsx\<close>: a button is disabled when it is
    \<open>disabled\<close> or \<open>isLoading\<close>; what it renders (its class string, the
    \<open>disabled\<close> attribute, the spinner, icon and children);
  \<^item> \<^verbatim>\<open>src/App.tsx\<close> (rendering): the form is shown only in \<open>INPUT_FORM\<close>; the
    sidebar's "next section" button is rendered when \<open>0 < step < COMPLETED\<close>
    with \<open>isLoading = isStreaming\<close>; the mobile one is rendered only when, in
    addition, no stream is running; the sidebar's step list marks each of the
    entries \<open>0..7\<close> of \<open>STEPS_INFO\<close> as completed, active or pending.
  Apart from \<open>Button\<close>'s classes, styling, icons and texts are not modelled here.
\<close>

subsection \<open>The form\<close>

text \<open>\<open>Object.values(userInfo)\<close>, in the order the fields are declared.\<close>

definition user_info_values :: "user_info \<Rightarrow> js_string list" where
  "user_info_values u = [topic u, subject u, grade u, school u, textbook u]"

definition isFormValid :: "user_info \<Rightarrow> bool" where
  "isFormValid u \<longleftrightarrow> list_all (\<lambda>v. js_trim v \<noteq> []) (user_info_values u)"

text \<open>\<open>Button\<close>: \<open>disabled={disabled || isLoading}\<close>.\<close>

definition button_disabled :: "bool \<Rightarrow> bool \<Rightarrow> bool" where
  "button_disabled disabled isLoading \<longleftrightarrow> disabled \<or> isLoading"

text \<open>What \<open>Button\<close> renders: the class string (base styles, the variant's styles,
  the dimming classes when disabled or loading, the caller's \<open>className\<close>), the
  \<open>disabled\<close> attribute, and the content: the spinner while loading, the icon
  when not loading and an icon is given, then the children.  \<open>variant\<close> defaults
  to \<open>primary\<close> and \<open>className\<close> to the empty string.\<close>

datatype button_variant = Primary | Secondary | Outline | Danger

definition baseStyles :: js_string where
  "baseStyles = ''inline-flex items-center justify-center px-6 py-3 text-sm font-bold rounded-lg transition-all duration-300 focus:outline-none focus:ring-2 focus:ring-offset-2 tracking-wide uppercase''"

fun variant_class :: "button_variant \<Rightarrow> js_string" where
  "variant_class Primary = ''bg-gold-400 text-navy-950 hover:bg-gold-500 focus:ring-gold-300 shadow-lg shadow-gold-900/20 border-b-2 border-gold-600 active:translate-y-[1px] active:border-b-0''"
| "variant_class Secondary = ''bg-navy-900 text-white hover:bg-navy-800 focus:ring-navy-500 border border-navy-800''"
| "variant_class Outline = ''border border-gold-400/30 text-gold-400 bg-transparent hover:bg-gold-400/5 focus:ring-gold-300''"
| "variant_class Danger = ''bg-red-700 text-white hover:bg-red-800 focus:ring-red-500 shadow-md''"

datatype button_part = Spinner | IconSpan | Children

record rendered_button =
  btn_class :: js_string
  btn_disabled :: bool
  btn_content :: "button_part list"

definition dimmed_class :: js_string where
  "dimmed_class = ''opacity-50 cursor-not-allowed grayscale''"

definition Button ::
  "button_variant option \<Rightarrow> bool \<Rightarrow> bool \<Rightarrow> js_string option \<Rightarrow> bool \<Rightarrow> rendered_button" where
  "Button variant isLoading icon className disabled =
     \<lparr>btn_class = baseStyles @ '' '' @ variant_class (case variant of None \<Rightarrow> Primary | Some v \<Rightarrow> v)
                  @ '' '' @ (if disabled \<or> isLoading then dimmed_class else [])
                  @ '' '' @ (case className of None \<Rightarrow> [] | Some c \<Rightarrow> c),
      btn_disabled = button_disabled disabled isLoading,
      btn_content = (if isLoading then [Spinner] else [])
                    @ (if \<not> isLoading \<and> icon then [IconSpan] else []) @ [Children]\<rparr>"

text \<open>
  The submit button of the form: \<open>disabled={!isFormValid || isSubmitting}\<close>,
  \<open>isLoading={isSubmitting}\<close>, with \<open>isSubmitting = state.isStreaming\<close>; the
  form itself is rendered only in \<open>INPUT_FORM\<close>.
\<close>

definition start_enabled :: "user_info \<Rightarrow> generation_state \<Rightarrow> bool" where
  "start_enabled u s \<longleftrightarrow>
     step s = INPUT_FORM \<and>
     \<not> button_disabled (\<not> isFormValid u \<or> isStreaming s) (isStreaming s)"

text \<open>The form's inputs have no \<open>disabled\<close> attribute: they are live whenever shown.\<close>

definition edit_enabled :: "generation_state \<Rightarrow> bool" where
  "edit_enabled s \<longleftrightarrow> step s = INPUT_FORM"

text \<open>
  The two "next section" buttons: the sidebar's (rendered when
  \<open>state.step > 0\<close> and \<open>state.step < COMPLETED\<close>, \<open>isLoading={state.isStreaming}\<close>)
  and the mobile one (rendered when \<open>!state.isStreaming\<close> as well).
\<close>

definition sidebar_next_enabled :: "generation_state \<Rightarrow> bool" where
  "sidebar_next_enabled s \<longleftrightarrow>
     INPUT_FORM < step s \<and> step s < COMPLETED \<and> \<not> button_disabled False (isStreaming s)"

definition mobile_next_shown :: "generation_state \<Rightarrow> bool" where
  "mobile_next_shown s \<longleftrightarrow> \<not> isStreaming s \<and> INPUT_FORM < step s \<and> step s < COMPLETED"

definition next_enabled :: "generation_state \<Rightarrow> bool" where
  "next_enabled s \<longleftrightarrow> sidebar_next_enabled s \<or> mobile_next_shown s"

subsection \<open>The sidebar's step list\<close>

datatype item_status = Done | Active | Todo

text \<open>
  \<open>Object.entries(STEPS_INFO).map(..)\<close> over the keys \<open>0..8\<close>, skipping keys
  above 7; \<open>isCompleted = state.step > stepNum\<close> is tested before
  \<open>isActive = state.step === stepNum\<close>.
\<close>

definition sidebar_items :: "generation_step \<Rightarrow> (nat \<times> item_status) list" where
  "sidebar_items s =
     map (\<lambda>k. (k, if step_num s > k then Done else if step_num s = k then Active else Todo))
       (filter (\<lambda>k. \<not> 7 < k) (map fst STEPS_INFO))"

subsection \<open>Lemmas\<close>

lemma isFormValid_iff:
  "isFormValid u \<longleftrightarrow> (\<forall>v\<in>set (user_info_values u). \<exists>c\<in>set v. \<not> js_space c)"
  by (auto simp: isFormValid_def list_all_iff js_trim_empty_iff)

lemma next_enabled_iff:
  "next_enabled s \<longleftrightarrow> \<not> isStreaming s \<and> INPUT_FORM < step s \<and> step s < COMPLETED"
  by (auto simp: next_enabled_def sidebar_next_enabled_def mobile_next_shown_def
      button_disabled_def)

lemma start_enabled_iff:
  "start_enabled u s \<longleftrightarrow> step s = INPUT_FORM \<and> isFormValid u \<and> \<not> isStreaming s"
  by (auto simp: start_enabled_def button_disabled_def)

lemma sidebar_items_eval:
  "sidebar_items s = map (\<lambda>k. (k, if step_num s > k then Done else if step_num s = k then Active else Todo))
     [0, 1, 2, 3, 4, 5, 6, 7]"
  by (simp add: sidebar_items_def STEPS_INFO_def)

text \<open>C16: The two controls for "next section" agree: the sidebar's button (shown for
  \<open>0 < step < COMPLETED\<close>, disabled through \<open>isLoading={state.isStreaming}\<close>) is
  enabled exactly when the mobile floating button (shown for \<open>!isStreaming\<close> and
  the same range) is shown.\<close>

theorem next_buttons_equivalent:
  "sidebar_next_enabled s \<longleftrightarrow> mobile_next_shown s"
  by (auto simp: sidebar_next_enabled_def mobile_next_shown_def button_disabled_def)

lemma Button_disabled_content:
  "btn_disabled (Button v l i c d) = button_disabled d l
   \<and> (Spinner \<in> set (btn_content (Button v l i c d))) = l
   \<and> (IconSpan \<in> set (btn_content (Button v l i c d))) = (\<not> l \<and> i)
   \<and> last (btn_content (Button v l i c d)) = Children"
  by (simp add: Button_def)

lemma Button_dimmed:
  assumes "button_disabled d l"
  shows "sublist dimmed_class (btn_class (Button v l i c d))"
proof -
  have "sublist dimmed_class ((baseStyles @ '' '' @ variant_class w @ '' '') @ dimmed_class @ r)" for w r
    by (rule sublist_appendI)
  then show ?thesis using assms by (auto simp: Button_def button_disabled_def)
qed

end
