(* ===== verification/Concurrency.thy ===== *)
theory Concurrency
  imports Sequencer Views
begin

text \<open>
  Interleavings of the sequencer's asynchronous pieces.  Two step relations over
  \<open>app_world\<close>:
  \<^item> \<open>ui_reach\<close>: the runs the rendered UI permits.  The user can edit the form
    only while it is shown, press submit only when \<open>start_enabled\<close> and press
    "next section" only when \<open>next_enabled\<close> (theory \<open>Views\<close>); the service
    delivers chunks, ends or errors only for a stream that is pending.
  \<^item> \<open>any_reach\<close>: the same without the UI's guards on the user's actions, i.e.
    a handler invoked while another stream is still running (the specification's
    "known race": nothing in the sequencer itself enforces mutual exclusion).
  Under the UI's guards the invariant \<open>seq_inv\<close> holds in every reachable state:
  at most one stream is pending and the streaming flag says whether one is, a
  pending stream agrees with the phase and the document, \<open>APPENDIX\<close> is never
  entered.  From it follow the monotonicity of the phase and the append-only
  document.  Without the guards the phase can move backward from every world with
  two successive table entries (\<open>race_step_regresses\<close>), and the number
  of streams pending at once has no bound (\<open>any_streams_unbounded\<close>).
\<close>

definition stream_pending :: "app_world \<Rightarrow> nat \<Rightarrow> bool" where
  "stream_pending w i \<longleftrightarrow> streams w i \<noteq> None"

fun ui_enabled :: "app_world \<Rightarrow> event \<Rightarrow> bool" where
  "ui_enabled w (UserChange f v) = edit_enabled (state w)"
| "ui_enabled w ClickStart = start_enabled (userInfo w) (state w)"
| "ui_enabled w ClickNext = next_enabled (state w)"
| "ui_enabled w (Chunk i c) = stream_pending w i"
| "ui_enabled w (StreamEnd i) = stream_pending w i"
| "ui_enabled w (StreamError i e) = stream_pending w i"

fun env_enabled :: "app_world \<Rightarrow> event \<Rightarrow> bool" where
  "env_enabled w (Chunk i c) = stream_pending w i"
| "env_enabled w (StreamEnd i) = stream_pending w i"
| "env_enabled w (StreamError i e) = stream_pending w i"
| "env_enabled w _ = True"

inductive ui_reach :: "js_string option \<Rightarrow> app_world \<Rightarrow> bool" for k where
  ui_init: "ui_reach k (init_world k)"
| ui_step: "ui_reach k w \<Longrightarrow> ui_enabled w e \<Longrightarrow> ui_reach k (app_step w e)"

inductive any_reach :: "js_string option \<Rightarrow> app_world \<Rightarrow> bool" for k where
  any_init: "any_reach k (init_world k)"
| any_step: "any_reach k w \<Longrightarrow> env_enabled w e \<Longrightarrow> any_reach k (app_step w e)"

text \<open>An executable test that a run is permitted by the UI.\<close>

fun ui_trace :: "app_world \<Rightarrow> event list \<Rightarrow> bool" where
  "ui_trace w [] = True"
| "ui_trace w (e # es) = (ui_enabled w e \<and> ui_trace (app_step w e) es)"

fun any_trace :: "app_world \<Rightarrow> event list \<Rightarrow> bool" where
  "any_trace w [] = True"
| "any_trace w (e # es) = (env_enabled w e \<and> any_trace (app_step w e) es)"

text \<open>A world with the form filled in and a key configured, used by the examples.\<close>

definition filled_world :: app_world where
  "filled_world = run (init_world (Some ''key''))
     [UserChange Topic ''X'', UserChange Subject ''T'', UserChange Grade ''10'',
      UserChange School ''Y'', UserChange Textbook ''Z'']"

subsection \<open>The invariant\<close>

fun kind_ok :: "stream_kind \<Rightarrow> generation_state \<Rightarrow> bool" where
  "kind_ok (StartStream g) s \<longleftrightarrow> step s = OUTLINE \<and> fullDocument s = g"
| "kind_ok (NextStream n) s \<longleftrightarrow> step s = n \<and> n \<noteq> INPUT_FORM \<and> n \<noteq> APPENDIX"

definition seq_inv :: "app_world \<Rightarrow> bool" where
  "seq_inv w \<longleftrightarrow>
     messages (state w) = [] \<and> step (state w) \<noteq> APPENDIX \<and>
     (if isStreaming (state w)
      then error (state w) = None \<and> chatSession w \<noteq> None \<and>
           streams w \<noteq> Map.empty \<and>
           (\<forall>i k. streams w i = Some k \<longrightarrow> streams w = [i \<mapsto> k] \<and> kind_ok k (state w))
      else streams w = Map.empty \<and>
           (step (state w) = INPUT_FORM \<longrightarrow> fullDocument (state w) = []) \<and>
           (step (state w) \<noteq> INPUT_FORM \<longrightarrow> chatSession w \<noteq> None))"

declare seq_inv_def [inv_simps] stream_pending_def [inv_simps] next_enabled_iff [inv_simps]
  start_enabled_iff [inv_simps] edit_enabled_def [inv_simps]

lemma seq_inv_init: "seq_inv (init_world k)"
  by (simp add: seq_inv_def init_world_def init_generation_state_def)

lemma singleton_map_drop [simp]: "([i \<mapsto> k])(i := None) = Map.empty"
  by (simp add: fun_eq_iff)

lemma singleton_map_Some [simp]: "[i \<mapsto> k] j = Some k' \<longleftrightarrow> j = i \<and> k' = k"
  by auto

lemma settled_step_cases:
  "settled_step n \<noteq> APPENDIX \<longleftrightarrow> n \<noteq> APPENDIX"
  "settled_step n = INPUT_FORM \<longleftrightarrow> n = INPUT_FORM"
  by (auto simp: settled_step_def)

lemma nextStepMap_target:
  "nextStepMap s = Some (p, n) \<Longrightarrow> n \<noteq> INPUT_FORM \<and> n \<noteq> APPENDIX"
  by (cases s) auto

lemma nextStepMap_enabled:
  "INPUT_FORM < s \<Longrightarrow> s < COMPLETED \<Longrightarrow> s \<noteq> APPENDIX \<Longrightarrow> \<exists>p n. nextStepMap s = Some (p, n)"
  by (cases s) auto

subsubsection \<open>Each UI-permitted event keeps the invariant\<close>

lemma seq_inv_UserChange:
  "seq_inv w \<Longrightarrow> seq_inv (app_step w (UserChange f v))"
  by (simp add: seq_inv_def)

lemma seq_inv_ClickStart:
  assumes "seq_inv w" and "ui_enabled w ClickStart"
  shows "seq_inv (app_step w ClickStart)"
proof (cases "api_key_ok (apiKey w)")
  case True
  with assms show ?thesis
    by (auto simp: inv_simps startGeneration_def initializeGeminiChat_def Let_def)
next
  case False
  with assms show ?thesis by (simp add: inv_simps startGeneration_def)
qed

lemma seq_inv_ClickNext:
  assumes inv: "seq_inv w" and en: "ui_enabled w ClickNext"
  shows "seq_inv (app_step w ClickNext)"
proof -
  from inv en have idle: "\<not> isStreaming (state w)" "streams w = Map.empty"
    and rng: "INPUT_FORM < step (state w)" "step (state w) < COMPLETED"
    and app: "step (state w) \<noteq> APPENDIX"
    by (simp_all add: inv_simps)
  from rng app obtain p n where map: "nextStepMap (step (state w)) = Some (p, n)"
    using nextStepMap_enabled by blast
  from inv idle rng obtain c where "chatSession w = Some c"
    by (auto simp: seq_inv_def)
  with map have "generateNextSection w =
           w\<lparr>state := (state w)\<lparr>isStreaming := True, error := None, step := n\<rparr>,
             chatSession := Some (c\<lparr>sent := sent c @ [p]\<rparr>),
             streams := (streams w)(nextId w \<mapsto> NextStream n),
             nextId := Suc (nextId w)\<rparr>"
    by (rule generateNextSection_Some)
  with inv idle nextStepMap_target [OF map] show ?thesis
    by (auto simp: seq_inv_def)
qed

lemma seq_inv_pending:
  assumes "seq_inv w" and "streams w i = Some k"
  shows "isStreaming (state w) \<and> streams w = [i \<mapsto> k] \<and> kind_ok k (state w)
         \<and> error (state w) = None \<and> chatSession w \<noteq> None"
proof -
  have "isStreaming (state w)"
    using assms by (cases "isStreaming (state w)") (auto simp: seq_inv_def)
  with assms show ?thesis
    by (auto simp: seq_inv_def split: if_splits)
qed

lemma seq_inv_Chunk:
  assumes inv: "seq_inv w" and en: "ui_enabled w (Chunk i c)"
  shows "seq_inv (app_step w (Chunk i c))"
proof -
  from en obtain k where ki: "streams w i = Some k" by (auto simp: stream_pending_def)
  note p = seq_inv_pending [OF inv ki]
  show ?thesis
  proof (cases k)
    case (StartStream g)
    with ki inv p show ?thesis
      by (auto simp: chunk_event_start seq_inv_def)
  next
    case (NextStream n)
    with ki inv p show ?thesis
      by (auto simp: chunk_event_next seq_inv_def)
  qed
qed

lemma seq_inv_StreamEnd:
  assumes inv: "seq_inv w" and en: "ui_enabled w (StreamEnd i)"
  shows "seq_inv (app_step w (StreamEnd i))"
proof -
  from en obtain k where ki: "streams w i = Some k" by (auto simp: stream_pending_def)
  note p = seq_inv_pending [OF inv ki]
  show ?thesis
  proof (cases k)
    case (StartStream g)
    with ki inv p show ?thesis by (auto simp: end_event_def seq_inv_def)
  next
    case (NextStream n)
    with ki inv p show ?thesis
      by (auto simp: end_event_def seq_inv_def settled_step_cases)
  qed
qed

lemma seq_inv_StreamError:
  assumes inv: "seq_inv w" and en: "ui_enabled w (StreamError i e)"
  shows "seq_inv (app_step w (StreamError i e))"
proof -
  from en obtain k where ki: "streams w i = Some k" by (auto simp: stream_pending_def)
  note p = seq_inv_pending [OF inv ki]
  show ?thesis
  proof (cases k)
    case (StartStream g)
    with ki inv p show ?thesis by (auto simp: error_event_def onStreamError_def seq_inv_def)
  next
    case (NextStream n)
    with ki inv p show ?thesis by (auto simp: error_event_def onStreamError_def seq_inv_def)
  qed
qed

lemma seq_inv_step: "seq_inv w \<Longrightarrow> ui_enabled w e \<Longrightarrow> seq_inv (app_step w e)"
  using seq_inv_UserChange seq_inv_ClickStart seq_inv_ClickNext seq_inv_Chunk
    seq_inv_StreamEnd seq_inv_StreamError
  by (cases e) blast+

lemma ui_reach_seq_inv: "ui_reach k w \<Longrightarrow> seq_inv w"
proof (induction rule: ui_reach.induct)
  case ui_init
  show ?case by (rule seq_inv_init)
next
  case (ui_step w e)
  from ui_step.IH ui_step.hyps(2) show ?case by (rule seq_inv_step)
qed

lemma ui_trace_reach: "ui_reach k w \<Longrightarrow> ui_trace w es \<Longrightarrow> ui_reach k (run w es)"
  by (induction es arbitrary: w) (auto intro: ui_reach.ui_step)

lemma any_trace_reach: "any_reach k w \<Longrightarrow> any_trace w es \<Longrightarrow> any_reach k (run w es)"
  by (induction es arbitrary: w) (auto intro: any_reach.any_step)

subsubsection \<open>What one permitted event does to the phase and the document\<close>

lemma seq_inv_step_mono:
  assumes inv: "seq_inv w" and en: "ui_enabled w e"
  shows "step (state w) \<le> step (state (app_step w e))
         \<and> prefix (fullDocument (state w)) (fullDocument (state (app_step w e)))"
proof (cases e)
  case ClickStart
  with inv en show ?thesis
    by (auto simp: inv_simps startGeneration_def Let_def)
next
  case ClickNext
  from inv en ClickNext have rng: "INPUT_FORM < step (state w)" "step (state w) < COMPLETED"
    and app: "step (state w) \<noteq> APPENDIX" and idle: "\<not> isStreaming (state w)"
    by (simp_all add: inv_simps)
  from rng app obtain p n where map: "nextStepMap (step (state w)) = Some (p, n)"
    using nextStepMap_enabled by blast
  from inv idle rng obtain c where "chatSession w = Some c"
    by (auto simp: seq_inv_def)
  from generateNextSection_Some [OF map this] nextStepMap_Some_step [OF map] ClickNext
  show ?thesis by simp
next
  case (Chunk i c)
  from en Chunk obtain k where ki: "streams w i = Some k" by (auto simp: stream_pending_def)
  note p = seq_inv_pending [OF inv ki]
  show ?thesis
  proof (cases k)
    case (StartStream g)
    with ki p Chunk show ?thesis by (simp add: chunk_event_start)
  next
    case (NextStream n)
    with ki Chunk show ?thesis by (simp add: chunk_event_next)
  qed
next
  case (StreamEnd i)
  from en StreamEnd obtain k where ki: "streams w i = Some k" by (auto simp: stream_pending_def)
  note p = seq_inv_pending [OF inv ki]
  show ?thesis
  proof (cases k)
    case (StartStream g)
    with ki StreamEnd show ?thesis by (simp add: end_event_def)
  next
    case (NextStream n)
    with ki p StreamEnd show ?thesis by (simp add: end_event_def settled_step_def)
  qed
next
  case (StreamError i e)
  then show ?thesis by (simp add: error_event_def onStreamError_def split: option.splits)
qed (simp)

subsection \<open>Properties of the UI-permitted runs\<close>

text \<open>C1: Under the UI's guards the phase never moves backward: every permitted event
  leaves it where it is or moves it forward.\<close>

theorem ui_step_monotone:
  "ui_reach k w \<Longrightarrow> ui_enabled w e \<Longrightarrow> step (state w) \<le> step (state (app_step w e))"
  using seq_inv_step_mono ui_reach_seq_inv by blast

text \<open>C2: Under the UI's guards the document is append-only: before every permitted
  event it is a prefix of the document after it.\<close>

theorem ui_document_append_only:
  "ui_reach k w \<Longrightarrow> ui_enabled w e \<Longrightarrow>
   prefix (fullDocument (state w)) (fullDocument (state (app_step w e)))"
  using seq_inv_step_mono ui_reach_seq_inv by blast

text \<open>C3: Under the UI's guards at most one stream is pending, and the streaming flag
  is set exactly when one is; a pending stream of \<open>generateNextSection\<close> is for the
  phase shown, and no error is shown while streaming.\<close>

theorem ui_single_stream:
  assumes "ui_reach k w"
  shows "(isStreaming (state w) \<longleftrightarrow> streams w \<noteq> Map.empty)
         \<and> (\<forall>i j. streams w i \<noteq> None \<longrightarrow> streams w j \<noteq> None \<longrightarrow> i = j)
         \<and> (\<forall>i n. streams w i = Some (NextStream n) \<longrightarrow> step (state w) = n)
         \<and> (isStreaming (state w) \<longrightarrow> error (state w) = None)"
proof -
  have inv: "seq_inv w" using assms by (rule ui_reach_seq_inv)
  show ?thesis
  proof (cases "isStreaming (state w)")
    case True
    have one: "i = j" if "streams w i = Some a" "streams w j = Some b" for i j a b
      using seq_inv_pending [OF inv that(1)] that(2) by (auto split: if_splits)
    have nxt: "step (state w) = n" if "streams w i = Some (NextStream n)" for i n
      using seq_inv_pending [OF inv that] by simp
    from True inv one nxt show ?thesis by (auto simp: seq_inv_def)
  next
    case False
    then show ?thesis using inv by (simp add: seq_inv_def)
  qed
qed

text \<open>The phase \<open>APPENDIX\<close> of the enum is never entered.\<close>

theorem ui_never_appendix: "ui_reach k w \<Longrightarrow> step (state w) \<noteq> APPENDIX"
  using ui_reach_seq_inv by (simp add: seq_inv_def)

text \<open>C36: Once the form has been left, the teacher's data no longer changes.\<close>

theorem ui_userInfo_frozen:
  "ui_reach k w \<Longrightarrow> ui_enabled w e \<Longrightarrow> step (state w) \<noteq> INPUT_FORM \<Longrightarrow>
   userInfo (app_step w e) = userInfo w"
  by (cases e)
    (auto simp: inv_simps startGeneration_def generateNextSection_def Let_def
      chunk_event_def end_event_def error_event_def
      split: option.splits sum.splits prod.splits)

lemma onStreamChunk_messages:
  "onStreamChunk k t s = (k', s') \<Longrightarrow> messages s' = messages s"
  by (cases k) auto

lemma onStreamEnd_messages [simp]: "messages (onStreamEnd k s) = messages s"
  by (cases k) simp_all

text \<open>The field \<open>messages\<close> of the state is never written, in any interleaving.\<close>

theorem messages_never_written: "any_reach k w \<Longrightarrow> messages (state w) = []"
proof (induction rule: any_reach.induct)
  case any_init
  show ?case by (simp add: init_world_def init_generation_state_def)
next
  case (any_step w e)
  then show ?case
    by (cases e)
      (auto simp: startGeneration_def generateNextSection_def Let_def chunk_event_def
        end_event_def error_event_def onStreamError_def onStreamChunk_messages
        split: option.splits sum.splits prod.splits)
qed

subsection \<open>Without the UI's guards\<close>

text \<open>C20: Without the UI's guards, "next section" invoked twice in a row (from any
  world whose phase and its successor both have a table entry) makes the phase move
  backward: the second click shows the later target, and the end of the older stream
  writes its own target, below it, and clears the streaming flag while the newer
  stream is still pending.\<close>

theorem race_step_regresses:
  assumes r: "any_reach k w"
    and m1: "nextStepMap (step (state w)) = Some (p1, n1)" and m2: "nextStepMap n1 = Some (p2, n2)"
    and c: "chatSession w = Some c" and n1: "n1 \<noteq> PART_V_VI"
  shows "any_reach k (run w [ClickNext, ClickNext, StreamEnd (nextId w)])
         \<and> step (state (run w [ClickNext, ClickNext])) = n2
         \<and> step (state (run w [ClickNext, ClickNext, StreamEnd (nextId w)])) = n1
         \<and> n1 < n2
         \<and> \<not> isStreaming (state (run w [ClickNext, ClickNext, StreamEnd (nextId w)]))
         \<and> streams (run w [ClickNext, ClickNext, StreamEnd (nextId w)]) (Suc (nextId w)) = Some (NextStream n2)"
proof -
  let ?w1 = "generateNextSection w"
  have w1: "?w1 = w\<lparr>state := (state w)\<lparr>isStreaming := True, error := None, step := n1\<rparr>,
             chatSession := Some (c\<lparr>sent := sent c @ [p1]\<rparr>),
             streams := (streams w)(nextId w \<mapsto> NextStream n1), nextId := Suc (nextId w)\<rparr>"
    using m1 c by (rule generateNextSection_Some)
  have m2': "nextStepMap (step (state ?w1)) = Some (p2, n2)" using w1 m2 by simp
  have c': "chatSession ?w1 = Some (c\<lparr>sent := sent c @ [p1]\<rparr>)" using w1 by simp
  let ?w2 = "generateNextSection ?w1"
  have w2: "?w2 = ?w1\<lparr>state := (state ?w1)\<lparr>isStreaming := True, error := None, step := n2\<rparr>,
             chatSession := Some ((c\<lparr>sent := sent c @ [p1]\<rparr>)\<lparr>sent := sent c @ [p1] @ [p2]\<rparr>),
             streams := (streams ?w1)(nextId ?w1 \<mapsto> NextStream n2), nextId := Suc (nextId ?w1)\<rparr>"
    using generateNextSection_Some [OF m2' c'] by simp
  have pend: "streams ?w2 (nextId w) = Some (NextStream n1)" using w1 w2 by simp
  have lt: "n1 < n2" using m2 by (rule nextStepMap_Some_step)
  have run2: "run w [ClickNext, ClickNext] = ?w2" by simp
  have "any_trace w [ClickNext, ClickNext, StreamEnd (nextId w)]"
    using pend by (simp add: stream_pending_def)
  with r have "any_reach k (run w [ClickNext, ClickNext, StreamEnd (nextId w)])"
    by (rule any_trace_reach)
  then show ?thesis
    using w1 w2 pend lt n1 by (simp add: end_event_def settled_step_def)
qed

subsection \<open>The properties at concrete runs\<close>

declare isFormValid_def [handler_simps] user_info_values_def [handler_simps]
  js_trim_def [handler_simps] js_space_def [handler_simps]

lemma filled_world_ui_reach: "ui_reach (Some ''key'') filled_world"
  unfolding filled_world_def
  by (rule ui_trace_reach [OF ui_reach.ui_init]) (simp add: handler_simps inv_simps)

lemma filled_run_ui_reach:
  "ui_reach (Some ''key'') (run filled_world [ClickStart, Chunk 0 (Some ''ab''), StreamEnd 0])"
  by (rule ui_trace_reach [OF filled_world_ui_reach])
    (simp add: filled_world_def handler_simps inv_simps Let_def)

lemma filled_run_facts:
  "ui_enabled (run filled_world [ClickStart, Chunk 0 (Some ''ab''), StreamEnd 0]) ClickNext"
  "step (state (run filled_world [ClickStart, Chunk 0 (Some ''ab''), StreamEnd 0])) = OUTLINE"
  "fullDocument (state (run filled_world [ClickStart, Chunk 0 (Some ''ab''), StreamEnd 0])) = ''ab''"
  by (simp_all add: filled_world_def handler_simps inv_simps Let_def)

theorem ui_step_monotone_witness:
  "ui_reach (Some ''key'') (run filled_world [ClickStart, Chunk 0 (Some ''ab''), StreamEnd 0])
   \<and> ui_enabled (run filled_world [ClickStart, Chunk 0 (Some ''ab''), StreamEnd 0]) ClickNext
   \<and> OUTLINE \<le> step (state (app_step (run filled_world [ClickStart, Chunk 0 (Some ''ab''),
                                                         StreamEnd 0]) ClickNext))"
  using filled_run_ui_reach filled_run_facts
    ui_step_monotone [OF filled_run_ui_reach filled_run_facts(1)]
  by simp

theorem ui_document_append_only_witness:
  "ui_reach (Some ''key'') (run filled_world [ClickStart, Chunk 0 (Some ''ab''), StreamEnd 0])
   \<and> ui_enabled (run filled_world [ClickStart, Chunk 0 (Some ''ab''), StreamEnd 0]) ClickNext
   \<and> prefix ''ab'' (fullDocument (state (app_step (run filled_world
        [ClickStart, Chunk 0 (Some ''ab''), StreamEnd 0]) ClickNext)))"
  using filled_run_ui_reach filled_run_facts
    ui_document_append_only [OF filled_run_ui_reach filled_run_facts(1)]
  by simp

theorem ui_single_stream_witness:
  "ui_reach (Some ''key'') filled_world \<and> \<not> isStreaming (state filled_world)
   \<and> streams filled_world = Map.empty"
proof -
  have "\<not> isStreaming (state filled_world)"
    by (simp add: filled_world_def handler_simps)
  with ui_single_stream [OF filled_world_ui_reach] filled_world_ui_reach show ?thesis
    by simp
qed

theorem ui_never_appendix_witness:
  "ui_reach (Some ''key'') filled_world \<and> step (state filled_world) \<noteq> APPENDIX"
  using filled_world_ui_reach ui_never_appendix [OF filled_world_ui_reach] by simp

theorem ui_userInfo_frozen_witness:
  "ui_reach (Some ''key'') (run filled_world [ClickStart, Chunk 0 (Some ''ab''), StreamEnd 0])
   \<and> userInfo (app_step (run filled_world [ClickStart, Chunk 0 (Some ''ab''), StreamEnd 0])
        ClickNext)
     = userInfo (run filled_world [ClickStart, Chunk 0 (Some ''ab''), StreamEnd 0])"
  using filled_run_ui_reach filled_run_facts
    ui_userInfo_frozen [OF filled_run_ui_reach filled_run_facts(1)]
  by simp

theorem messages_never_written_witness:
  "any_reach (Some ''key'') (init_world (Some ''key''))
   \<and> messages (state (init_world (Some ''key''))) = []"
  using any_reach.any_init messages_never_written [OF any_reach.any_init] by simp

theorem race_step_regresses_witness:
  "step (state (run filled_world [ClickStart, StreamEnd 0, ClickNext, ClickNext])) = PART_III
   \<and> step (state (run filled_world [ClickStart, StreamEnd 0, ClickNext, ClickNext, StreamEnd 1])) = PART_I_II
   \<and> \<not> isStreaming (state (run filled_world [ClickStart, StreamEnd 0, ClickNext, ClickNext, StreamEnd 1]))
   \<and> streams (run filled_world [ClickStart, StreamEnd 0, ClickNext, ClickNext, StreamEnd 1]) 2
       = Some (NextStream PART_III)"
proof -
  let ?w = "run filled_world [ClickStart, StreamEnd 0]"
  have "any_reach (Some ''key'') filled_world"
    unfolding filled_world_def
    by (rule any_trace_reach [OF any_reach.any_init]) (simp add: handler_simps)
  then have r: "any_reach (Some ''key'') ?w"
    by (rule any_trace_reach) (simp add: filled_world_def handler_simps stream_pending_def Let_def)
  have f: "step (state ?w) = OUTLINE" "nextId ?w = 1" "chatSession ?w \<noteq> None"
    by (simp_all add: filled_world_def handler_simps Let_def)
  obtain c where c: "chatSession ?w = Some c" using f(3) by blast
  obtain p1 where m1: "nextStepMap (step (state ?w)) = Some (p1, PART_I_II)" using f(1) by simp
  obtain p2 where m2: "nextStepMap PART_I_II = Some (p2, PART_III)" by simp
  show ?thesis
    using race_step_regresses [OF r m1 m2 c] f(2) by (simp add: run_append [symmetric] numeral_2_eq_2)
qed

lemma app_step_apiKey: "apiKey (app_step w e) = apiKey w"
  by (cases e) (auto simp: handler_simps Let_def split: option.splits sum.splits prod.splits)

lemma any_reach_apiKey: "any_reach k w \<Longrightarrow> apiKey w = k"
  by (induction rule: any_reach.induct) (simp_all add: init_world_def app_step_apiKey)

lemma app_step_streams_below:
  "dom (streams w) \<subseteq> {..<nextId w} \<Longrightarrow> dom (streams (app_step w e)) \<subseteq> {..<nextId (app_step w e)}"
  by (cases e) (auto simp: handler_simps Let_def split: option.splits sum.splits prod.splits if_splits)

lemma any_reach_streams_below: "any_reach k w \<Longrightarrow> dom (streams w) \<subseteq> {..<nextId w}"
  by (induction rule: any_reach.induct) (simp_all add: init_world_def app_step_streams_below)

lemma startGeneration_new_stream:
  "api_key_ok (apiKey w) \<Longrightarrow>
   streams (app_step w ClickStart) = (streams w)(nextId w \<mapsto> StartStream [])"
  by (simp add: handler_simps Let_def)

text \<open>C21: Without the UI's guards the handlers overlap without bound: with a key
  configured, every number of streams can be pending at once, since each
  \<open>startGeneration\<close> opens a new stream while the earlier ones still run (in
  contrast to the single pending stream of the UI-permitted runs).\<close>

theorem any_streams_unbounded:
  assumes "api_key_ok k"
  shows "\<exists>w. any_reach k w \<and> card (dom (streams w)) = n"
proof (induction n)
  case 0
  have "any_reach k (init_world k)" by (rule any_reach.any_init)
  then show ?case by (intro exI [of _ "init_world k"]) (simp add: init_world_def)
next
  case (Suc n)
  then obtain w where w: "any_reach k w" "card (dom (streams w)) = n" by blast
  have key: "api_key_ok (apiKey w)" using any_reach_apiKey [OF w(1)] assms by simp
  have below: "dom (streams w) \<subseteq> {..<nextId w}" by (rule any_reach_streams_below [OF w(1)])
  then have fin: "finite (dom (streams w))" and fresh: "nextId w \<notin> dom (streams w)"
    by (auto intro: finite_subset)
  have "any_reach k (app_step w ClickStart)" using w(1) by (rule any_reach.any_step) simp
  moreover have "card (dom (streams (app_step w ClickStart))) = Suc n"
    using startGeneration_new_stream [OF key] fin fresh w(2) by simp
  ultimately show ?case by blast
qed

theorem any_streams_unbounded_witness:
  "\<exists>w. any_reach (Some ''key'') w \<and> card (dom (streams w)) = 3"
  using any_streams_unbounded [of "Some ''key''" 3] by (simp add: api_key_ok_def)

text \<open>Overlapping "next section" streams write into the same document: their
  chunks interleave, so the text of section II and section III is mixed in the order
  the chunks arrive.\<close>

theorem race_sections_interleave:
  "any_reach (Some ''key'')
     (run filled_world [ClickStart, StreamEnd 0, ClickNext, ClickNext,
                        Chunk 1 (Some ''A''), Chunk 2 (Some ''B''), Chunk 1 (Some ''C'')])
   \<and> fullDocument (state (run filled_world [ClickStart, StreamEnd 0, ClickNext, ClickNext,
                        Chunk 1 (Some ''A''), Chunk 2 (Some ''B''), Chunk 1 (Some ''C'')])) = ''ABC''"
proof -
  have "any_reach (Some ''key'') filled_world"
    unfolding filled_world_def
    by (rule any_trace_reach [OF any_reach.any_init]) (simp add: handler_simps)
  then have "any_reach (Some ''key'')
     (run filled_world [ClickStart, StreamEnd 0, ClickNext, ClickNext,
                        Chunk 1 (Some ''A''), Chunk 2 (Some ''B''), Chunk 1 (Some ''C'')])"
    by (rule any_trace_reach) (simp add: filled_world_def handler_simps stream_pending_def Let_def)
  then show ?thesis
    by (simp add: filled_world_def handler_simps Let_def)
qed

end
