(* ===== verification/Abstract.thy ===== *)
theory Abstract
  imports Concurrency
begin

text \<open>
  The contract of the step sequencer as the specification states it (its
  sections 4.1, 4.2 and 7): two atomic operations, \<open>start\<close> and \<open>advance\<close>, on
  an abstract state of four fields, each taking the whole outcome of its
  stream at once (the fragments in arrival order, then a normal end or a
  failure).  The refinement lemmas show that the handlers of
  \<^verbatim>\<open>src/App.tsx\<close>, run as the UI permits them from a quiescent state (no
  stream pending), implement these operations: the abstraction of the world
  after the concrete events (click, chunks, end or error) is the abstract
  operation applied to the abstraction of the world before.
\<close>

record spec_state =
  sp_step :: generation_step
  sp_doc :: js_string
  sp_streaming :: bool
  sp_error :: "js_string option"

datatype spec_outcome = Completes "js_string list" | Fails "js_string list" js_string

text \<open>The transition table of the specification: no entry for \<open>PART_V_VI\<close>.\<close>

fun spec_table :: "generation_step \<Rightarrow> generation_step option" where
  "spec_table OUTLINE = Some PART_I_II"
| "spec_table PART_I_II = Some PART_III"
| "spec_table PART_III = Some PART_IV_SOL1"
| "spec_table PART_IV_SOL1 = Some PART_IV_SOL2"
| "spec_table PART_IV_SOL2 = Some PART_V_VI"
| "spec_table _ = None"

definition spec_advance :: "spec_outcome \<Rightarrow> spec_state \<Rightarrow> spec_state" where
  "spec_advance out s =
     (case spec_table (sp_step s) of
        None \<Rightarrow> s
      | Some t \<Rightarrow>
          (case out of
             Completes fs \<Rightarrow> s\<lparr>sp_step := (if t = PART_V_VI then COMPLETED else t),
                               sp_doc := sp_doc s @ concat fs, sp_streaming := False, sp_error := None\<rparr>
           | Fails fs e \<Rightarrow> s\<lparr>sp_step := t, sp_doc := sp_doc s @ concat fs,
                             sp_streaming := False, sp_error := Some e\<rparr>))"

text \<open>\<open>start\<close> with valid teacher data: the credential is checked, and the
  buffer is replaced by the fragments of the initial prompt.\<close>

definition spec_start :: "bool \<Rightarrow> spec_outcome \<Rightarrow> spec_state \<Rightarrow> spec_state" where
  "spec_start configured out s =
     (if \<not> configured then s\<lparr>sp_error := Some API_KEY_ERROR\<rparr>
      else case out of
             Completes fs \<Rightarrow> s\<lparr>sp_step := OUTLINE, sp_doc := concat fs, sp_streaming := False, sp_error := None\<rparr>
           | Fails fs e \<Rightarrow> s\<lparr>sp_step := OUTLINE, sp_doc := concat fs, sp_streaming := False,
                             sp_error := Some e\<rparr>)"

definition abs_world :: "app_world \<Rightarrow> spec_state" where
  "abs_world w =
     \<lparr>sp_step = step (state w), sp_doc = fullDocument (state w), sp_streaming = isStreaming (state w),
      sp_error = error (state w)\<rparr>"

text \<open>The concrete events realising one abstract operation on stream \<open>i\<close>: the
  click, the chunks, and the end (\<open>None\<close>) or the error of the stream.\<close>

definition stream_events :: "nat \<Rightarrow> js_string option list \<Rightarrow> js_string option \<Rightarrow> event list" where
  "stream_events i cs fail =
     map (Chunk i) cs @ [case fail of None \<Rightarrow> StreamEnd i | Some e \<Rightarrow> StreamError i e]"

definition outcome_of :: "js_string option list \<Rightarrow> js_string option \<Rightarrow> spec_outcome" where
  "outcome_of cs fail =
     (case fail of None \<Rightarrow> Completes (map opt_text cs) | Some e \<Rightarrow> Fails (map opt_text cs) e)"

subsection \<open>Lemmas\<close>

lemma spec_table_nextStepMap:
  "s \<noteq> PART_V_VI \<Longrightarrow> spec_table s = map_option snd (nextStepMap s)"
  by (cases s) simp_all

lemma spec_table_range: "spec_table s \<noteq> None \<Longrightarrow> INPUT_FORM < s \<and> s < COMPLETED"
  by (cases s) simp_all

lemma seq_inv_quiescent:
  assumes "seq_inv w" "\<not> isStreaming (state w)"
  shows "streams w = Map.empty" "step (state w) = INPUT_FORM \<Longrightarrow> fullDocument (state w) = []"
    "step (state w) \<noteq> INPUT_FORM \<Longrightarrow> chatSession w \<noteq> None"
  using assms by (simp_all add: seq_inv_def)

lemma run_no_stream: "streams w i = None \<Longrightarrow> run w (stream_events i cs fail) = w"
  by (induction cs) (simp_all add: stream_events_def chunk_event_def end_event_def error_event_def
      split: option.splits)

lemma run_stream_end:
  "streams w i = Some k \<Longrightarrow>
   state (run w [case fail of None \<Rightarrow> StreamEnd i | Some e \<Rightarrow> StreamError i e])
   = (case fail of None \<Rightarrow> onStreamEnd k (state w) | Some e \<Rightarrow> onStreamError e (state w))"
  by (cases fail) (simp_all add: end_event_def error_event_def)

lemma ui_trace_next_stream:
  "streams w i = Some (NextStream n) \<Longrightarrow> ui_trace w (stream_events i cs fail)"
  by (induction cs arbitrary: w)
    (auto simp: stream_events_def chunk_event_next stream_pending_def split: option.splits)

lemma ui_trace_start_stream:
  "streams w i = Some (StartStream g) \<Longrightarrow> ui_trace w (stream_events i cs fail)"
proof (induction cs arbitrary: w g)
  case Nil
  then show ?case by (simp add: stream_events_def stream_pending_def split: option.splits)
next
  case (Cons c cs)
  then have "ui_trace (chunk_event w i c) (stream_events i cs fail)"
    by (cases "opt_text c = []") (simp_all add: chunk_event_start)
  with Cons.prems show ?case by (simp add: stream_events_def stream_pending_def)
qed

lemma advance_state:
  assumes "nextStepMap (step (state w)) = Some (p, n)" and "chatSession w = Some c"
  shows "state (run w (ClickNext # stream_events (nextId w) cs fail)) =
           (state w)\<lparr>isStreaming := False, error := fail,
              step := (case fail of None \<Rightarrow> settled_step n | Some e \<Rightarrow> n),
              fullDocument := fullDocument (state w) @ concat (map opt_text cs)\<rparr>"
proof -
  let ?w1 = "generateNextSection w"
  have w1: "?w1 = w\<lparr>state := (state w)\<lparr>isStreaming := True, error := None, step := n\<rparr>,
             chatSession := Some (c\<lparr>sent := sent c @ [p]\<rparr>),
             streams := (streams w)(nextId w \<mapsto> NextStream n),
             nextId := Suc (nextId w)\<rparr>"
    using assms by (rule generateNextSection_Some)
  then have s1: "streams ?w1 (nextId w) = Some (NextStream n)" by simp
  let ?w2 = "?w1\<lparr>state := (state ?w1)\<lparr>fullDocument := fullDocument (state ?w1) @ concat (map opt_text cs)\<rparr>\<rparr>"
  have "run ?w1 (map (Chunk (nextId w)) cs) = ?w2" using s1 by (rule run_next_chunks)
  moreover have "streams ?w2 (nextId w) = Some (NextStream n)" using s1 by simp
  ultimately show ?thesis using w1
    by (cases fail) (simp_all add: stream_events_def run_append end_event_def error_event_def onStreamError_def)
qed

lemma start_state:
  assumes "api_key_ok (apiKey w)" and "fullDocument (state w) = []"
  shows "state (run w (ClickStart # stream_events (nextId w) cs fail)) =
           (state w)\<lparr>step := OUTLINE, isStreaming := False, error := fail,
              fullDocument := concat (map opt_text cs)\<rparr>"
proof -
  let ?s1 = "(state w)\<lparr>step := OUTLINE, isStreaming := True, error := None\<rparr>"
  let ?c = "initializeGeminiChat (chatsCreated w)"
  let ?w1 = "w\<lparr>state := ?s1, chatSession := Some (?c\<lparr>sent := sent ?c @ [initMessage (userInfo w)]\<rparr>),
               chatsCreated := Suc (chatsCreated w), streams := (streams w)(nextId w \<mapsto> StartStream []),
               nextId := Suc (nextId w)\<rparr>"
  have w1: "startGeneration w = ?w1" using assms(1) by (simp add: startGeneration_def Let_def)
  have s1: "streams ?w1 (nextId w) = Some (StartStream [])" by simp
  obtain g where
    g: "streams (run ?w1 (map (Chunk (nextId w)) cs)) (nextId w) = Some (StartStream g)" and
    d: "state (run ?w1 (map (Chunk (nextId w)) cs)) = ?s1\<lparr>fullDocument := concat (map opt_text cs)\<rparr>"
    using run_start_chunks [OF s1, of cs] assms(2)
    by (cases "concat (map opt_text cs) = []") (auto simp del: concat_eq_Nil_conv)
  show ?thesis
    using run_stream_end [OF g, of fail] w1 d
    by (cases fail) (simp_all add: stream_events_def run_append onStreamError_def)
qed

lemma nextStepMap_range: "nextStepMap s = Some (p, n) \<Longrightarrow> INPUT_FORM < s \<and> s < COMPLETED"
  by (cases s) auto

lemma advance_ui_trace_next:
  assumes "seq_inv w" "\<not> isStreaming (state w)" "nextStepMap (step (state w)) = Some (p, n)"
  shows "ui_trace w (ClickNext # stream_events (nextId w) cs fail)"
proof -
  have "step (state w) \<noteq> INPUT_FORM" using assms(3) by auto
  then obtain c where c: "chatSession w = Some c" using seq_inv_quiescent(3) [OF assms(1,2)] by blast
  have "streams (generateNextSection w) (nextId w) = Some (NextStream n)"
    by (simp add: generateNextSection_Some [OF assms(3) c])
  then have "ui_trace (generateNextSection w) (stream_events (nextId w) cs fail)"
    by (rule ui_trace_next_stream)
  moreover have "next_enabled (state w)" using assms(2) nextStepMap_range [OF assms(3)]
    by (simp add: next_enabled_iff)
  ultimately show ?thesis by simp
qed

lemma advance_ui_trace:
  assumes "seq_inv w" "\<not> isStreaming (state w)" "spec_table (step (state w)) \<noteq> None"
  shows "ui_trace w (ClickNext # stream_events (nextId w) cs fail)"
proof -
  have "step (state w) \<noteq> PART_V_VI" using assms(3) by auto
  then obtain p n where "nextStepMap (step (state w)) = Some (p, n)"
    using assms(3) spec_table_nextStepMap by fastforce
  then show ?thesis using assms(1,2) advance_ui_trace_next by blast
qed

lemma start_ui_trace:
  assumes "step (state w) = INPUT_FORM" "\<not> isStreaming (state w)" "isFormValid (userInfo w)"
    "api_key_ok (apiKey w)"
  shows "ui_trace w (ClickStart # stream_events (nextId w) cs fail)"
proof -
  have "streams (startGeneration w) (nextId w) = Some (StartStream [])"
    using assms(4) by (simp add: startGeneration_def Let_def)
  then have "ui_trace (startGeneration w) (stream_events (nextId w) cs fail)"
    by (rule ui_trace_start_stream)
  with assms(1-3) show ?thesis by (simp add: start_enabled_iff)
qed

text \<open>C4: Refinement of \<open>advance\<close>: from every quiescent state the UI can reach,
  except the phase \<open>PART_V_VI\<close> that the specification's table lacks, the click on
  "next section" followed by the chunks of its stream and its end or failure changes
  the abstract state exactly as the specification's \<open>advance\<close> with the same
  fragments and outcome; and when the table has an entry, the UI permits that whole
  run.\<close>

theorem advance_refines:
  assumes "ui_reach k w" "\<not> isStreaming (state w)" "step (state w) \<noteq> PART_V_VI"
  shows "abs_world (run w (ClickNext # stream_events (nextId w) cs fail))
           = spec_advance (outcome_of cs fail) (abs_world w)
         \<and> (spec_table (step (state w)) \<noteq> None \<longrightarrow> ui_trace w (ClickNext # stream_events (nextId w) cs fail))"
proof -
  have inv: "seq_inv w" using assms(1) by (rule ui_reach_seq_inv)
  have tr: "spec_table (step (state w)) = map_option snd (nextStepMap (step (state w)))"
    using assms(3) by (rule spec_table_nextStepMap)
  have "abs_world (run w (ClickNext # stream_events (nextId w) cs fail))
          = spec_advance (outcome_of cs fail) (abs_world w)"
  proof (cases "nextStepMap (step (state w))")
    case None
    have "generateNextSection w = w" using None by (simp add: generateNextSection_def)
    moreover have "streams w (nextId w) = None" using seq_inv_quiescent(1) [OF inv assms(2)] by simp
    ultimately show ?thesis using None tr
      by (simp add: run_no_stream spec_advance_def abs_world_def)
  next
    case (Some pn)
    then obtain p n where pn: "nextStepMap (step (state w)) = Some (p, n)" by (cases pn) auto
    then have "step (state w) \<noteq> INPUT_FORM" by auto
    then obtain c where c: "chatSession w = Some c" using seq_inv_quiescent(3) [OF inv assms(2)] by blast
    show ?thesis using advance_state [OF pn c, of cs fail] pn tr
      by (cases fail) (simp_all add: spec_advance_def abs_world_def outcome_of_def settled_step_def)
  qed
  moreover have "spec_table (step (state w)) \<noteq> None \<longrightarrow> ui_trace w (ClickNext # stream_events (nextId w) cs fail)"
    using advance_ui_trace [OF inv assms(2)] by blast
  ultimately show ?thesis by blast
qed

text \<open>C5: Refinement of \<open>start\<close>: from every quiescent state the UI can reach in
  \<open>INPUT_FORM\<close>, the submit click followed by the chunks of its stream and its end
  or failure changes the abstract state exactly as the specification's \<open>start\<close>
  (the buffer replaced by the fragments; with no credential, only the error
  message); and with valid teacher data and a credential the UI permits that whole
  run.\<close>

theorem start_refines:
  assumes "ui_reach k w" "\<not> isStreaming (state w)" "step (state w) = INPUT_FORM"
  shows "abs_world (run w (ClickStart # stream_events (nextId w) cs fail))
           = spec_start (api_key_ok (apiKey w)) (outcome_of cs fail) (abs_world w)
         \<and> (isFormValid (userInfo w) \<and> api_key_ok (apiKey w)
            \<longrightarrow> ui_trace w (ClickStart # stream_events (nextId w) cs fail))"
proof -
  have inv: "seq_inv w" using assms(1) by (rule ui_reach_seq_inv)
  have doc: "fullDocument (state w) = []" using seq_inv_quiescent(2) [OF inv assms(2,3)] .
  have "abs_world (run w (ClickStart # stream_events (nextId w) cs fail))
          = spec_start (api_key_ok (apiKey w)) (outcome_of cs fail) (abs_world w)"
  proof (cases "api_key_ok (apiKey w)")
    case True
    show ?thesis using start_state [OF True doc, of cs fail] True
      by (cases fail) (simp_all add: spec_start_def abs_world_def outcome_of_def)
  next
    case False
    have "streams (startGeneration w) (nextId w) = None"
      using False seq_inv_quiescent(1) [OF inv assms(2)] by (simp add: startGeneration_def)
    then show ?thesis using False
      by (simp add: run_no_stream spec_start_def abs_world_def startGeneration_def)
  qed
  moreover have "isFormValid (userInfo w) \<and> api_key_ok (apiKey w)
            \<longrightarrow> ui_trace w (ClickStart # stream_events (nextId w) cs fail)"
    using start_ui_trace [OF assms(3,2)] by blast
  ultimately show ?thesis by blast
qed

theorem advance_refines_witness:
  "abs_world (run (run filled_world [ClickStart, Chunk 0 (Some ''ab''), StreamEnd 0])
      (ClickNext # stream_events 1 [Some ''cd''] None))
   = spec_advance (Completes [''cd'']) (abs_world (run filled_world [ClickStart, Chunk 0 (Some ''ab''), StreamEnd 0]))
   \<and> ui_trace (run filled_world [ClickStart, Chunk 0 (Some ''ab''), StreamEnd 0])
       (ClickNext # stream_events 1 [Some ''cd''] None)"
proof -
  let ?w = "run filled_world [ClickStart, Chunk 0 (Some ''ab''), StreamEnd 0]"
  have q: "\<not> isStreaming (state ?w)" "step (state ?w) = OUTLINE" "nextId ?w = 1"
    by (simp_all add: filled_world_def handler_simps Let_def)
  have v: "step (state ?w) \<noteq> PART_V_VI" using q(2) by simp
  show ?thesis
    using advance_refines [OF filled_run_ui_reach q(1) v, of "[Some ''cd'']" None] q
    by (simp add: outcome_of_def)
qed

theorem start_refines_witness:
  "abs_world (run filled_world (ClickStart # stream_events 0 [Some ''ab''] (Some ''E'')))
   = spec_start True (Fails [''ab''] ''E'') (abs_world filled_world)
   \<and> ui_trace filled_world (ClickStart # stream_events 0 [Some ''ab''] (Some ''E''))"
proof -
  have q: "\<not> isStreaming (state filled_world)" "step (state filled_world) = INPUT_FORM"
    "nextId filled_world = 0" "api_key_ok (apiKey filled_world)" "isFormValid (userInfo filled_world)"
    by (simp_all add: filled_world_def handler_simps)
  show ?thesis
    using start_refines [OF filled_world_ui_reach q(1,2), of "[Some ''ab'']" "Some ''E''"] q
    by (simp add: outcome_of_def)
qed

subsection \<open>Progress\<close>

lemma ui_trace_append: "ui_trace w (xs @ ys) \<longleftrightarrow> ui_trace w xs \<and> ui_trace (run w xs) ys"
  by (induction xs arbitrary: w) auto

lemma ui_trace_extend:
  "ui_trace w xs \<Longrightarrow> ui_trace (run w xs) ys \<Longrightarrow> P (run (run w xs) ys) \<Longrightarrow>
   \<exists>es. ui_trace w es \<and> P (run w es)"
  by (metis ui_trace_append run_append)

text \<open>One whole advance that ends normally, from a quiescent reachable world: the UI
  permits it, the world is quiescent again and the phase has moved forward.\<close>

lemma advance_progress:
  assumes "ui_reach k w" "\<not> isStreaming (state w)" "nextStepMap (step (state w)) = Some (p, n)"
  shows "ui_trace w (ClickNext # stream_events (nextId w) [] None)
    \<and> \<not> isStreaming (state (run w (ClickNext # stream_events (nextId w) [] None)))
    \<and> step (state w) < step (state (run w (ClickNext # stream_events (nextId w) [] None)))"
proof -
  have inv: "seq_inv w" using assms(1) by (rule ui_reach_seq_inv)
  have "step (state w) \<noteq> INPUT_FORM" using assms(3) by auto
  then obtain c where c: "chatSession w = Some c" using seq_inv_quiescent(3) [OF inv assms(2)] by blast
  have "step (state w) < n" using assms(3) by (rule nextStepMap_Some_step)
  also have "n \<le> settled_step n" by (rule settled_step_ge)
  finally have lt: "step (state w) < settled_step n" .
  show ?thesis using advance_ui_trace_next [OF inv assms(2,3)] advance_state [OF assms(3) c, of "[]" None] lt
    by simp
qed

lemma completes_after_start:
  "ui_reach k w \<Longrightarrow> \<not> isStreaming (state w) \<Longrightarrow> step (state w) \<noteq> INPUT_FORM \<Longrightarrow>
   \<exists>es. ui_trace w es \<and> step (state (run w es)) = COMPLETED \<and> \<not> isStreaming (state (run w es))"
proof (induction "8 - step_num (step (state w))" arbitrary: w rule: less_induct)
  case less
  show ?case
  proof (cases "step (state w) = COMPLETED")
    case True
    with less.prems show ?thesis by (intro exI [of _ "[]"]) simp
  next
    case False
    have "step (state w) \<noteq> APPENDIX" using ui_reach_seq_inv [OF less.prems(1)] by (simp add: seq_inv_def)
    moreover have "INPUT_FORM < step (state w)" "step (state w) < COMPLETED"
      using less.prems(3) False by (cases "step (state w)"; simp)+
    ultimately obtain p n where pn: "nextStepMap (step (state w)) = Some (p, n)"
      using nextStepMap_enabled by blast
    let ?es = "ClickNext # stream_events (nextId w) [] None"
    have adv: "ui_trace w ?es" "\<not> isStreaming (state (run w ?es))" "step (state w) < step (state (run w ?es))"
      using advance_progress [OF less.prems(1,2) pn] by blast+
    have r: "ui_reach k (run w ?es)" using ui_trace_reach [OF less.prems(1) adv(1)] .
    have "step_num (step (state (run w ?es))) \<le> 8" by (rule step_num_le_8)
    then have "8 - step_num (step (state (run w ?es))) < 8 - step_num (step (state w))"
      using adv(3) by simp
    moreover have "step (state (run w ?es)) \<noteq> INPUT_FORM" using adv(3) by auto
    ultimately obtain es where
      es: "ui_trace (run w ?es) es" "step (state (run (run w ?es) es)) = COMPLETED"
      "\<not> isStreaming (state (run (run w ?es) es))"
      using less.hyps r adv(2) by blast
    show ?thesis
      by (rule ui_trace_extend [OF adv(1) es(1), where P = "\<lambda>v. step (state v) = COMPLETED
            \<and> \<not> isStreaming (state v)"]) (use es(2,3) in blast)
  qed
qed

text \<open>C8: Liveness of the generation: from every quiescent state the UI can reach, if
  the phase is still \<open>INPUT_FORM\<close> with valid teacher data and a credential, there is a
  run the UI permits, in which every stream ends normally, that reaches
  \<open>COMPLETED\<close> with no stream running.\<close>

theorem generation_completes:
  assumes "ui_reach k w" "\<not> isStreaming (state w)"
    "step (state w) = INPUT_FORM \<longrightarrow> isFormValid (userInfo w) \<and> api_key_ok (apiKey w)"
  shows "\<exists>es. ui_trace w es \<and> step (state (run w es)) = COMPLETED \<and> \<not> isStreaming (state (run w es))"
proof (cases "step (state w) = INPUT_FORM")
  case False
  then show ?thesis using completes_after_start [OF assms(1,2)] by blast
next
  case True
  let ?es = "ClickStart # stream_events (nextId w) [] None"
  have inv: "seq_inv w" using assms(1) by (rule ui_reach_seq_inv)
  have ok: "isFormValid (userInfo w)" "api_key_ok (apiKey w)" using assms(3) True by blast+
  have tr: "ui_trace w ?es" using start_ui_trace [OF True assms(2) ok] .
  have doc: "fullDocument (state w) = []" using seq_inv_quiescent(2) [OF inv assms(2) True] .
  have st: "step (state (run w ?es)) = OUTLINE" "\<not> isStreaming (state (run w ?es))"
    using start_state [OF ok(2) doc, of "[]" None] by simp_all
  have r: "ui_reach k (run w ?es)" using ui_trace_reach [OF assms(1) tr] .
  obtain es where es: "ui_trace (run w ?es) es" "step (state (run (run w ?es) es)) = COMPLETED"
      "\<not> isStreaming (state (run (run w ?es) es))"
    using completes_after_start [OF r st(2)] st(1) by auto
  show ?thesis
    by (rule ui_trace_extend [OF tr es(1), where P = "\<lambda>v. step (state v) = COMPLETED
          \<and> \<not> isStreaming (state v)"]) (use es(2,3) in blast)
qed

text \<open>C9: No stream blocks the UI for ever: from every state the UI can reach, the end
  of the pending stream, if any, is a permitted event after which no stream is pending
  and the streaming flag is clear.\<close>

theorem ui_streams_settle:
  assumes "ui_reach k w"
  shows "\<exists>es. length es \<le> 1 \<and> ui_trace w es \<and> \<not> isStreaming (state (run w es))
              \<and> streams (run w es) = Map.empty"
proof (cases "isStreaming (state w)")
  case False
  have "streams w = Map.empty" using seq_inv_quiescent(1) [OF ui_reach_seq_inv [OF assms] False] .
  with False show ?thesis by (intro exI [of _ "[]"]) simp
next
  case True
  have inv: "seq_inv w" using assms by (rule ui_reach_seq_inv)
  then have ne: "streams w \<noteq> Map.empty"
    and one: "\<And>i k'. streams w i = Some k' \<Longrightarrow> streams w = [i \<mapsto> k']"
    using True by (auto simp: seq_inv_def)
  from ne obtain i k' where ik: "streams w i = Some k'" by (metis option.exhaust)
  have "\<not> isStreaming (onStreamEnd k' (state w))" by (cases k') simp_all
  moreover have "ui_trace w [StreamEnd i]" using ik by (simp add: stream_pending_def)
  moreover have "streams (run w [StreamEnd i]) = Map.empty" using ik one [OF ik] by (simp add: end_event_def)
  ultimately show ?thesis using ik by (intro exI [of _ "[StreamEnd i]"]) (simp add: end_event_def)
qed

theorem generation_completes_witness:
  "\<exists>es. ui_trace filled_world es \<and> step (state (run filled_world es)) = COMPLETED"
proof -
  have q: "\<not> isStreaming (state filled_world)"
    "step (state filled_world) = INPUT_FORM \<longrightarrow> isFormValid (userInfo filled_world) \<and> api_key_ok (apiKey filled_world)"
    by (simp_all add: filled_world_def handler_simps)
  show ?thesis using generation_completes [OF filled_world_ui_reach q] by blast
qed

theorem ui_streams_settle_witness:
  "\<exists>es. ui_trace (run filled_world [ClickStart]) es \<and> \<not> isStreaming (state (run (run filled_world [ClickStart]) es))"
proof -
  have r: "ui_reach (Some ''key'') (run filled_world [ClickStart])"
    by (rule ui_trace_reach [OF filled_world_ui_reach]) (simp add: filled_world_def handler_simps inv_simps Let_def)
  show ?thesis using ui_streams_settle [OF r] by blast
qed

end
