(* ===== verification/Export.thy ===== *)
theory Export
  imports Sequencer
begin

text \<open>
  The document exporter \<open>exportToWord\<close> of \<^verbatim>\<open>src/App.tsx\<close>.  It renders the
  document with \<open>marked.parse\<close> (a library call, here the parameter
  \<open>markedParse\<close>), wraps the result in a fixed HTML envelope
  (\<open>word_html\<close>), makes a \<open>data:\<close> URL of it with \<open>encodeURIComponent\<close> and
  names the download after the current year (\<open>export_filename\<close>).  On byte
  strings \<open>encodeURIComponent\<close> keeps the unreserved ASCII characters and
  writes every other byte as \<open>%XY\<close> with upper-case hexadecimal digits, which
  is what JavaScript does to the UTF-8 encoding of a well-formed string.  The
  decoder \<open>decodeURIComponent\<close> and the file-name reader
  \<open>year_of_filename\<close> are not part of the program: they state what a reader of
  the download recovers, and the round-trip lemmas show nothing is lost.
\<close>

text \<open>The template literal \<open>html\<close>: a fixed head, the rendered document, a fixed tail.\<close>

definition WORD_HTML_HEAD :: js_string where
  "WORD_HTML_HEAD =
     ''<html xmlns:o='' @ [CHR 0x27] @ ''urn:schemas-microsoft-com:office:office'' @ [CHR 0x27] @
     '' xmlns:w='' @ [CHR 0x27] @ ''urn:schemas-microsoft-com:office:word'' @ [CHR 0x27] @
     '' xmlns='' @ [CHR 0x27] @ ''http://www.w3.org/TR/REC-html40'' @ [CHR 0x27] @ ''>'' @
     [CHR 0x0A] @ ''    <head><meta charset='' @ [CHR 0x27] @ ''utf-8'' @ [CHR 0x27] @
     ''><style>body { font-family: '' @ [CHR 0x27] @ ''Times New Roman'' @ [CHR 0x27] @
     ''; padding: 2cm; }</style></head>'' @ [CHR 0x0A] @ ''    <body>'' @ [CHR 0x0A] @
     ''      <div style='' @ [CHR 0x22] @ ''text-align: right; font-style: italic; color: #666;'' @
     [CHR 0x22] @ ''>Ng'' @ [CHR 0xC6, CHR 0xB0, CHR 0xE1, CHR 0xBB, CHR 0x9D] @ ''i th'' @
     [CHR 0xE1, CHR 0xBB, CHR 0xB1] @ ''c hi'' @ [CHR 0xE1, CHR 0xBB, CHR 0x87] @
     ''n: VANHA</div>'' @ [CHR 0x0A] @ ''      ''"

definition WORD_HTML_TAIL :: js_string where
  "WORD_HTML_TAIL = [CHR 0x0A] @ ''    </body></html>''"

definition word_html :: "js_string \<Rightarrow> js_string" where
  "word_html htmlContent = WORD_HTML_HEAD @ htmlContent @ WORD_HTML_TAIL"

text \<open>The characters \<open>encodeURIComponent\<close> leaves as they are.\<close>

definition uri_unreserved :: "char \<Rightarrow> bool" where
  "uri_unreserved c \<longleftrightarrow>
     (let n = of_char c :: nat
      in (48 \<le> n \<and> n \<le> 57) \<or> (65 \<le> n \<and> n \<le> 90) \<or> (97 \<le> n \<and> n \<le> 122) \<or>
         c \<in> set (''-_.!~*'' @ [CHR 0x27] @ ''()''))"

definition hex_digit :: "nat \<Rightarrow> char" where
  "hex_digit n = char_of (if n < 10 then 48 + n else 55 + n)"

definition uri_escape :: "char \<Rightarrow> js_string" where
  "uri_escape c = [CHR ''%'', hex_digit (of_char c div 16), hex_digit (of_char c mod 16)]"

definition encodeURIComponent :: "js_string \<Rightarrow> js_string" where
  "encodeURIComponent s = concat (map (\<lambda>c. if uri_unreserved c then [c] else uri_escape c) s)"

definition hex_value :: "char \<Rightarrow> nat option" where
  "hex_value c =
     (let n = of_char c :: nat
      in if 48 \<le> n \<and> n \<le> 57 then Some (n - 48)
         else if 65 \<le> n \<and> n \<le> 70 then Some (n - 55)
         else if 97 \<le> n \<and> n \<le> 102 then Some (n - 87)
         else None)"

text \<open>Percent-decoding; a malformed escape is JavaScript's \<open>URIError\<close>, here \<open>None\<close>.\<close>

fun decodeURIComponent :: "js_string \<Rightarrow> js_string option" where
  "decodeURIComponent [] = Some []"
| "decodeURIComponent (c # cs) =
     (if c = CHR ''%'' then
        (case cs of
           h1 # h2 # rest \<Rightarrow>
             (case (hex_value h1, hex_value h2) of
                (Some a, Some b) \<Rightarrow> map_option (Cons (char_of (16 * a + b))) (decodeURIComponent rest)
              | _ \<Rightarrow> None)
         | _ \<Rightarrow> None)
      else map_option (Cons c) (decodeURIComponent cs))"

definition DATA_URL_PREFIX :: js_string where
  "DATA_URL_PREFIX = ''data:application/vnd.ms-word;charset=utf-8,''"

text \<open>A non-negative integer in a template literal: its decimal digits.\<close>

fun decimal :: "nat \<Rightarrow> js_string" where
  "decimal n = (if n < 10 then [char_of (48 + n)] else decimal (n div 10) @ [char_of (48 + n mod 10)])"

definition export_filename :: "nat \<Rightarrow> js_string" where
  "export_filename year = ''SKKN_VANHA_'' @ decimal year @ ''.doc''"

record download_link =
  href :: js_string
  download :: js_string

definition exportToWord :: "(js_string \<Rightarrow> js_string) \<Rightarrow> nat \<Rightarrow> generation_state \<Rightarrow> download_link" where
  "exportToWord markedParse year s =
     (let htmlContent = markedParse (fullDocument s);
          html = word_html htmlContent;
          url = DATA_URL_PREFIX @ encodeURIComponent html
      in \<lparr>href = url, download = export_filename year\<rparr>)"

definition parse_decimal :: "js_string \<Rightarrow> nat" where
  "parse_decimal ds = foldl (\<lambda>acc c. 10 * acc + (of_char c - 48)) 0 ds"

definition year_of_filename :: "js_string \<Rightarrow> nat option" where
  "year_of_filename f =
     (if prefix ''SKKN_VANHA_'' f \<and> suffix ''.doc'' f \<and> length f > 15
      then Some (parse_decimal (drop 11 (take (length f - 4) f)))
      else None)"

subsection \<open>Lemmas\<close>

declare decimal.simps [simp del]

lemma decimal_small: "n < 10 \<Longrightarrow> decimal n = [char_of (48 + n)]"
  by (subst decimal.simps) simp

lemma decimal_big:
  "\<not> n < 10 \<Longrightarrow> decimal n = decimal (n div 10) @ [char_of (48 + n mod 10)]"
  by (subst decimal.simps) simp

lemma encodeURIComponent_Nil [simp]: "encodeURIComponent [] = []"
  by (simp add: encodeURIComponent_def)

lemma encodeURIComponent_Cons [simp]:
  "encodeURIComponent (c # s) =
     (if uri_unreserved c then [c] else uri_escape c) @ encodeURIComponent s"
  by (simp add: encodeURIComponent_def)

lemma encodeURIComponent_append [simp]:
  "encodeURIComponent (s @ t) = encodeURIComponent s @ encodeURIComponent t"
  by (simp add: encodeURIComponent_def)

lemma uri_escape_length [simp]: "length (uri_escape c) = 3"
  by (simp add: uri_escape_def)

lemma percent_reserved: "\<not> uri_unreserved (CHR ''%'')"
  by (simp add: uri_unreserved_def)

lemma hex_value_hex_digit: "n < 16 \<Longrightarrow> hex_value (hex_digit n) = Some n"
  by (simp add: hex_digit_def hex_value_def Let_def)

lemma of_char_div_16: "(of_char c :: nat) div 16 < 16"
proof -
  have "(of_char c :: nat) < 16 * 16" using nat_of_char_less_256 [of c] by simp
  then show ?thesis by (rule less_mult_imp_div_less)
qed

lemma char_of_div_mod: "char_of (16 * (of_char c div 16) + of_char c mod 16) = c"
  by simp

lemma decode_escape:
  "decodeURIComponent (uri_escape c @ s) = map_option (Cons c) (decodeURIComponent s)"
proof -
  have "of_char c div 16 < (16::nat)" "of_char c mod 16 < (16::nat)"
    by (simp_all add: of_char_div_16)
  then show ?thesis
    by (simp add: uri_escape_def hex_value_hex_digit char_of_div_mod)
qed

lemma decode_encode: "decodeURIComponent (encodeURIComponent s) = Some s"
proof (induction s)
  case Nil
  then show ?case by simp
next
  case (Cons c s)
  show ?case
  proof (cases "uri_unreserved c")
    case True
    then have "c \<noteq> CHR ''%''" using percent_reserved by blast
    with True Cons.IH show ?thesis by simp
  next
    case False
    with Cons.IH show ?thesis by (simp add: decode_escape)
  qed
qed

lemma parse_decimal_snoc:
  "parse_decimal (ds @ [d]) = 10 * parse_decimal ds + (of_char d - 48)"
  by (simp add: parse_decimal_def)

lemma parse_decimal_decimal: "parse_decimal (decimal n) = n"
proof (induction n rule: decimal.induct)
  case (1 n)
  show ?case
  proof (cases "n < 10")
    case True
    then show ?thesis by (simp add: decimal_small parse_decimal_def)
  next
    case False
    with "1.IH" have "parse_decimal (decimal (n div 10)) = n div 10" by simp
    with False show ?thesis
      by (simp add: decimal_big parse_decimal_snoc)
  qed
qed

lemma decimal_length: "length (decimal n) > 0"
  by (cases "n < 10") (simp_all add: decimal_small decimal_big)

lemma filename_parts:
  "export_filename y = ''SKKN_VANHA_'' @ decimal y @ ''.doc''" "length ''SKKN_VANHA_'' = 11"
  "length ''.doc'' = 4"
  by (simp_all add: export_filename_def)

text \<open>C17: The link of \<open>exportToWord\<close> is a \<open>data:\<close> URL whose payload decodes back to
  exactly the HTML envelope around the rendered document: the document reaches
  the file unchanged, whatever bytes it contains.\<close>

theorem exportToWord_payload:
  "prefix DATA_URL_PREFIX (href (exportToWord markedParse year s))
   \<and> decodeURIComponent (drop (length DATA_URL_PREFIX) (href (exportToWord markedParse year s)))
       = Some (word_html (markedParse (fullDocument s)))
   \<and> sublist (markedParse (fullDocument s)) (word_html (markedParse (fullDocument s)))"
proof -
  have "sublist (markedParse (fullDocument s)) (word_html (markedParse (fullDocument s)))"
    unfolding word_html_def by (rule sublist_appendI)
  then show ?thesis
    by (simp add: exportToWord_def Let_def decode_encode)
qed

text \<open>Every character of the output of \<open>encodeURIComponent\<close> is an unreserved
  character, a percent sign or a hexadecimal digit.\<close>

lemma encodeURIComponent_url_safe:
  "\<forall>c\<in>set (encodeURIComponent s). uri_unreserved c \<or> c = CHR ''%'' \<or> hex_value c \<noteq> None"
proof (induction s)
  case Nil
  then show ?case by simp
next
  case (Cons c s)
  have "of_char c div 16 < (16::nat)" "of_char c mod 16 < (16::nat)"
    by (simp_all add: of_char_div_16)
  with Cons.IH show ?case
    by (auto simp: uri_escape_def hex_value_hex_digit)
qed

text \<open>C18: The link \<open>exportToWord\<close> builds is a well-formed \<open>data:\<close> URL: after the
  fixed prefix, every character of the \<open>href\<close> is an unreserved character, a percent
  sign or a hexadecimal digit, whatever the document; no raw space, \<open>#\<close>, quote or
  angle bracket of the HTML envelope reaches the URL.\<close>

theorem exportToWord_url_safe:
  "href (exportToWord markedParse year s)
     = DATA_URL_PREFIX @ drop (length DATA_URL_PREFIX) (href (exportToWord markedParse year s))
   \<and> list_all (\<lambda>c. uri_unreserved c \<or> c = CHR ''%'' \<or> hex_value c \<noteq> None)
       (drop (length DATA_URL_PREFIX) (href (exportToWord markedParse year s)))"
  using encodeURIComponent_url_safe [of "word_html (markedParse (fullDocument s))"]
  by (simp add: exportToWord_def Let_def list_all_iff)

text \<open>C19: The download is named \<open>SKKN_VANHA_<year>.doc\<close> with the year in decimal,
  and the year can be read back from the name.\<close>

theorem filename_year_roundtrip: "year_of_filename (export_filename year) = Some year"
proof -
  have "length (decimal year) > 0" by (rule decimal_length)
  then show ?thesis
    by (simp add: year_of_filename_def filename_parts parse_decimal_decimal suffix_def)
qed

text \<open>Bounds on the size of the payload: percent-encoding never shortens the text
  and at most triples it, and the length is unchanged exactly when every byte is
  unreserved.\<close>

lemma encodeURIComponent_length:
  "length s \<le> length (encodeURIComponent s) \<and> length (encodeURIComponent s) \<le> 3 * length s
   \<and> (length (encodeURIComponent s) = length s \<longleftrightarrow> list_all uri_unreserved s)"
proof (induction s)
  case (Cons c s)
  then show ?case by (cases "uri_unreserved c") auto
qed simp

theorem exportToWord_payload_witness:
  "decodeURIComponent (drop (length DATA_URL_PREFIX)
      (href (exportToWord (\<lambda>d. ''<p>'' @ d @ ''</p>'') 2024 (init_generation_state\<lparr>fullDocument := ''a b%''\<rparr>))))
   = Some (word_html ''<p>a b%</p>'')"
  using exportToWord_payload [of "\<lambda>d. ''<p>'' @ d @ ''</p>''" 2024
      "init_generation_state\<lparr>fullDocument := ''a b%''\<rparr>"]
  by simp

theorem filename_year_roundtrip_witness:
  "export_filename 2024 = ''SKKN_VANHA_2024.doc'' \<and> year_of_filename ''SKKN_VANHA_2024.doc'' = Some 2024"
proof -
  have "export_filename 2024 = ''SKKN_VANHA_2024.doc''" by code_simp
  with filename_year_roundtrip [of 2024] show ?thesis by simp
qed

theorem exportToWord_url_safe_witness:
  "CHR '' '' \<notin> set (href (exportToWord (\<lambda>d. d) 2024 (init_generation_state\<lparr>fullDocument := ''a b''\<rparr>)))"
proof -
  let ?h = "href (exportToWord (\<lambda>d. d) 2024 (init_generation_state\<lparr>fullDocument := ''a b''\<rparr>))"
  have u: "?h = DATA_URL_PREFIX @ drop (length DATA_URL_PREFIX) ?h"
    and p: "list_all (\<lambda>c. uri_unreserved c \<or> c = CHR ''%'' \<or> hex_value c \<noteq> None)
              (drop (length DATA_URL_PREFIX) ?h)"
    using exportToWord_url_safe [of "\<lambda>d. d" 2024 "init_generation_state\<lparr>fullDocument := ''a b''\<rparr>"]
    by blast+
  have sp: "\<not> uri_unreserved (CHR '' '')" "hex_value (CHR '' '') = None"
    by (simp_all add: uri_unreserved_def hex_value_def)
  have "CHR '' '' \<notin> set DATA_URL_PREFIX" by (simp add: DATA_URL_PREFIX_def)
  moreover have "CHR '' '' \<notin> set (drop (length DATA_URL_PREFIX) ?h)"
    using p sp by (auto simp: list_all_iff)
  ultimately show ?thesis by (subst u) simp
qed

end
