(* ===== verification/Initiatives.thy ===== *)
theory Initiatives
  imports Prelude
begin

text \<open>
  The initiative records of \<^verbatim>\<open>src/types.ts\<close> (\<open>Status\<close>, \<open>Initiative\<close>) and the
  two views that read a list of them: the statistics, cards, pie legend, chart data
  and recent-activity rows of \<^verbatim>\<open>src/components/Dashboard.tsx\<close>, and the search
  and status filter of \<^verbatim>\<open>src/components/InitiativeList.tsx\<close> with its three
  state changes (typing a search term, choosing a status, the "clear all filters"
  button), its rendered rows and the callbacks of their buttons.  The
  record's fields carry the prefix \<open>ini_\<close> because \<open>subject\<close> and \<open>grade\<close> are
  already fields of \<open>user_info\<close>.
\<close>

datatype status = DRAFT | PENDING | APPROVED

text \<open>The string value of each member of the string enum \<open>Status\<close>.\<close>

fun status_str :: "status \<Rightarrow> js_string" where
  "status_str DRAFT = ''DRAFT''"
| "status_str PENDING = ''PENDING''"
| "status_str APPROVED = ''APPROVED''"

record initiative =
  ini_id :: js_string
  ini_title :: js_string
  ini_subject :: js_string
  ini_grade :: js_string
  ini_year :: js_string
  ini_abstract :: js_string
  ini_situation :: js_string
  ini_solutions :: js_string
  ini_results :: js_string
  ini_status :: status

subsection \<open>Dashboard\<close>

record dashboard_stats =
  total :: nat
  approved :: nat
  pending :: nat
  draft :: nat

definition stats :: "initiative list \<Rightarrow> dashboard_stats" where
  "stats initiatives =
     \<lparr>total = length initiatives,
      approved = length (filter (\<lambda>i. ini_status i = APPROVED) initiatives),
      pending = length (filter (\<lambda>i. ini_status i = PENDING) initiatives),
      draft = length (filter (\<lambda>i. ini_status i = DRAFT) initiatives)\<rparr>"

record pie_slice =
  slice_name :: js_string
  slice_value :: nat
  slice_color :: js_string

definition pieData :: "dashboard_stats \<Rightarrow> pie_slice list" where
  "pieData st =
     [\<lparr>slice_name = [CHR 0xC4, CHR 0x90, CHR 0xC3, CHR 0xA3] @ '' duy'' @ [CHR 0xE1, CHR 0xBB, CHR 0x87] @ ''t'',
       slice_value = approved st, slice_color = ''#10b981''\<rparr>,
      \<lparr>slice_name = [CHR 0xC4, CHR 0x90] @ ''ang ch'' @ [CHR 0xE1, CHR 0xBB, CHR 0x9D],
       slice_value = pending st, slice_color = ''#f59e0b''\<rparr>,
      \<lparr>slice_name = ''B'' @ [CHR 0xE1, CHR 0xBA, CHR 0xA3] @ ''n nh'' @ [CHR 0xC3, CHR 0xA1] @ ''p'',
       slice_value = draft st, slice_color = ''#6366f1''\<rparr>]"

text \<open>The four statistic cards (label, value, colour class), in the order of the
  array literal that the cards are rendered from.\<close>

record stat_card =
  card_label :: js_string
  card_value :: nat
  card_color :: js_string

definition stat_cards :: "dashboard_stats \<Rightarrow> stat_card list" where
  "stat_cards st =
     [\<lparr>card_label = ''T'' @ [CHR 0xE1, CHR 0xBB, CHR 0x95] @ ''ng s'' @ [CHR 0xE1, CHR 0xBB, CHR 0x91] @ '' SKKN'',
       card_value = total st, card_color = ''bg-indigo-500''\<rparr>,
      \<lparr>card_label = [CHR 0xC4, CHR 0x90, CHR 0xC3, CHR 0xA3] @ '' '' @ [CHR 0xC4, CHR 0x91, CHR 0xC6, CHR 0xB0, CHR 0xE1, CHR 0xBB, CHR 0xA3] @ ''c duy'' @ [CHR 0xE1, CHR 0xBB, CHR 0x87] @ ''t'',
       card_value = approved st, card_color = ''bg-emerald-500''\<rparr>,
      \<lparr>card_label = [CHR 0xC4, CHR 0x90] @ ''ang ch'' @ [CHR 0xE1, CHR 0xBB, CHR 0x9D] @ '' x'' @ [CHR 0xE1, CHR 0xBB, CHR 0xAD] @ '' l'' @ [CHR 0xC3, CHR 0xBD],
       card_value = pending st, card_color = ''bg-amber-500''\<rparr>,
      \<lparr>card_label = ''S'' @ [CHR 0xE1, CHR 0xBB, CHR 0x91] @ '' b'' @ [CHR 0xE1, CHR 0xBA, CHR 0xA3] @ ''n nh'' @ [CHR 0xC3, CHR 0xA1] @ ''p'',
       card_value = draft st, card_color = ''bg-blue-500''\<rparr>]"

text \<open>The monthly bar chart plots a constant array (month, count); it does not read
  the initiatives.\<close>

definition barData :: "(js_string \<times> nat) list" where
  "barData = [(''T1'', 2), (''T2'', 5), (''T3'', 3), (''T4'', 8), (''T5'', 12), (''T6'', 4)]"

text \<open>The legend under the pie chart: one row per slice, its name and its value.\<close>

definition pie_legend :: "pie_slice list \<Rightarrow> (js_string \<times> nat) list" where
  "pie_legend slices = map (\<lambda>item. (slice_name item, slice_value item)) slices"

text \<open>The two charts as \<open>recharts\<close> receives them: the bar chart's title and its
  series (\<open>XAxis dataKey="month"\<close>, \<open>Bar dataKey="count"\<close> over \<open>barData\<close>), and
  the ring chart's title and its slices (\<open>Pie dataKey="value"\<close>, one \<open>Cell\<close> per
  entry filled with the entry's colour).  The drawing is the library's.\<close>

record chart =
  chart_title :: js_string
  chart_points :: "(js_string \<times> nat \<times> js_string) list"

definition bar_chart :: chart where
  "bar_chart =
     \<lparr>chart_title = ''Th'' @ [CHR 0xE1, CHR 0xBB, CHR 0x91] @ ''ng k'' @ [CHR 0xC3, CHR 0xAA] @ '' vi'' @ [CHR 0xE1, CHR 0xBA, CHR 0xBF] @ ''t b'' @ [CHR 0xC3, CHR 0xA0] @ ''i theo th'' @ [CHR 0xC3, CHR 0xA1] @ ''ng'',
      chart_points = map (\<lambda>(month, count). (month, count, ''#6366f1'')) barData\<rparr>"

definition pie_chart :: "dashboard_stats \<Rightarrow> chart" where
  "pie_chart st =
     \<lparr>chart_title = ''Tr'' @ [CHR 0xE1, CHR 0xBA, CHR 0xA1] @ ''ng th'' @ [CHR 0xC3, CHR 0xA1] @ ''i ph'' @ [CHR 0xC3, CHR 0xAA] @ '' duy'' @ [CHR 0xE1, CHR 0xBB, CHR 0x87] @ ''t'',
      chart_points = map (\<lambda>entry. (slice_name entry, slice_value entry, slice_color entry)) (pieData st)\<rparr>"

text \<open>The recent-activity panel: \<open>initiatives.slice(0, 3)\<close>, and the empty message
  shown when the list is empty.\<close>

definition recent_activity :: "initiative list \<Rightarrow> initiative list" where
  "recent_activity initiatives = take 3 initiatives"

definition no_activity_shown :: "initiative list \<Rightarrow> bool" where
  "no_activity_shown initiatives = (length initiatives = 0)"

text \<open>One row of the recent-activity panel: the key, the avatar letter
  \<open>item.subject.charAt(0)\<close>, the title, the line "Nam hoc: year, bullet, subject" (in Vietnamese), the
  class of the status badge (emerald for approved, amber for pending, slate
  otherwise) and the badge text \<open>item.status\<close>.\<close>

record activity_row =
  row_key :: js_string
  row_avatar :: js_string
  row_title :: js_string
  row_meta :: js_string
  row_badge :: js_string
  row_status :: js_string

fun status_badge :: "status \<Rightarrow> js_string" where
  "status_badge APPROVED = ''bg-emerald-100 text-emerald-700''"
| "status_badge PENDING = ''bg-amber-100 text-amber-700''"
| "status_badge DRAFT = ''bg-slate-100 text-slate-700''"

definition activity_row :: "initiative \<Rightarrow> activity_row" where
  "activity_row item =
     \<lparr>row_key = ini_id item, row_avatar = js_charAt0 (ini_subject item), row_title = ini_title item,
      row_meta = ''N'' @ [CHR 0xC4, CHR 0x83] @ ''m h'' @ [CHR 0xE1, CHR 0xBB, CHR 0x8D] @ ''c: ''
                 @ ini_year item @ '' '' @ [CHR 0xE2, CHR 0x80, CHR 0xA2] @ '' '' @ ini_subject item,
      row_badge = status_badge (ini_status item), row_status = status_str (ini_status item)\<rparr>"

definition activity_rows :: "initiative list \<Rightarrow> activity_row list" where
  "activity_rows initiatives = map activity_row (recent_activity initiatives)"

text \<open>The recent-activity panel's title and its message for an empty list.\<close>

definition activity_panel_texts :: "js_string \<times> js_string" where
  "activity_panel_texts =
     (''Ho'' @ [CHR 0xE1, CHR 0xBA, CHR 0xA1] @ ''t '' @ [CHR 0xC4, CHR 0x91, CHR 0xE1, CHR 0xBB, CHR 0x99] @ ''ng g'' @ [CHR 0xE1, CHR 0xBA, CHR 0xA7] @ ''n '' @ [CHR 0xC4, CHR 0x91, CHR 0xC3, CHR 0xA2] @ ''y'',
      ''Ch'' @ [CHR 0xC6, CHR 0xB0] @ ''a c'' @ [CHR 0xC3, CHR 0xB3] @ '' ho'' @ [CHR 0xE1, CHR 0xBA, CHR 0xA1] @ ''t '' @ [CHR 0xC4, CHR 0x91, CHR 0xE1, CHR 0xBB, CHR 0x99] @ ''ng n'' @ [CHR 0xC3, CHR 0xA0] @ ''o.'')"

subsection \<open>Initiative list\<close>

definition matchesSearch :: "js_string \<Rightarrow> initiative \<Rightarrow> bool" where
  "matchesSearch searchTerm i =
     (js_includes (ascii_lower (ini_title i)) (ascii_lower searchTerm)
      \<or> js_includes (ascii_lower (ini_subject i)) (ascii_lower searchTerm))"

definition matchesStatus :: "js_string \<Rightarrow> initiative \<Rightarrow> bool" where
  "matchesStatus filterStatus i = (filterStatus = ''ALL'' \<or> status_str (ini_status i) = filterStatus)"

definition filtered :: "js_string \<Rightarrow> js_string \<Rightarrow> initiative list \<Rightarrow> initiative list" where
  "filtered searchTerm filterStatus initiatives =
     filter (\<lambda>i. matchesSearch searchTerm i \<and> matchesStatus filterStatus i) initiatives"

record list_state =
  searchTerm :: js_string
  filterStatus :: js_string

definition init_list_state :: list_state where
  "init_list_state = \<lparr>searchTerm = [], filterStatus = ''ALL''\<rparr>"

datatype list_event = SetSearch js_string | SetFilter js_string | ClearFilters

fun list_step :: "list_state \<Rightarrow> list_event \<Rightarrow> list_state" where
  "list_step st (SetSearch v) = st\<lparr>searchTerm := v\<rparr>"
| "list_step st (SetFilter v) = st\<lparr>filterStatus := v\<rparr>"
| "list_step st ClearFilters = st\<lparr>searchTerm := [], filterStatus := ''ALL''\<rparr>"

definition list_view :: "list_state \<Rightarrow> initiative list \<Rightarrow> initiative list" where
  "list_view st initiatives = filtered (searchTerm st) (filterStatus st) initiatives"

text \<open>The row "no initiative matches" with its clear button (\<open>filtered.length === 0\<close>).\<close>

definition no_match_shown :: "list_state \<Rightarrow> initiative list \<Rightarrow> bool" where
  "no_match_shown st initiatives = (length (list_view st initiatives) = 0)"

text \<open>The search box's placeholder, the status select's options (value, label) and
  the table's column headers.\<close>

definition search_placeholder :: js_string where
  "search_placeholder = ''T'' @ [CHR 0xC3, CHR 0xAC] @ ''m ki'' @ [CHR 0xE1, CHR 0xBA, CHR 0xBF] @ ''m theo ti'' @ [CHR 0xC3, CHR 0xAA] @ ''u '' @ [CHR 0xC4, CHR 0x91, CHR 0xE1, CHR 0xBB, CHR 0x81] @ '' ho'' @ [CHR 0xE1, CHR 0xBA, CHR 0xB7] @ ''c m'' @ [CHR 0xC3, CHR 0xB4] @ ''n h'' @ [CHR 0xE1, CHR 0xBB, CHR 0x8D] @ ''c...''"

text \<open>The Vietnamese name of each status, as the list's badge writes it.\<close>

fun status_label :: "status \<Rightarrow> js_string" where
  "status_label APPROVED = [CHR 0xC4, CHR 0x90, CHR 0xC3, CHR 0xA3] @ '' duy'' @ [CHR 0xE1, CHR 0xBB, CHR 0x87] @ ''t''"
| "status_label PENDING = [CHR 0xC4, CHR 0x90] @ ''ang ch'' @ [CHR 0xE1, CHR 0xBB, CHR 0x9D]"
| "status_label DRAFT = ''B'' @ [CHR 0xE1, CHR 0xBA, CHR 0xA3] @ ''n nh'' @ [CHR 0xC3, CHR 0xA1] @ ''p''"

definition status_options :: "(js_string \<times> js_string) list" where
  "status_options =
     [(''ALL'', ''T'' @ [CHR 0xE1, CHR 0xBA, CHR 0xA5] @ ''t c'' @ [CHR 0xE1, CHR 0xBA, CHR 0xA3] @ '' tr'' @ [CHR 0xE1, CHR 0xBA, CHR 0xA1] @ ''ng th'' @ [CHR 0xC3, CHR 0xA1] @ ''i''),
      (status_str APPROVED, status_label APPROVED),
      (status_str PENDING, status_label PENDING),
      (status_str DRAFT, status_label DRAFT)]"

definition table_headers :: "js_string list" where
  "table_headers =
     [''S'' @ [CHR 0xC3, CHR 0xA1] @ ''ng ki'' @ [CHR 0xE1, CHR 0xBA, CHR 0xBF] @ ''n / '' @ [CHR 0xC4, CHR 0x90, CHR 0xE1, CHR 0xBB, CHR 0x81] @ '' t'' @ [CHR 0xC3, CHR 0xA0] @ ''i'',
      ''M'' @ [CHR 0xC3, CHR 0xB4] @ ''n h'' @ [CHR 0xE1, CHR 0xBB, CHR 0x8D] @ ''c'',
      ''Kh'' @ [CHR 0xE1, CHR 0xBB, CHR 0x91] @ ''i'',
      ''N'' @ [CHR 0xC4, CHR 0x83] @ ''m h'' @ [CHR 0xE1, CHR 0xBB, CHR 0x8D] @ ''c'',
      ''Tr'' @ [CHR 0xE1, CHR 0xBA, CHR 0xA1] @ ''ng th'' @ [CHR 0xC3, CHR 0xA1] @ ''i'',
      ''Thao t'' @ [CHR 0xC3, CHR 0xA1] @ ''c'']"

text \<open>One table row: key, title, the short id \<open>ID: #{item.id.slice(0, 8)}\<close>, subject,
  grade, year, the badge class and label, and the callbacks of its buttons: "view"
  has no handler, "edit" calls \<open>onEdit(item)\<close>, "delete" calls
  \<open>onDelete(item.id)\<close>, the "more" button has none.\<close>

record list_row =
  lrow_key :: js_string
  lrow_title :: js_string
  lrow_short_id :: js_string
  lrow_subject :: js_string
  lrow_grade :: js_string
  lrow_year :: js_string
  lrow_badge :: js_string
  lrow_label :: js_string

fun list_badge :: "status \<Rightarrow> js_string" where
  "list_badge APPROVED = ''bg-emerald-50 text-emerald-700''"
| "list_badge PENDING = ''bg-amber-50 text-amber-700''"
| "list_badge DRAFT = ''bg-slate-100 text-slate-700''"

definition list_row :: "initiative \<Rightarrow> list_row" where
  "list_row item =
     \<lparr>lrow_key = ini_id item, lrow_title = ini_title item, lrow_short_id = ''ID: #'' @ js_slice0 8 (ini_id item),
      lrow_subject = ini_subject item, lrow_grade = ini_grade item, lrow_year = ini_year item,
      lrow_badge = list_badge (ini_status item), lrow_label = status_label (ini_status item)\<rparr>"

datatype row_button = ViewBtn | EditBtn | DeleteBtn | MoreBtn

datatype list_callback = OnEdit initiative | OnDelete js_string

fun row_click :: "initiative \<Rightarrow> row_button \<Rightarrow> list_callback option" where
  "row_click item ViewBtn = None"
| "row_click item EditBtn = Some (OnEdit item)"
| "row_click item DeleteBtn = Some (OnDelete (ini_id item))"
| "row_click item MoreBtn = None"

definition list_rows :: "list_state \<Rightarrow> initiative list \<Rightarrow> list_row list" where
  "list_rows st initiatives = map list_row (list_view st initiatives)"

text \<open>Sample initiatives for the concrete instances of the lemmas below.\<close>

definition demo_ini :: "js_string \<Rightarrow> js_string \<Rightarrow> js_string \<Rightarrow> status \<Rightarrow> initiative" where
  "demo_ini i t subj st =
     \<lparr>ini_id = i, ini_title = t, ini_subject = subj, ini_grade = ''L1'', ini_year = ''2023-2024'',
      ini_abstract = [], ini_situation = [], ini_solutions = [], ini_results = [], ini_status = st\<rparr>"

definition demo_initiatives :: "initiative list" where
  "demo_initiatives =
     [demo_ini ''1'' ''Day Toan vui'' ''Toan'' APPROVED, demo_ini ''2'' ''Doc hieu'' ''Van'' PENDING,
      demo_ini ''3'' ''TOAN tu duy'' ''Toan'' DRAFT]"

subsection \<open>Lemmas\<close>

lemma status_str_inj [simp]: "status_str s = status_str t \<longleftrightarrow> s = t"
  by (cases s; cases t) simp_all

lemma status_str_not_ALL [simp]: "status_str s \<noteq> ''ALL''"
  by (cases s) simp_all

lemma status_str_eq_lit [simp]:
  "status_str s = ''APPROVED'' \<longleftrightarrow> s = APPROVED"
  "status_str s = ''PENDING'' \<longleftrightarrow> s = PENDING"
  "status_str s = ''DRAFT'' \<longleftrightarrow> s = DRAFT"
  by (cases s; simp)+

lemma matchesStatus_status [simp]: "matchesStatus (status_str s) i \<longleftrightarrow> ini_status i = s"
  by (auto simp: matchesStatus_def)

lemma matchesSearch_Nil [simp]: "matchesSearch [] i"
  by (simp add: matchesSearch_def ascii_lower_def)

text \<open>Every list is split by the three statuses.\<close>

lemma length_filter_status:
  "length (filter P xs)
   = length (filter (\<lambda>i. P i \<and> ini_status i = APPROVED) xs)
     + length (filter (\<lambda>i. P i \<and> ini_status i = PENDING) xs)
     + length (filter (\<lambda>i. P i \<and> ini_status i = DRAFT) xs)"
proof (induction xs)
  case (Cons x xs)
  then show ?case by (cases "ini_status x") simp_all
qed simp

lemma filter_weaken:
  "(\<And>x. P x \<Longrightarrow> Q x) \<Longrightarrow> subseq (filter P xs) (filter Q xs)"
proof -
  assume "\<And>x. P x \<Longrightarrow> Q x"
  then have "filter P xs = filter P (filter Q xs)" by (induction xs) auto
  then show ?thesis by (metis subseq_filter_left)
qed

lemma matchesSearch_narrow:
  "sublist t t' \<Longrightarrow> matchesSearch t' i \<Longrightarrow> matchesSearch t i"
  using sublist_ascii_lower sublist_order.order_trans
  unfolding matchesSearch_def js_includes_sublist by blast

lemma matchesSearch_lower [simp]: "matchesSearch (ascii_lower t) i = matchesSearch t i"
  by (simp add: matchesSearch_def)

lemma activity_rows_length [simp]: "length (activity_rows xs) = min 3 (length xs)"
  by (simp add: activity_rows_def recent_activity_def)

lemma no_activity_iff_no_rows: "no_activity_shown xs \<longleftrightarrow> activity_rows xs = []"
  by (simp add: no_activity_shown_def activity_rows_def recent_activity_def)

text \<open>C31: The Dashboard's figures are consistent: every initiative is counted by exactly
  one of "approved", "pending" and "draft"; the first statistic card (the total) is the
  sum of the values in the pie legend, and the other three cards show the legend's values
  in the legend's order.\<close>

theorem stats_partition:
  "total (stats xs) = approved (stats xs) + pending (stats xs) + draft (stats xs)
   \<and> card_value (hd (stat_cards (stats xs))) = sum_list (map snd (pie_legend (pieData (stats xs))))
   \<and> map card_value (tl (stat_cards (stats xs))) = map snd (pie_legend (pieData (stats xs)))"
proof -
  have "total (stats xs) = approved (stats xs) + pending (stats xs) + draft (stats xs)"
    using length_filter_status [of "\<lambda>_. True" xs] by (simp add: stats_def)
  then show ?thesis by (simp add: stat_cards_def pie_legend_def pieData_def)
qed

text \<open>C32: The Dashboard and the list agree: the Dashboard's count for a status is the
  number of rows the list shows with an empty search and that status chosen in its
  filter.\<close>

theorem dashboard_agrees_with_list:
  "approved (stats xs) = length (list_view \<lparr>searchTerm = [], filterStatus = ''APPROVED''\<rparr> xs)
   \<and> pending (stats xs) = length (list_view \<lparr>searchTerm = [], filterStatus = ''PENDING''\<rparr> xs)
   \<and> draft (stats xs) = length (list_view \<lparr>searchTerm = [], filterStatus = ''DRAFT''\<rparr> xs)"
  by (simp add: stats_def list_view_def filtered_def matchesStatus_def)

text \<open>The list shows every initiative at first, and again after "clear all filters",
  whatever the search term and status filter were.\<close>

theorem clear_filters_shows_all:
  "list_view init_list_state xs = xs \<and> list_view (list_step st ClearFilters) xs = xs"
  by (simp add: list_view_def filtered_def init_list_state_def matchesStatus_def)

text \<open>Refining the search only removes rows: when the old term occurs in the new one
  (as when the user types more characters), the new result is a subsequence of the old
  one, in the same order.\<close>

theorem search_narrowing:
  "sublist t t' \<Longrightarrow> subseq (filtered t' f xs) (filtered t f xs)"
  unfolding filtered_def by (rule filter_weaken) (blast intro: matchesSearch_narrow)

text \<open>The search ignores the case of ASCII letters in the term: two terms equal up to
  ASCII case select the same rows.\<close>

theorem search_case_insensitive:
  "ascii_lower t = ascii_lower t' \<Longrightarrow> filtered t f xs = filtered t' f xs"
proof -
  assume e: "ascii_lower t = ascii_lower t'"
  have "matchesSearch t i = matchesSearch t' i" for i
  proof -
    have "matchesSearch t i = matchesSearch (ascii_lower t) i" by (simp only: matchesSearch_lower)
    also have "\<dots> = matchesSearch (ascii_lower t') i" by (simp only: e)
    finally show ?thesis by (simp only: matchesSearch_lower)
  qed
  then show ?thesis by (simp add: filtered_def)
qed

text \<open>The status filter splits the search result: the rows shown with "all statuses"
  are as many as the rows shown with "approved", "pending" and "draft" together.\<close>

theorem status_filter_partition:
  "length (filtered t ''ALL'' xs)
   = length (filtered t ''APPROVED'' xs) + length (filtered t ''PENDING'' xs)
     + length (filtered t ''DRAFT'' xs)"
  using length_filter_status [of "matchesSearch t" xs] by (simp add: filtered_def matchesStatus_def)

theorem search_narrowing_witness:
  "sublist ''oan'' ''toan''
   \<and> subseq (filtered ''toan'' ''ALL'' demo_initiatives) (filtered ''oan'' ''ALL'' demo_initiatives)
   \<and> filtered ''toan'' ''ALL'' demo_initiatives
       = [demo_ini ''1'' ''Day Toan vui'' ''Toan'' APPROVED, demo_ini ''3'' ''TOAN tu duy'' ''Toan'' DRAFT]"
proof -
  have s: "sublist ''oan'' ''toan''" by (simp add: sublist_Cons_right)
  have f: "filtered ''toan'' ''ALL'' demo_initiatives
       = [demo_ini ''1'' ''Day Toan vui'' ''Toan'' APPROVED, demo_ini ''3'' ''TOAN tu duy'' ''Toan'' DRAFT]"
    by code_simp
  show ?thesis using search_narrowing [OF s, of "''ALL''" demo_initiatives] s f by blast
qed

theorem search_case_insensitive_witness:
  "ascii_lower ''TOAN'' = ascii_lower ''toan''
   \<and> filtered ''TOAN'' ''DRAFT'' demo_initiatives = filtered ''toan'' ''DRAFT'' demo_initiatives"
proof -
  have e: "ascii_lower ''TOAN'' = ascii_lower ''toan''" by code_simp
  show ?thesis using search_case_insensitive [OF e] e by blast
qed

lemma status_label_pie:
  "map (\<lambda>s. status_label s) [APPROVED, PENDING, DRAFT] = map slice_name (pieData st)"
  by (simp add: pieData_def)

lemma status_option_rows:
  "(v, l) \<in> set (tl status_options) \<Longrightarrow> set (map lrow_label (list_rows (st\<lparr>filterStatus := v\<rparr>) xs)) \<subseteq> {l}"
  by (auto simp: status_options_def list_rows_def list_view_def filtered_def list_row_def matchesStatus_def)

lemma list_rows_empty_iff: "no_match_shown st xs \<longleftrightarrow> list_rows st xs = []"
  by (simp add: no_match_shown_def list_rows_def)

lemma list_row_short_id:
  "length (ini_id item) \<le> 8 \<Longrightarrow> lrow_short_id (list_row item) = ''ID: #'' @ ini_id item"
  by (simp add: list_row_def js_slice0_short)

lemma row_click_delete_id:
  "row_click item b = Some (OnDelete k) \<longleftrightarrow> b = DeleteBtn \<and> k = lrow_key (list_row item)"
  by (cases b) (auto simp: list_row_def)

lemma pie_chart_total:
  "sum_list (map (fst \<circ> snd) (chart_points (pie_chart (stats xs)))) = length xs
   \<and> map (fst \<circ> snd) (chart_points (pie_chart (stats xs))) = map snd (pie_legend (pieData (stats xs)))"
  using length_filter_status [of "\<lambda>_. True" xs]
  by (simp add: pie_chart_def pie_legend_def pieData_def stats_def)

lemma bar_chart_constant: "sum_list (map (fst \<circ> snd) (chart_points bar_chart)) = 34"
  by (simp add: bar_chart_def barData_def)

end
