(* ===== verification/InitiativeForm.thy ===== *)
theory InitiativeForm
  imports Initiatives Gemini
begin

text \<open>
  The form of \<^verbatim>\<open>src/components/InitiativeForm.tsx\<close>.  Its state is the React
  state \<open>formData: Partial<Initiative>\<close> (a record of optional fields),
  \<open>isGenerating: string | null\<close>, and what the component hands to the outside:
  the requests it sends to the model, the alerts it raises and the records it
  passes to \<open>onSubmit\<close>.  Each \<open>async\<close> handler is split at its \<open>await\<close>: the
  click is one transition, and the settling of the awaited request (a value or
  a rejection) is another, on a pending job recorded in \<open>jobs\<close>.  A functional
  update \<open>setFormData(prev => ...)\<close> runs when React renders; an exception in it
  is a render error that unmounts the component (\<open>crashed\<close>).
\<close>

datatype form_field =
  FTitle | FSubject | FGrade | FYear | FAbstract | FSituation | FSolutions | FResults

text \<open>The key \<open>field as string\<close> stored in \<open>isGenerating\<close>.\<close>

fun field_key :: "form_field \<Rightarrow> js_string" where
  "field_key FTitle = ''title''"
| "field_key FSubject = ''subject''"
| "field_key FGrade = ''grade''"
| "field_key FYear = ''year''"
| "field_key FAbstract = ''abstract''"
| "field_key FSituation = ''situation''"
| "field_key FSolutions = ''solutions''"
| "field_key FResults = ''results''"

record form_data =
  fd_id :: "js_string option"
  fd_title :: "js_string option"
  fd_subject :: "js_string option"
  fd_grade :: "js_string option"
  fd_year :: "js_string option"
  fd_abstract :: "js_string option"
  fd_situation :: "js_string option"
  fd_solutions :: "js_string option"
  fd_results :: "js_string option"
  fd_status :: "status option"

text \<open>\<open>formData[field]\<close> and \<open>{...formData, [field]: v}\<close>.\<close>

fun get_field :: "form_data \<Rightarrow> form_field \<Rightarrow> js_string option" where
  "get_field d FTitle = fd_title d"
| "get_field d FSubject = fd_subject d"
| "get_field d FGrade = fd_grade d"
| "get_field d FYear = fd_year d"
| "get_field d FAbstract = fd_abstract d"
| "get_field d FSituation = fd_situation d"
| "get_field d FSolutions = fd_solutions d"
| "get_field d FResults = fd_results d"

fun set_field :: "form_data \<Rightarrow> form_field \<Rightarrow> js_string option \<Rightarrow> form_data" where
  "set_field d FTitle v = d\<lparr>fd_title := v\<rparr>"
| "set_field d FSubject v = d\<lparr>fd_subject := v\<rparr>"
| "set_field d FGrade v = d\<lparr>fd_grade := v\<rparr>"
| "set_field d FYear v = d\<lparr>fd_year := v\<rparr>"
| "set_field d FAbstract v = d\<lparr>fd_abstract := v\<rparr>"
| "set_field d FSituation v = d\<lparr>fd_situation := v\<rparr>"
| "set_field d FSolutions v = d\<lparr>fd_solutions := v\<rparr>"
| "set_field d FResults v = d\<lparr>fd_results := v\<rparr>"

text \<open>The defaults of the form's initial state.\<close>

definition default_form_data :: form_data where
  "default_form_data =
     \<lparr>fd_id = None, fd_title = Some [],
      fd_subject = Some (''To'' @ [CHR 0xC3, CHR 0xA1] @ ''n h'' @ [CHR 0xE1, CHR 0xBB, CHR 0x8D] @ ''c''),
      fd_grade = Some (''L'' @ [CHR 0xE1, CHR 0xBB, CHR 0x9B] @ ''p 1''), fd_year = Some ''2023-2024'',
      fd_abstract = Some [], fd_situation = Some [], fd_solutions = Some [], fd_results = Some [],
      fd_status = Some DRAFT\<rparr>"

text \<open>An \<open>Initiative\<close> as a \<open>Partial<Initiative>\<close>: every field present.\<close>

definition initiative_data :: "initiative \<Rightarrow> form_data" where
  "initiative_data i =
     \<lparr>fd_id = Some (ini_id i), fd_title = Some (ini_title i), fd_subject = Some (ini_subject i),
      fd_grade = Some (ini_grade i), fd_year = Some (ini_year i), fd_abstract = Some (ini_abstract i),
      fd_situation = Some (ini_situation i), fd_solutions = Some (ini_solutions i),
      fd_results = Some (ini_results i), fd_status = Some (ini_status i)\<rparr>"

text \<open>\<open>{defaults, ...initialData}\<close>: spreading \<open>null\<close> or \<open>undefined\<close> adds nothing,
  spreading an \<open>Initiative\<close> overrides every field.\<close>

definition init_formData :: "initiative option \<Rightarrow> form_data" where
  "init_formData initialData =
     (case initialData of None \<Rightarrow> default_form_data | Some i \<Rightarrow> initiative_data i)"

text \<open>The four sections with an AI button and their prompts.\<close>

fun section_prompt :: "form_field \<Rightarrow> js_string option" where
  "section_prompt FAbstract = Some (''H'' @ [CHR 0xC3, CHR 0xA3] @ ''y vi'' @ [CHR 0xE1, CHR 0xBA, CHR 0xBF] @ ''t m''
     @ [CHR 0xE1, CHR 0xBB, CHR 0x99] @ ''t '' @ [CHR 0xC4, CHR 0x91] @ ''o'' @ [CHR 0xE1, CHR 0xBA, CHR 0xA1] @ ''n t''
     @ [CHR 0xC3, CHR 0xB3] @ ''m t'' @ [CHR 0xE1, CHR 0xBA, CHR 0xAF] @ ''t chuy'' @ [CHR 0xC3, CHR 0xAA] @ ''n nghi''
     @ [CHR 0xE1, CHR 0xBB, CHR 0x87] @ ''p cho s'' @ [CHR 0xC3, CHR 0xA1] @ ''ng ki'' @ [CHR 0xE1, CHR 0xBA, CHR 0xBF]
     @ ''n n'' @ [CHR 0xC3, CHR 0xA0] @ ''y'')"
| "section_prompt FSituation = Some (''Ph'' @ [CHR 0xC3, CHR 0xA2] @ ''n t'' @ [CHR 0xC3, CHR 0xAD] @ ''ch c''
     @ [CHR 0xC3, CHR 0xA1] @ ''c kh'' @ [CHR 0xC3, CHR 0xB3] @ '' kh'' @ [CHR 0xC4, CHR 0x83] @ ''n v''
     @ [CHR 0xC3, CHR 0xA0] @ '' th'' @ [CHR 0xE1, CHR 0xBB, CHR 0xB1] @ ''c tr'' @ [CHR 0xE1, CHR 0xBA, CHR 0xA1]
     @ ''ng hi'' @ [CHR 0xE1, CHR 0xBB, CHR 0x87] @ ''n nay c'' @ [CHR 0xE1, CHR 0xBB, CHR 0xA7] @ ''a v''
     @ [CHR 0xE1, CHR 0xBA, CHR 0xA5] @ ''n '' @ [CHR 0xC4, CHR 0x91, CHR 0xE1, CHR 0xBB, CHR 0x81] @ '' n''
     @ [CHR 0xC3, CHR 0xA0] @ ''y'')"
| "section_prompt FSolutions = Some (''G'' @ [CHR 0xE1, CHR 0xBB, CHR 0xA3] @ ''i '' @ [CHR 0xC3, CHR 0xBD]
     @ '' 3 bi'' @ [CHR 0xE1, CHR 0xBB, CHR 0x87] @ ''n ph'' @ [CHR 0xC3, CHR 0xA1] @ ''p c''
     @ [CHR 0xE1, CHR 0xBB, CHR 0xA5] @ '' th'' @ [CHR 0xE1, CHR 0xBB, CHR 0x83] @ '', mang t''
     @ [CHR 0xC3, CHR 0xAD] @ ''nh '' @ [CHR 0xC4, CHR 0x91, CHR 0xE1, CHR 0xBB, CHR 0x99] @ ''t ph''
     @ [CHR 0xC3, CHR 0xA1] @ '' v'' @ [CHR 0xC3, CHR 0xA0] @ '' th'' @ [CHR 0xE1, CHR 0xBB, CHR 0xB1] @ ''c t''
     @ [CHR 0xE1, CHR 0xBA, CHR 0xBF])"
| "section_prompt FResults = Some (''M'' @ [CHR 0xC3, CHR 0xB4] @ '' t'' @ [CHR 0xE1, CHR 0xBA, CHR 0xA3] @ '' c''
     @ [CHR 0xC3, CHR 0xA1] @ ''c k'' @ [CHR 0xE1, CHR 0xBA, CHR 0xBF] @ ''t qu'' @ [CHR 0xE1, CHR 0xBA, CHR 0xA3]
     @ '' mong '' @ [CHR 0xC4, CHR 0x91, CHR 0xE1, CHR 0xBB, CHR 0xA3] @ ''i sau khi '' @ [CHR 0xC3, CHR 0xA1]
     @ ''p d'' @ [CHR 0xE1, CHR 0xBB, CHR 0xA5] @ ''ng c'' @ [CHR 0xC3, CHR 0xA1] @ ''c bi''
     @ [CHR 0xE1, CHR 0xBB, CHR 0x87] @ ''n ph'' @ [CHR 0xC3, CHR 0xA1] @ ''p tr'' @ [CHR 0xC3, CHR 0xAA] @ ''n'')"
| "section_prompt _ = None"

datatype form_job = AIHelpJob form_field | MagicJob

record form_state =
  formData :: form_data
  isGenerating :: "js_string option"
  jobs :: "nat \<rightharpoonup> form_job"
  nextJob :: nat
  requests :: "js_string list"
  alerts :: "js_string list"
  submitted :: "form_data list"
  crashed :: bool

definition init_form_state :: "initiative option \<Rightarrow> form_state" where
  "init_form_state initialData =
     \<lparr>formData = init_formData initialData, isGenerating = None, jobs = Map.empty, nextJob = 0,
      requests = [], alerts = [], submitted = [], crashed = False\<rparr>"

subsection \<open>Handlers\<close>

text \<open>The \<open>context\<close> of \<open>handleAIHelp\<close>: a template literal over the form's fields.\<close>

definition ai_context :: "form_data \<Rightarrow> js_string" where
  "ai_context d =
     ''M'' @ [CHR 0xC3, CHR 0xB4] @ ''n: '' @ js_template (fd_subject d)
     @ '', Kh'' @ [CHR 0xE1, CHR 0xBB, CHR 0x91] @ ''i: '' @ js_template (fd_grade d)
     @ '', Ti'' @ [CHR 0xC3, CHR 0xAA] @ ''u '' @ [CHR 0xC4, CHR 0x91, CHR 0xE1, CHR 0xBB, CHR 0x81] @ '': ''
     @ js_template (fd_title d)"

text \<open>\<open>handleAIHelp(field, prompt)\<close> up to its \<open>await\<close>: the spinner key is set and
  the request \<open>getAISuggestions(prompt, context)\<close> is sent.\<close>

definition handleAIHelp :: "form_field \<Rightarrow> js_string \<Rightarrow> form_state \<Rightarrow> form_state" where
  "handleAIHelp field prompt st =
     st\<lparr>isGenerating := Some (field_key field),
        requests := requests st @ [suggestion_contents prompt (ai_context (formData st))],
        jobs := (jobs st)(nextJob st \<mapsto> AIHelpJob field), nextJob := Suc (nextJob st)\<rparr>"

text \<open>The updater \<open>prev => ({...prev, [field]: (prev[field] || '') + '\n\n' + suggestion})\<close>.\<close>

definition append_suggestion :: "form_field \<Rightarrow> js_string \<Rightarrow> form_data \<Rightarrow> form_data" where
  "append_suggestion field suggestion prev =
     set_field prev field (Some (js_or_default (get_field prev field) [] @ [CHR 0x0A, CHR 0x0A] @ suggestion))"

text \<open>The rest of \<open>handleAIHelp\<close> when job \<open>j\<close> resolves with the response text: the
  suggestion (\<open>response.text || ""\<close>) is appended and the \<open>finally\<close> clears the spinner.\<close>

definition handleAIHelp_resolved ::
  "nat \<Rightarrow> form_field \<Rightarrow> js_string option \<Rightarrow> form_state \<Rightarrow> form_state" where
  "handleAIHelp_resolved j field response_text st =
     st\<lparr>formData := append_suggestion field (getAISuggestions_result response_text) (formData st),
        isGenerating := None, jobs := (jobs st)(j := None)\<rparr>"

definition TITLE_REQUIRED_ALERT :: js_string where
  "TITLE_REQUIRED_ALERT =
     ''Vui l'' @ [CHR 0xC3, CHR 0xB2] @ ''ng nh'' @ [CHR 0xE1, CHR 0xBA, CHR 0xAD] @ ''p ti'' @ [CHR 0xC3, CHR 0xAA]
     @ ''u '' @ [CHR 0xC4, CHR 0x91, CHR 0xE1, CHR 0xBB, CHR 0x81] @ '' '' @ [CHR 0xC4, CHR 0x91, CHR 0xE1, CHR 0xBB, CHR 0x83]
     @ '' AI c'' @ [CHR 0xC3, CHR 0xB3] @ '' c'' @ [CHR 0xC6, CHR 0xA1] @ '' s'' @ [CHR 0xE1, CHR 0xBB, CHR 0x9F]
     @ '' g'' @ [CHR 0xE1, CHR 0xBB, CHR 0xA3] @ ''i '' @ [CHR 0xC3, CHR 0xBD] @ ''!''"

text \<open>\<open>handleMagicFill\<close> up to its \<open>await\<close>: without a title only the alert, otherwise
  the spinner key \<open>'all'\<close> and the request \<open>generateSKKNStructure(title || '', ...)\<close>.\<close>

definition handleMagicFill :: "form_state \<Rightarrow> form_state" where
  "handleMagicFill st =
     (if \<not> js_truthy (fd_title (formData st)) then st\<lparr>alerts := alerts st @ [TITLE_REQUIRED_ALERT]\<rparr>
      else st\<lparr>isGenerating := Some ''all'',
              requests := requests st
                @ [generateSKKNStructure_contents (js_or_default (fd_title (formData st)) [])
                     (js_or_default (fd_subject (formData st)) []) (js_or_default (fd_grade (formData st)) [])],
              jobs := (jobs st)(nextJob st \<mapsto> MagicJob), nextJob := Suc (nextJob st)\<rparr>)"

text \<open>The updater of the magic fill; \<open>None\<close> is the \<open>TypeError\<close> that
  \<open>data.solutions.join('\n')\<close> throws when the parsed object has no \<open>solutions\<close>.\<close>

definition magic_update :: "skkn_structure \<Rightarrow> form_data \<Rightarrow> form_data option" where
  "magic_update data prev =
     (case s_solutions data of
        None \<Rightarrow> None
      | Some sols \<Rightarrow> Some (prev\<lparr>fd_abstract := s_abstract data, fd_situation := s_situation data,
                                fd_solutions := Some (js_join [CHR 0x0A] sols),
                                fd_results := s_results data\<rparr>))"

text \<open>The rest of \<open>handleMagicFill\<close> when job \<open>j\<close> resolves with the value of
  \<open>generateSKKNStructure\<close> (\<open>None\<close> is \<open>null\<close>): \<open>if (data)\<close> the updater is
  queued, and the \<open>finally\<close> clears the spinner; a throwing updater is a render
  error.\<close>

definition handleMagicFill_resolved :: "nat \<Rightarrow> skkn_structure option \<Rightarrow> form_state \<Rightarrow> form_state" where
  "handleMagicFill_resolved j data st =
     (let st' = st\<lparr>isGenerating := None, jobs := (jobs st)(j := None)\<rparr> in
      case data of
        None \<Rightarrow> st'
      | Some d \<Rightarrow> (case magic_update d (formData st) of
                    None \<Rightarrow> st'\<lparr>crashed := True\<rparr>
                  | Some fd \<Rightarrow> st'\<lparr>formData := fd\<rparr>))"

text \<open>A rejected request: the \<open>finally\<close> clears the spinner and the rejection
  leaves the handler unhandled.\<close>

definition handle_rejected :: "nat \<Rightarrow> form_state \<Rightarrow> form_state" where
  "handle_rejected j st = st\<lparr>isGenerating := None, jobs := (jobs st)(j := None)\<rparr>"

text \<open>The two submit buttons: \<open>onSubmit({...formData, status})\<close>.\<close>

definition submit :: "status \<Rightarrow> form_state \<Rightarrow> form_state" where
  "submit s st = st\<lparr>submitted := submitted st @ [(formData st)\<lparr>fd_status := Some s\<rparr>]\<rparr>"

datatype form_event =
  Edit form_field js_string | ClickAIHelp form_field | ClickMagic
| AIResolved nat "js_string option" | MagicResolved nat "skkn_structure option" | Rejected nat
| SaveDraft | SendForApproval

fun form_step :: "form_state \<Rightarrow> form_event \<Rightarrow> form_state" where
  "form_step st (Edit f v) = st\<lparr>formData := set_field (formData st) f (Some v)\<rparr>"
| "form_step st (ClickAIHelp f) =
     (case section_prompt f of None \<Rightarrow> st | Some p \<Rightarrow> handleAIHelp f p st)"
| "form_step st ClickMagic = handleMagicFill st"
| "form_step st (AIResolved j r) =
     (case jobs st j of Some (AIHelpJob f) \<Rightarrow> handleAIHelp_resolved j f r st | _ \<Rightarrow> st)"
| "form_step st (MagicResolved j d) =
     (case jobs st j of Some MagicJob \<Rightarrow> handleMagicFill_resolved j d st | _ \<Rightarrow> st)"
| "form_step st (Rejected j) = (if jobs st j = None then st else handle_rejected j st)"
| "form_step st SaveDraft = submit DRAFT st"
| "form_step st SendForApproval = submit PENDING st"

fun form_run :: "form_state \<Rightarrow> form_event list \<Rightarrow> form_state" where
  "form_run st [] = st"
| "form_run st (e # es) = form_run (form_step st e) es"

text \<open>What the rendered form permits: the AI buttons are disabled by
  \<open>!!isGenerating\<close>, the magic button only by \<open>isGenerating === 'all'\<close>; the
  request outcomes are the environment's, for pending jobs; nothing happens
  after a render error.\<close>

fun form_ui_enabled :: "form_state \<Rightarrow> form_event \<Rightarrow> bool" where
  "form_ui_enabled st (ClickAIHelp f) =
     (\<not> crashed st \<and> section_prompt f \<noteq> None \<and> \<not> js_truthy (isGenerating st))"
| "form_ui_enabled st ClickMagic = (\<not> crashed st \<and> isGenerating st \<noteq> Some ''all'')"
| "form_ui_enabled st (AIResolved j r) =
     (\<not> crashed st \<and> (case jobs st j of Some (AIHelpJob f) \<Rightarrow> True | _ \<Rightarrow> False))"
| "form_ui_enabled st (MagicResolved j d) = (\<not> crashed st \<and> jobs st j = Some MagicJob)"
| "form_ui_enabled st (Rejected j) = (\<not> crashed st \<and> jobs st j \<noteq> None)"
| "form_ui_enabled st _ = (\<not> crashed st)"

inductive form_reach :: "initiative option \<Rightarrow> form_state \<Rightarrow> bool" for init where
  form_init: "form_reach init (init_form_state init)"
| form_next: "form_reach init st \<Longrightarrow> form_ui_enabled st e \<Longrightarrow> form_reach init (form_step st e)"

fun form_trace :: "form_state \<Rightarrow> form_event list \<Rightarrow> bool" where
  "form_trace st [] = True"
| "form_trace st (e # es) = (form_ui_enabled st e \<and> form_trace (form_step st e) es)"

text \<open>The invariant: no spinner without a pending job, and AI-help jobs only for
  the four sections.\<close>

definition form_inv :: "form_state \<Rightarrow> bool" where
  "form_inv st =
     ((jobs st = Map.empty \<longrightarrow> isGenerating st = None)
      \<and> (\<forall>j f. jobs st j = Some (AIHelpJob f) \<longrightarrow> section_prompt f \<noteq> None))"

text \<open>Concrete values for the instances below: a complete structured answer, the
  object \<open>JSON.parse("{}")\<close> returns, a JSON parser that knows only \<open>"{}"\<close>, and
  the events of a magic fill clicked while an AI suggestion is pending.\<close>

definition demo_structure :: skkn_structure where
  "demo_structure = \<lparr>s_abstract = Some ''A'', s_situation = Some ''B'', s_solutions = Some [''x'', ''y''],
                      s_results = Some ''R''\<rparr>"

definition empty_structure :: skkn_structure where
  "empty_structure = \<lparr>s_abstract = None, s_situation = None, s_solutions = None, s_results = None\<rparr>"

definition braces_parser :: "js_string \<Rightarrow> skkn_structure option" where
  "braces_parser s = (if s = ''{}'' then Some empty_structure else None)"

definition race_events :: "form_event list" where
  "race_events = [Edit FTitle ''T'', ClickAIHelp FAbstract, ClickMagic, AIResolved 0 (Some ''S'')]"

text \<open>The shape the form's inputs rely on: the header inputs and the status are bound
  to defined values.\<close>

definition form_wf :: "form_data \<Rightarrow> bool" where
  "form_wf d \<longleftrightarrow>
     fd_title d \<noteq> None \<and> fd_subject d \<noteq> None \<and> fd_grade d \<noteq> None \<and> fd_year d \<noteq> None
     \<and> fd_status d \<noteq> None"

definition magic_events :: "form_event list" where
  "magic_events = [Edit FTitle ''T'', ClickMagic, MagicResolved 0 (Some demo_structure)]"

subsection \<open>Lemmas\<close>

lemma get_set_field [simp]:
  "get_field (set_field d f v) g = (if f = g then v else get_field d g)"
  by (cases f; cases g) simp_all

lemma set_field_other [simp]:
  "fd_id (set_field d f v) = fd_id d" "fd_status (set_field d f v) = fd_status d"
  by (cases f; simp)+

lemma section_prompt_header [simp]:
  "section_prompt FTitle = None" "section_prompt FSubject = None"
  "section_prompt FGrade = None" "section_prompt FYear = None"
  by simp_all

lemma magic_update_keeps_header:
  "magic_update d prev = Some fd \<Longrightarrow> section_prompt f = None \<Longrightarrow> get_field fd f = get_field prev f"
  by (cases f) (auto simp: magic_update_def split: option.splits)

lemmas form_handler_defs = handleAIHelp_def handleAIHelp_resolved_def handleMagicFill_def
  handleMagicFill_resolved_def handle_rejected_def submit_def

lemma form_inv_init: "form_inv (init_form_state i)"
  by (simp add: form_inv_def init_form_state_def)

lemma form_inv_step: "form_inv st \<Longrightarrow> form_inv (form_step st e)"
proof (cases e)
  case (ClickAIHelp f)
  assume "form_inv st"
  then show ?thesis using ClickAIHelp
    by (auto simp: form_inv_def handleAIHelp_def split: option.splits)
next
  case (AIResolved j r)
  assume "form_inv st"
  then show ?thesis using AIResolved
    by (auto simp: form_inv_def handleAIHelp_resolved_def split: option.splits form_job.splits)
next
  case (MagicResolved j d)
  assume "form_inv st"
  then show ?thesis using MagicResolved
    by (auto simp: form_inv_def handleMagicFill_resolved_def Let_def split: option.splits form_job.splits)
next
  case ClickMagic
  assume "form_inv st"
  then show ?thesis using ClickMagic by (auto simp: form_inv_def handleMagicFill_def)
qed (auto simp: form_inv_def handle_rejected_def submit_def)

lemma form_wf_set_field [simp]: "form_wf d \<Longrightarrow> form_wf (set_field d f (Some v))"
  by (cases f) (simp_all add: form_wf_def)

lemma form_wf_step: "form_wf (formData st) \<Longrightarrow> form_wf (formData (form_step st e))"
proof (cases e)
  case (AIResolved j r)
  assume "form_wf (formData st)"
  then show ?thesis using AIResolved
    by (auto simp: handleAIHelp_resolved_def append_suggestion_def split: option.splits form_job.splits)
next
  case (MagicResolved j d)
  assume "form_wf (formData st)"
  then show ?thesis using MagicResolved
    by (auto simp: form_wf_def handleMagicFill_resolved_def magic_update_def Let_def
        split: option.splits form_job.splits)
qed (auto simp: form_handler_defs split: option.splits)

lemma form_reach_inv: "form_reach i st \<Longrightarrow> form_inv st"
  by (induction rule: form_reach.induct) (auto intro: form_inv_init form_inv_step)

lemma form_jobs_fresh_step:
  "dom (jobs st) \<subseteq> {..<nextJob st} \<Longrightarrow> dom (jobs (form_step st e)) \<subseteq> {..<nextJob (form_step st e)}"
  by (cases e) (auto simp: form_handler_defs Let_def split: option.splits form_job.splits)

lemma form_reach_fresh: "form_reach i st \<Longrightarrow> dom (jobs st) \<subseteq> {..<nextJob st}"
  by (induction rule: form_reach.induct) (simp_all add: init_form_state_def form_jobs_fresh_step)

lemma form_run_append: "form_run st (xs @ ys) = form_run (form_run st xs) ys"
  by (induction xs arbitrary: st) simp_all

lemma field_key_not_all [simp]: "field_key f \<noteq> ''all''"
  by (cases f) simp_all

lemma form_trace_reach: "form_reach i st \<Longrightarrow> form_trace st es \<Longrightarrow> form_reach i (form_run st es)"
  by (induction st es rule: form_trace.induct) (auto intro: form_reach.form_next)

lemma form_header_step:
  assumes "form_inv st" "section_prompt f = None" "\<forall>v. e \<noteq> Edit f v"
  shows "get_field (formData (form_step st e)) f = get_field (formData st) f"
proof (cases e)
  case (Edit g v)
  with assms(3) show ?thesis by auto
next
  case (AIResolved j r)
  have "jobs st j \<noteq> Some (AIHelpJob f)" using assms(1,2) unfolding form_inv_def by blast
  with AIResolved show ?thesis
    by (auto simp: handleAIHelp_resolved_def append_suggestion_def split: option.splits form_job.splits)
next
  case (MagicResolved j d)
  with assms(2) show ?thesis
    by (auto simp: handleMagicFill_resolved_def Let_def magic_update_keeps_header
        split: option.splits form_job.splits)
qed (auto simp: form_handler_defs split: option.splits)

text \<open>C22: Once every request of the form has settled, no spinner is shown: in every
  state the rendered form can reach, no pending job means \<open>isGenerating\<close> is
  \<open>null\<close>.\<close>

theorem form_spinner_settles:
  "form_reach i st \<Longrightarrow> jobs st = Map.empty \<Longrightarrow> isGenerating st = None"
  using form_reach_inv unfolding form_inv_def by blast

text \<open>C29: The AI never writes the header fields: in every reachable state, an event
  other than the user's own edit of the title, subject, grade or year leaves that field
  as it was.\<close>

theorem form_header_fields_user_only:
  "form_reach i st \<Longrightarrow> f \<in> {FTitle, FSubject, FGrade, FYear} \<Longrightarrow> (\<forall>v. e \<noteq> Edit f v)
   \<Longrightarrow> get_field (formData (form_step st e)) f = get_field (formData st) f"
proof -
  assume r: "form_reach i st" and f: "f \<in> {FTitle, FSubject, FGrade, FYear}" and e: "\<forall>v. e \<noteq> Edit f v"
  from f have "section_prompt f = None" by auto
  with form_header_step [OF form_reach_inv [OF r]] e show ?thesis by blast
qed

text \<open>C26: When an AI suggestion for a section arrives, the section becomes its old text
  (or the empty string), two newlines and the suggestion (or the empty string), every
  other field is unchanged, and the spinner is cleared.\<close>

theorem ai_help_appends:
  "jobs st j = Some (AIHelpJob f) \<Longrightarrow>
   get_field (formData (form_step st (AIResolved j r))) f
     = Some (js_or_default (get_field (formData st) f) [] @ [CHR 0x0A, CHR 0x0A] @ js_or_default r [])
   \<and> (\<forall>g. g \<noteq> f \<longrightarrow> get_field (formData (form_step st (AIResolved j r))) g = get_field (formData st) g)
   \<and> isGenerating (form_step st (AIResolved j r)) = None
   \<and> jobs (form_step st (AIResolved j r)) j = None"
  by (simp add: handleAIHelp_resolved_def append_suggestion_def getAISuggestions_result_def)

text \<open>The magic fill without a title only raises the alert "please enter a title":
  no request is sent, no spinner is shown and the form is unchanged.\<close>

theorem magic_needs_title:
  "\<not> js_truthy (fd_title (formData st)) \<Longrightarrow>
   form_step st ClickMagic = st\<lparr>alerts := alerts st @ [TITLE_REQUIRED_ALERT]\<rparr>"
  by (simp add: handleMagicFill_def)

text \<open>C27: A complete structured answer fills the four sections (the solutions joined
  by newlines), leaves the header fields, the id and the status as they were, and
  clears the spinner.\<close>

theorem magic_fill_sections:
  "jobs st j = Some MagicJob \<Longrightarrow> s_solutions d = Some sols \<Longrightarrow>
   fd_abstract (formData (form_step st (MagicResolved j (Some d)))) = s_abstract d
   \<and> fd_situation (formData (form_step st (MagicResolved j (Some d)))) = s_situation d
   \<and> fd_solutions (formData (form_step st (MagicResolved j (Some d)))) = Some (js_join [CHR 0x0A] sols)
   \<and> fd_results (formData (form_step st (MagicResolved j (Some d)))) = s_results d
   \<and> (\<forall>f \<in> {FTitle, FSubject, FGrade, FYear}.
        get_field (formData (form_step st (MagicResolved j (Some d)))) f = get_field (formData st) f)
   \<and> fd_id (formData (form_step st (MagicResolved j (Some d)))) = fd_id (formData st)
   \<and> fd_status (formData (form_step st (MagicResolved j (Some d)))) = fd_status (formData st)
   \<and> crashed (form_step st (MagicResolved j (Some d))) = crashed st
   \<and> isGenerating (form_step st (MagicResolved j (Some d))) = None"
  by (simp add: handleMagicFill_resolved_def magic_update_def)

text \<open>C25: An empty model response makes the magic fill crash the form:
  \<open>generateSKKNStructure\<close> parses \<open>"{}"\<close>, which has no \<open>solutions\<close>, returns the
  object, and the updater's \<open>data.solutions.join\<close> throws while rendering.\<close>

theorem magic_empty_response_crashes:
  "jobs st j = Some MagicJob \<Longrightarrow> \<not> js_truthy r \<Longrightarrow> json_parse ''{}'' = Some empty_structure \<Longrightarrow>
   crashed (form_step st (MagicResolved j (generateSKKNStructure_result json_parse r)))"
  by (cases r) (auto simp: generateSKKNStructure_result_def handleMagicFill_resolved_def
      magic_update_def empty_structure_def)

text \<open>C24: The magic button stays live while an AI suggestion is pending: in every
  reachable state with a suggestion request pending (its spinner shown) and a title,
  the magic fill can be started; the suggestion's \<open>finally\<close> then clears the
  spinner while the magic request is still pending (the AI buttons are live again),
  and the magic answer's updater then overwrites the four sections, the suggestion
  just appended included.\<close>

theorem magic_race:
  assumes hr: "form_reach i st" and nc: "\<not> crashed st" and j: "jobs st j = Some (AIHelpJob f)"
    and g: "isGenerating st = Some (field_key f)" and t: "js_truthy (fd_title (formData st))"
    and d: "s_solutions d = Some sols"
  shows "form_ui_enabled st ClickMagic
    \<and> form_ui_enabled (form_step st ClickMagic) (AIResolved j resp)
    \<and> isGenerating (form_step (form_step st ClickMagic) (AIResolved j resp)) = None
    \<and> jobs (form_step (form_step st ClickMagic) (AIResolved j resp)) (nextJob st) = Some MagicJob
    \<and> form_ui_enabled (form_step (form_step st ClickMagic) (AIResolved j resp)) (ClickAIHelp FResults)
    \<and> formData (form_step (form_step (form_step st ClickMagic) (AIResolved j resp)) (MagicResolved (nextJob st) (Some d)))
      = (formData (form_step (form_step st ClickMagic) (AIResolved j resp)))
          \<lparr>fd_abstract := s_abstract d, fd_situation := s_situation d,
           fd_solutions := Some (js_join [CHR 0x0A] sols), fd_results := s_results d\<rparr>"
proof -
  have "j \<in> dom (jobs st)" using j by blast
  then have ne: "nextJob st \<noteq> j" using form_reach_fresh [OF hr] by auto
  show ?thesis
    using nc j g t d ne by (simp add: form_handler_defs magic_update_def)
qed

text \<open>C30: Editing an existing initiative and saving it unchanged hands back exactly that
  initiative, with the status "draft" for "save draft" and "pending" for "send for
  approval".\<close>

theorem submit_roundtrip:
  "submitted (form_step (init_form_state (Some i)) SaveDraft) = [initiative_data (i\<lparr>ini_status := DRAFT\<rparr>)]
   \<and> submitted (form_step (init_form_state (Some i)) SendForApproval)
       = [initiative_data (i\<lparr>ini_status := PENDING\<rparr>)]"
  by (simp add: submit_def init_form_state_def init_formData_def initiative_data_def)

lemmas form_eval_simps = init_form_state_def init_formData_def default_form_data_def form_handler_defs
  magic_update_def demo_structure_def getAISuggestions_result_def append_suggestion_def

lemma form_trace_reach_init:
  "form_trace (init_form_state i) es \<Longrightarrow> form_reach i (form_run (init_form_state i) es)"
  by (rule form_trace_reach [OF form_reach.form_init])

text \<open>C23: The form's data keeps its type: in every reachable state the title, subject,
  grade, year and status are defined, whatever the requests return.\<close>

theorem form_fields_defined:
  "form_reach i st \<Longrightarrow> form_wf (formData st)"
proof (induction rule: form_reach.induct)
  case form_init
  show ?case by (cases i) (simp_all add: form_wf_def init_form_state_def init_formData_def
      default_form_data_def initiative_data_def)
next
  case (form_next st e)
  from form_next.IH show ?case by (rule form_wf_step)
qed

theorem form_spinner_settles_witness:
  "form_reach None (form_run (init_form_state None) magic_events)
   \<and> jobs (form_run (init_form_state None) magic_events) = Map.empty
   \<and> isGenerating (form_run (init_form_state None) magic_events) = None"
proof -
  have r: "form_reach None (form_run (init_form_state None) magic_events)"
    by (rule form_trace_reach_init) (simp add: magic_events_def form_eval_simps)
  have j: "jobs (form_run (init_form_state None) magic_events) = Map.empty"
    by (simp add: magic_events_def form_eval_simps)
  show ?thesis using form_spinner_settles [OF r j] r j by blast
qed

theorem form_header_fields_user_only_witness:
  "form_reach None (form_run (init_form_state None) (take 3 race_events))
   \<and> get_field (formData (form_step (form_run (init_form_state None) (take 3 race_events))
        (AIResolved 0 (Some ''S'')))) FTitle = Some ''T''"
proof -
  have r: "form_reach None (form_run (init_form_state None) (take 3 race_events))"
    by (rule form_trace_reach_init) (simp add: race_events_def form_eval_simps)
  have t: "get_field (formData (form_run (init_form_state None) (take 3 race_events))) FTitle = Some ''T''"
    by (simp add: race_events_def form_eval_simps)
  have "get_field (formData (form_step (form_run (init_form_state None) (take 3 race_events))
          (AIResolved 0 (Some ''S'')))) FTitle
        = get_field (formData (form_run (init_form_state None) (take 3 race_events))) FTitle"
    by (rule form_header_fields_user_only [OF r]) simp_all
  then show ?thesis using r t by simp
qed

theorem ai_help_appends_witness:
  "get_field (formData (form_step (form_run (init_form_state None) (take 3 race_events))
      (AIResolved 0 (Some ''S'')))) FAbstract = Some ([CHR 0x0A, CHR 0x0A] @ ''S'')"
proof -
  have j: "jobs (form_run (init_form_state None) (take 3 race_events)) 0 = Some (AIHelpJob FAbstract)"
    by (simp add: race_events_def form_eval_simps)
  have a: "get_field (formData (form_run (init_form_state None) (take 3 race_events))) FAbstract = Some []"
    by (simp add: race_events_def form_eval_simps)
  show ?thesis using ai_help_appends [OF j, of "Some ''S''"] a by simp
qed

theorem magic_needs_title_witness:
  "form_step (init_form_state None) ClickMagic
   = (init_form_state None)\<lparr>alerts := [TITLE_REQUIRED_ALERT]\<rparr>"
proof -
  have t: "\<not> js_truthy (fd_title (formData (init_form_state None)))"
    by (simp add: init_form_state_def init_formData_def default_form_data_def)
  show ?thesis using magic_needs_title [OF t] by (simp add: init_form_state_def)
qed

theorem magic_fill_sections_witness:
  "fd_solutions (formData (form_step (form_run (init_form_state None) (take 2 magic_events))
      (MagicResolved 0 (Some demo_structure)))) = Some (''x'' @ [CHR 0x0A] @ ''y'')"
proof -
  have j: "jobs (form_run (init_form_state None) (take 2 magic_events)) 0 = Some MagicJob"
    by (simp add: magic_events_def form_eval_simps)
  have d: "s_solutions demo_structure = Some [''x'', ''y'']" by (simp add: demo_structure_def)
  show ?thesis using magic_fill_sections [OF j d] by simp
qed

theorem magic_empty_response_crashes_witness:
  "crashed (form_step (form_run (init_form_state None) (take 2 magic_events))
     (MagicResolved 0 (generateSKKNStructure_result braces_parser None)))"
proof -
  have j: "jobs (form_run (init_form_state None) (take 2 magic_events)) 0 = Some MagicJob"
    by (simp add: magic_events_def form_eval_simps)
  have p: "braces_parser ''{}'' = Some empty_structure" by (simp add: braces_parser_def)
  have n: "\<not> js_truthy (None :: js_string option)" by simp
  show ?thesis using magic_empty_response_crashes [where json_parse = braces_parser, OF j n p] .
qed

theorem form_fields_defined_witness:
  "form_wf (formData (form_run (init_form_state None) magic_events))
   \<and> fd_title (formData (form_run (init_form_state None) magic_events)) = Some ''T''"
proof -
  have r: "form_reach None (form_run (init_form_state None) magic_events)"
    by (rule form_trace_reach_init) (simp add: magic_events_def form_eval_simps)
  have t: "fd_title (formData (form_run (init_form_state None) magic_events)) = Some ''T''"
    by (simp add: magic_events_def form_eval_simps)
  show ?thesis using form_fields_defined [OF r] t by blast
qed

theorem magic_race_witness:
  "form_ui_enabled (form_run (init_form_state None) (take 2 race_events)) ClickMagic
   \<and> isGenerating (form_run (init_form_state None) race_events) = None
   \<and> jobs (form_run (init_form_state None) race_events) 1 = Some MagicJob
   \<and> fd_abstract (formData (form_run (init_form_state None) (race_events @ [MagicResolved 1 (Some demo_structure)])))
       = Some ''A''"
proof -
  let ?st = "form_run (init_form_state None) (take 2 race_events)"
  have hr: "form_reach None ?st"
    by (rule form_trace_reach_init) (simp add: race_events_def form_eval_simps)
  have f: "\<not> crashed ?st" "jobs ?st 0 = Some (AIHelpJob FAbstract)" "isGenerating ?st = Some (field_key FAbstract)"
    "js_truthy (fd_title (formData ?st))" "nextJob ?st = 1"
    by (simp_all add: race_events_def form_eval_simps)
  have d: "s_solutions demo_structure = Some [''x'', ''y'']" by (simp add: demo_structure_def)
  have e: "race_events = take 2 race_events @ [ClickMagic, AIResolved 0 (Some ''S'')]"
    by (simp add: race_events_def)
  let ?s2 = "form_step (form_step ?st ClickMagic) (AIResolved 0 (Some ''S''))"
  have r2: "form_run (init_form_state None) race_events = ?s2"
    by (subst e) (simp only: form_run_append form_run.simps)
  have r3: "form_run (init_form_state None) (race_events @ [MagicResolved 1 (Some demo_structure)])
            = form_step ?s2 (MagicResolved 1 (Some demo_structure))"
    by (simp only: form_run_append form_run.simps r2)
  show ?thesis
    using magic_race [OF hr f(1-4) d, of "Some ''S''"] f(5) unfolding r2 r3
    by (simp del: form_step.simps add: demo_structure_def)
qed

end
