(* ===== verification/Presentation.thy ===== *)
theory Presentation
  imports Concurrency Export
begin

text \<open>
  What the screens show, as functions of the state they are given:
  \<^verbatim>\<open>src/components/DocumentPreview.tsx\<close> (the document or the placeholder), the
  main area, the error banner, the phase badge and the download button of
  \<^verbatim>\<open>src/App.tsx\<close>, and the navigation menu of \<^verbatim>\<open>src/components/Layout.tsx\<close>
  (its \<open>activeTab\<close> is a prop, so the menu, its buttons' classes and the header
  are functions of it, and a click yields the tab it asks the caller to activate).
\<close>

subsection \<open>Document preview\<close>

datatype preview = Article js_string | Placeholder

definition DOC_FOOTER :: js_string where
  "DOC_FOOTER =
     ''B'' @ [CHR 0xE1, CHR 0xBA, CHR 0xA3] @ ''n th'' @ [CHR 0xE1, CHR 0xBA, CHR 0xA3] @ ''o ''
     @ [CHR 0xC4, CHR 0x91, CHR 0xC6, CHR 0xB0, CHR 0xE1, CHR 0xBB, CHR 0xA3] @ ''c kh''
     @ [CHR 0xE1, CHR 0xBB, CHR 0x9F] @ ''i t'' @ [CHR 0xE1, CHR 0xBA, CHR 0xA1] @ ''o b''
     @ [CHR 0xE1, CHR 0xBB, CHR 0x9F] @ ''i SKKN Master AI '' @ [CHR 0xE2, CHR 0x80, CHR 0xA2] @ '' Gi''
     @ [CHR 0xC3, CHR 0xA1] @ ''o vi'' @ [CHR 0xC3, CHR 0xAA] @ ''n: VANHA''"

text \<open>\<open>content ? <article>...</article> : <placeholder/>\<close>: a string is truthy when it
  is not empty.\<close>

definition DocumentPreview :: "js_string \<Rightarrow> preview" where
  "DocumentPreview content = (if content \<noteq> [] then Article content else Placeholder)"

text \<open>The bar above the paper, the same in both branches: its caption, author line
  and status pill.\<close>

definition preview_header_bar :: "js_string list" where
  "preview_header_bar =
     [''V'' @ [CHR 0xC4, CHR 0x83] @ ''n b'' @ [CHR 0xE1, CHR 0xBA, CHR 0xA3] @ ''n '' @ [CHR 0xC4, CHR 0x91] @ ''ang so'' @ [CHR 0xE1, CHR 0xBA, CHR 0xA1] @ ''n th'' @ [CHR 0xE1, CHR 0xBA, CHR 0xA3] @ ''o'',
      ''T'' @ [CHR 0xC3, CHR 0xA1] @ ''c gi'' @ [CHR 0xE1, CHR 0xBA, CHR 0xA3] @ '': VANHA'',
      ''AI Analysis Active'']"

subsection \<open>The main area of the application\<close>

datatype main_view = FormView | PreviewView preview

definition main_view :: "generation_state \<Rightarrow> main_view" where
  "main_view s =
     (if step s = INPUT_FORM then FormView else PreviewView (DocumentPreview (fullDocument s)))"

definition ERROR_PREFIX :: js_string where
  "ERROR_PREFIX =
     ''H'' @ [CHR 0xE1, CHR 0xBB, CHR 0x87] @ '' th'' @ [CHR 0xE1, CHR 0xBB, CHR 0x91] @ ''ng b''
     @ [CHR 0xC3, CHR 0xA1] @ ''o l'' @ [CHR 0xE1, CHR 0xBB, CHR 0x97] @ ''i: ''"

text \<open>\<open>{state.error && <banner/>}\<close>: shown only for a truthy message.\<close>

definition error_banner :: "generation_state \<Rightarrow> js_string option" where
  "error_banner s = (if js_truthy (error s) then Some (ERROR_PREFIX @ opt_text (error s)) else None)"

text \<open>The fixed texts of the application frame: the sidebar's brand and edition
  line, the teacher card at the sidebar's foot (initials, role, name), and the
  brand of the mobile header.\<close>

definition app_brand :: "js_string \<times> js_string" where
  "app_brand = (''SKKN MASTER'', ''VANHA EDITION'')"

definition teacher_card :: "js_string \<times> js_string \<times> js_string" where
  "teacher_card = (''VH'', ''Gi'' @ [CHR 0xC3, CHR 0xA1] @ ''o vi'' @ [CHR 0xC3, CHR 0xAA] @ ''n'', ''VANHA'')"

definition mobile_brand :: js_string where
  "mobile_brand = ''SKKN - VANHA''"

definition phase_badge :: "generation_state \<Rightarrow> js_string" where
  "phase_badge s = ''Giai '' @ [CHR 0xC4, CHR 0x91, CHR 0x6F, CHR 0xE1, CHR 0xBA, CHR 0xA1] @ ''n ''
     @ decimal (step_num (step s) + 1)"

text \<open>The sidebar's download button: rendered for \<open>state.step > 0\<close>, never disabled.\<close>

definition export_shown :: "generation_state \<Rightarrow> bool" where
  "export_shown s \<longleftrightarrow> INPUT_FORM < step s"

text \<open>The action buttons as \<open>Button\<close> renders them: the sidebar's "next section"
  (rendered for \<open>0 < step < COMPLETED\<close>, \<open>isLoading={state.isStreaming}\<close>, with an
  icon) and "download" (outline variant, with an icon) under \<open>state.step > 0\<close>, and
  the mobile floating "continue" button.\<close>

datatype app_action = NextSection | ExportWord

definition sidebar_actions :: "generation_state \<Rightarrow> (app_action \<times> js_string \<times> rendered_button) list" where
  "sidebar_actions s =
     (if INPUT_FORM < step s then
        (if step s < COMPLETED then
           [(NextSection, ''Vi'' @ [CHR 0xE1, CHR 0xBA, CHR 0xBF] @ ''t ti'' @ [CHR 0xE1, CHR 0xBA, CHR 0xBF] @ ''p ph'' @ [CHR 0xE1, CHR 0xBA, CHR 0xA7] @ ''n m'' @ [CHR 0xE1, CHR 0xBB, CHR 0x9B] @ ''i'',
             Button None (isStreaming s) True (Some ''w-full h-12'') False)]
         else [])
        @ [(ExportWord, ''T'' @ [CHR 0xE1, CHR 0xBA, CHR 0xA3] @ ''i b'' @ [CHR 0xE1, CHR 0xBA, CHR 0xA3] @ ''n WORD'',
            Button (Some Outline) False True (Some ''w-full h-12'') False)]
      else [])"

definition mobile_action :: "generation_state \<Rightarrow> (app_action \<times> js_string \<times> rendered_button) option" where
  "mobile_action s =
     (if \<not> isStreaming s \<and> INPUT_FORM < step s \<and> step s < COMPLETED
      then Some (NextSection, ''Ti'' @ [CHR 0xE1, CHR 0xBA, CHR 0xBF] @ ''p t'' @ [CHR 0xE1, CHR 0xBB, CHR 0xA5] @ ''c so'' @ [CHR 0xE1, CHR 0xBA, CHR 0xA1] @ ''n th'' @ [CHR 0xE1, CHR 0xBA, CHR 0xA3] @ ''o'',
                 Button (Some Primary) False False (Some ''w-full h-14 shadow-[0_10px_30px_rgba(197,160,33,0.3)]'') False)
      else None)"

subsection \<open>Navigation menu\<close>

record menu_item =
  item_id :: js_string
  item_label :: js_string

definition menuItems :: "menu_item list" where
  "menuItems =
     [\<lparr>item_id = ''dashboard'', item_label = ''B'' @ [CHR 0xE1, CHR 0xBA, CHR 0xA3] @ ''ng ''
         @ [CHR 0xC4, CHR 0x91] @ ''i'' @ [CHR 0xE1, CHR 0xBB, CHR 0x81] @ ''u khi''
         @ [CHR 0xE1, CHR 0xBB, CHR 0x83] @ ''n''\<rparr>,
      \<lparr>item_id = ''list'', item_label = ''Danh s'' @ [CHR 0xC3, CHR 0xA1] @ ''ch SKKN''\<rparr>,
      \<lparr>item_id = ''create'', item_label = ''Vi'' @ [CHR 0xE1, CHR 0xBA, CHR 0xBF] @ ''t s''
         @ [CHR 0xC3, CHR 0xA1] @ ''ng ki'' @ [CHR 0xE1, CHR 0xBA, CHR 0xBF] @ ''n''\<rparr>,
      \<lparr>item_id = ''library'', item_label = ''Th'' @ [CHR 0xC6, CHR 0xB0] @ '' vi''
         @ [CHR 0xE1, CHR 0xBB, CHR 0x87] @ ''n m'' @ [CHR 0xE1, CHR 0xBA, CHR 0xAB] @ ''u''\<rparr>]"

text \<open>The highlight of each menu button: \<open>activeTab === item.id\<close>.\<close>

definition menu_highlighted :: "js_string \<Rightarrow> bool list" where
  "menu_highlighted activeTab = map (\<lambda>i. activeTab = item_id i) menuItems"

text \<open>The header: \<open>menuItems.find(i => i.id === activeTab)?.label\<close>.\<close>

definition header_title :: "js_string \<Rightarrow> js_string option" where
  "header_title activeTab = map_option item_label (find (\<lambda>i. item_id i = activeTab) menuItems)"

text \<open>A click on a menu button: \<open>setActiveTab(item.id)\<close>.\<close>

definition layout_click :: "menu_item \<Rightarrow> js_string" where
  "layout_click item = item_id item"

text \<open>The rendered menu: for each entry its key, label, button class and icon class,
  both chosen by \<open>activeTab === item.id\<close>.\<close>

record menu_button =
  mb_key :: js_string
  mb_label :: js_string
  mb_class :: js_string
  mb_icon_class :: js_string

definition menu_buttons :: "js_string \<Rightarrow> menu_button list" where
  "menu_buttons activeTab =
     map (\<lambda>item. \<lparr>mb_key = item_id item, mb_label = item_label item,
                  mb_class = ''w-full flex items-center gap-3 px-4 py-3 rounded-xl transition-all duration-200 ''
                    @ (if activeTab = item_id item then ''bg-indigo-50 text-indigo-700 shadow-sm''
                       else ''text-slate-600 hover:bg-slate-50 hover:text-slate-900''),
                  mb_icon_class = (if activeTab = item_id item then ''text-indigo-600'' else ''text-slate-400'')\<rparr>)
       menuItems"

text \<open>The fixed texts of the frame: brand name and tagline, the logout button (it has
  no handler), and the signed-in user shown in the header.\<close>

definition layout_brand :: "js_string \<times> js_string" where
  "layout_brand = (''SKKN Master'', ''Qu'' @ [CHR 0xE1, CHR 0xBA, CHR 0xA3] @ ''n l'' @ [CHR 0xC3, CHR 0xBD] @ '' s'' @ [CHR 0xC3, CHR 0xA1] @ ''ng t'' @ [CHR 0xE1, CHR 0xBA, CHR 0xA1] @ ''o'')"

definition logout_label :: js_string where
  "logout_label = [CHR 0xC4, CHR 0x90, CHR 0xC4, CHR 0x83] @ ''ng xu'' @ [CHR 0xE1, CHR 0xBA, CHR 0xA5] @ ''t''"

record layout_header =
  hdr_title :: "js_string option"
  hdr_user :: js_string
  hdr_role :: js_string
  hdr_avatar :: js_string

definition Layout_header :: "js_string \<Rightarrow> layout_header" where
  "Layout_header activeTab =
     \<lparr>hdr_title = header_title activeTab,
      hdr_user = ''Nguy'' @ [CHR 0xE1, CHR 0xBB, CHR 0x85] @ ''n V'' @ [CHR 0xC4, CHR 0x83] @ ''n A'',
      hdr_role = ''Gi'' @ [CHR 0xC3, CHR 0xA1] @ ''o vi'' @ [CHR 0xC3, CHR 0xAA] @ ''n To'' @ [CHR 0xC3, CHR 0xA1] @ ''n'',
      hdr_avatar = ''https://picsum.photos/seed/teacher/100/100''\<rparr>"

subsection \<open>Lemmas\<close>

lemma main_view_article_iff:
  "main_view s = PreviewView (Article d) \<longleftrightarrow> step s \<noteq> INPUT_FORM \<and> fullDocument s = d \<and> d \<noteq> []"
  by (auto simp: main_view_def DocumentPreview_def)

lemma article_step:
  assumes "seq_inv w" "ui_enabled w e" "main_view (state w) = PreviewView (Article d)"
  shows "\<exists>d'. main_view (state (app_step w e)) = PreviewView (Article d') \<and> prefix d d'"
proof -
  have m: "step (state w) \<le> step (state (app_step w e))"
    "prefix (fullDocument (state w)) (fullDocument (state (app_step w e)))"
    using seq_inv_step_mono [OF assms(1,2)] by blast+
  have a: "step (state w) \<noteq> INPUT_FORM" "fullDocument (state w) = d" "d \<noteq> []"
    using assms(3) by (simp_all add: main_view_article_iff)
  have "step (state (app_step w e)) \<noteq> INPUT_FORM" using m(1) a(1) by (cases "step (state w)") auto
  moreover have "fullDocument (state (app_step w e)) \<noteq> []" using m(2) a(2,3) by auto
  ultimately show ?thesis using m(2) a(2) by (simp add: main_view_article_iff)
qed

lemma error_banner_error:
  "stream_pending w i \<Longrightarrow>
   error_banner (state (app_step w (StreamError i e))) = (if e = [] then None else Some (ERROR_PREFIX @ e))"
  by (auto simp: stream_pending_def error_event_def onStreamError_def error_banner_def)

lemma export_during_stream:
  "export_shown s \<longleftrightarrow> INPUT_FORM < step s"
  by (simp add: export_shown_def)

text \<open>C15: Once the main area shows the document, it keeps showing it: along every run
  the UI permits, the preview stays an article whose text extends the text shown
  before; it never falls back to the placeholder or the form.\<close>

theorem preview_article_stable:
  assumes "ui_reach k w" "main_view (state w) = PreviewView (Article d)" "ui_trace w es"
  shows "\<exists>d'. main_view (state (run w es)) = PreviewView (Article d') \<and> prefix d d'"
  using assms
proof (induction es arbitrary: w d)
  case Nil
  then show ?case by auto
next
  case (Cons e es)
  have en: "ui_enabled w e" and tr: "ui_trace (app_step w e) es" using Cons.prems(3) by simp_all
  obtain d1 where d1: "main_view (state (app_step w e)) = PreviewView (Article d1)" "prefix d d1"
    using article_step [OF ui_reach_seq_inv [OF Cons.prems(1)] en Cons.prems(2)] by blast
  have "ui_reach k (app_step w e)" using Cons.prems(1) en by (rule ui_reach.ui_step)
  then obtain d' where "main_view (state (run (app_step w e) es)) = PreviewView (Article d')" "prefix d1 d'"
    using Cons.IH d1(1) tr by blast
  then show ?case using d1(2) by (auto intro: prefix_order.trans)
qed

text \<open>The navigation menu: for any active tab exactly one button is highlighted if
  the tab is one of the four menu entries and none otherwise, the header shows a title
  exactly for those tabs, and after a click on an entry the header shows that entry's
  label.\<close>

theorem menu_selection:
  "length (filter id (menu_highlighted t)) = (if t \<in> set (map item_id menuItems) then 1 else 0)
   \<and> (header_title t = None \<longleftrightarrow> t \<notin> set (map item_id menuItems))
   \<and> (it \<in> set menuItems \<longrightarrow> header_title (layout_click it) = Some (item_label it))"
  by (auto simp: menu_highlighted_def header_title_def layout_click_def menuItems_def)

theorem preview_article_stable_witness:
  "\<exists>d'. main_view (state (run (run filled_world [ClickStart, Chunk 0 (Some ''ab''), StreamEnd 0])
      [ClickNext, Chunk 1 (Some ''cd'')])) = PreviewView (Article d') \<and> prefix ''ab'' d'"
proof -
  let ?w = "run filled_world [ClickStart, Chunk 0 (Some ''ab''), StreamEnd 0]"
  have m: "main_view (state ?w) = PreviewView (Article ''ab'')"
    by (simp add: main_view_def DocumentPreview_def filled_world_def handler_simps Let_def)
  have t: "ui_trace ?w [ClickNext, Chunk 1 (Some ''cd'')]"
    by (simp add: filled_world_def handler_simps inv_simps Let_def)
  show ?thesis using preview_article_stable [OF filled_run_ui_reach m t] .
qed

theorem menu_selection_witness:
  "header_title (layout_click (hd menuItems)) = Some (item_label (hd menuItems))
   \<and> length (filter id (menu_highlighted ''list'')) = 1 \<and> header_title ''settings'' = None"
proof -
  have "hd menuItems \<in> set menuItems" by (simp add: menuItems_def)
  then show ?thesis using menu_selection [of "''list''" "hd menuItems"] menu_selection [of "''settings''"]
    by (simp add: menuItems_def)
qed

lemma menu_buttons_active:
  "map (\<lambda>b. mb_icon_class b = ''text-indigo-600'') (menu_buttons t) = menu_highlighted t
   \<and> map mb_label (menu_buttons t) = map item_label menuItems"
  by (simp add: menu_buttons_def menu_highlighted_def menuItems_def)

lemma Layout_header_title:
  "hdr_title (Layout_header t) \<noteq> None \<longleftrightarrow> (\<exists>b\<in>set (menu_buttons t). mb_icon_class b = ''text-indigo-600'')"
  by (auto simp: Layout_header_def header_title_def menu_buttons_def menuItems_def)

lemma sidebar_actions_next:
  "sidebar_next_enabled s \<longleftrightarrow> (\<exists>l b. (NextSection, l, b) \<in> set (sidebar_actions s) \<and> \<not> btn_disabled b)"
  by (auto simp: sidebar_next_enabled_def sidebar_actions_def Button_def)

lemma sidebar_actions_export:
  "export_shown s \<longleftrightarrow> (\<exists>l b. (ExportWord, l, b) \<in> set (sidebar_actions s) \<and> \<not> btn_disabled b)"
  by (auto simp: export_shown_def sidebar_actions_def Button_def button_disabled_def)

lemma mobile_action_next:
  "mobile_next_shown s \<longleftrightarrow> (\<exists>l b. mobile_action s = Some (NextSection, l, b) \<and> \<not> btn_disabled b)"
  by (auto simp: mobile_next_shown_def mobile_action_def Button_def button_disabled_def)

end
