(* ===== verification/SKKNForm.thy ===== *)
theory SKKNForm
  imports Sequencer Views
begin

text \<open>
  The profile form of \<^verbatim>\<open>src/components/SKKNForm.tsx\<close>: its five controlled inputs
  (label, \<open>name\<close> attribute, \<open>value\<close>, placeholder), the change handler that reads
  the input's \<open>name\<close> back as a key of \<open>UserInfo\<close> and calls \<open>onChange\<close> (which is
  \<open>handleUserChange\<close> of \<^verbatim>\<open>src/App.tsx\<close>), and the submit button rendered by
  \<open>Button\<close>.  The lemmas show that the inputs are controlled correctly: a change
  in the i-th input updates exactly the field that input displays.
\<close>

record form_input =
  input_label :: js_string
  input_name :: js_string
  input_value :: js_string
  input_placeholder :: js_string

text \<open>The five inputs in the order they are rendered; each shows
  \<open>value={userInfo.<name>}\<close>.\<close>

definition skkn_inputs :: "user_info \<Rightarrow> form_input list" where
  "skkn_inputs info =
     [\<lparr>input_label = ''Ch'' @ [CHR 0xE1, CHR 0xBB, CHR 0xA7] @ '' '' @ [CHR 0xC4, CHR 0x91, CHR 0xE1, CHR 0xBB, CHR 0x81] @ '' / '' @ [CHR 0xC4, CHR 0x90, CHR 0xE1, CHR 0xBB, CHR 0x81] @ '' t'' @ [CHR 0xC3, CHR 0xA0] @ ''i S'' @ [CHR 0xC3, CHR 0xA1] @ ''ng ki'' @ [CHR 0xE1, CHR 0xBA, CHR 0xBF] @ ''n kinh nghi'' @ [CHR 0xE1, CHR 0xBB, CHR 0x87] @ ''m'',
       input_name = ''topic'', input_value = topic info,
       input_placeholder = ''VD: M'' @ [CHR 0xE1, CHR 0xBB, CHR 0x99] @ ''t s'' @ [CHR 0xE1, CHR 0xBB, CHR 0x91] @ '' gi'' @ [CHR 0xE1, CHR 0xBA, CHR 0xA3] @ ''i ph'' @ [CHR 0xC3, CHR 0xA1] @ ''p n'' @ [CHR 0xC3, CHR 0xA2] @ ''ng cao ch'' @ [CHR 0xE1, CHR 0xBA, CHR 0xA5] @ ''t l'' @ [CHR 0xC6, CHR 0xB0, CHR 0xE1, CHR 0xBB, CHR 0xA3] @ ''ng d'' @ [CHR 0xE1, CHR 0xBA, CHR 0xA1] @ ''y h'' @ [CHR 0xE1, CHR 0xBB, CHR 0x8D] @ ''c...''\<rparr>,
      \<lparr>input_label = ''M'' @ [CHR 0xC3, CHR 0xB4] @ ''n h'' @ [CHR 0xE1, CHR 0xBB, CHR 0x8D] @ ''c '' @ [CHR 0xC4, CHR 0x91, CHR 0xE1, CHR 0xBA, CHR 0xA3] @ ''m nhi'' @ [CHR 0xE1, CHR 0xBB, CHR 0x87] @ ''m'',
       input_name = ''subject'', input_value = subject info,
       input_placeholder = ''VD: To'' @ [CHR 0xC3, CHR 0xA1] @ ''n h'' @ [CHR 0xE1, CHR 0xBB, CHR 0x8D] @ ''c, H'' @ [CHR 0xC3, CHR 0xB3] @ ''a h'' @ [CHR 0xE1, CHR 0xBB, CHR 0x8D] @ ''c...''\<rparr>,
      \<lparr>input_label = ''Kh'' @ [CHR 0xE1, CHR 0xBB, CHR 0x91] @ ''i l'' @ [CHR 0xE1, CHR 0xBB, CHR 0x9B] @ ''p / C'' @ [CHR 0xE1, CHR 0xBA, CHR 0xA5] @ ''p h'' @ [CHR 0xE1, CHR 0xBB, CHR 0x8D] @ ''c'',
       input_name = ''grade'', input_value = grade info,
       input_placeholder = ''VD: Kh'' @ [CHR 0xE1, CHR 0xBB, CHR 0x91] @ ''i 12, THPT...''\<rparr>,
      \<lparr>input_label = [CHR 0xC4, CHR 0x90, CHR 0xC6, CHR 0xA1] @ ''n v'' @ [CHR 0xE1, CHR 0xBB, CHR 0x8B] @ '' / Tr'' @ [CHR 0xC6, CHR 0xB0, CHR 0xE1, CHR 0xBB, CHR 0x9D] @ ''ng h'' @ [CHR 0xE1, CHR 0xBB, CHR 0x8D] @ ''c'',
       input_name = ''school'', input_value = school info,
       input_placeholder = ''Nh'' @ [CHR 0xE1, CHR 0xBA, CHR 0xAD] @ ''p t'' @ [CHR 0xC3, CHR 0xAA] @ ''n tr'' @ [CHR 0xC6, CHR 0xB0, CHR 0xE1, CHR 0xBB, CHR 0x9D] @ ''ng c'' @ [CHR 0xE1, CHR 0xBB, CHR 0xA7] @ ''a th'' @ [CHR 0xE1, CHR 0xBA, CHR 0xA7] @ ''y/c'' @ [CHR 0xC3, CHR 0xB4] @ ''...''\<rparr>,
      \<lparr>input_label = ''B'' @ [CHR 0xE1, CHR 0xBB, CHR 0x99] @ '' s'' @ [CHR 0xC3, CHR 0xA1] @ ''ch / Ch'' @ [CHR 0xC6, CHR 0xB0, CHR 0xC6, CHR 0xA1] @ ''ng tr'' @ [CHR 0xC3, CHR 0xAC] @ ''nh'',
       input_name = ''textbook'', input_value = textbook info,
       input_placeholder = ''VD: K'' @ [CHR 0xE1, CHR 0xBA, CHR 0xBF] @ ''t n'' @ [CHR 0xE1, CHR 0xBB, CHR 0x91] @ ''i tri th'' @ [CHR 0xE1, CHR 0xBB, CHR 0xA9] @ ''c, GDPT 2018...''\<rparr>]"

text \<open>\<open>e.target.name as keyof UserInfo\<close>: the cast succeeds on the five keys of
  \<open>UserInfo\<close>; any other name is not a field of the form.\<close>

fun keyof_UserInfo :: "js_string \<Rightarrow> user_field option" where
  "keyof_UserInfo n =
     (if n = ''topic'' then Some Topic
      else if n = ''subject'' then Some Subject
      else if n = ''grade'' then Some Grade
      else if n = ''school'' then Some School
      else if n = ''textbook'' then Some Textbook
      else None)"

text \<open>\<open>handleChange\<close>: \<open>onChange(e.target.name as keyof UserInfo, e.target.value)\<close>,
  with \<open>onChange = handleUserChange\<close> in \<^verbatim>\<open>src/App.tsx\<close>.\<close>

definition handleChange :: "js_string \<Rightarrow> js_string \<Rightarrow> user_info \<Rightarrow> user_info option" where
  "handleChange name value info =
     map_option (\<lambda>f. handleUserChange f value info) (keyof_UserInfo name)"

text \<open>A change event on the i-th rendered input carries that input's \<open>name\<close>.\<close>

definition input_change :: "nat \<Rightarrow> js_string \<Rightarrow> user_info \<Rightarrow> user_info option" where
  "input_change i value info =
     (if i < length (skkn_inputs info)
      then handleChange (input_name (skkn_inputs info ! i)) value info else None)"

text \<open>The fixed texts around the inputs: the card's title, its two tags, and the
  confirmation line beside the submit button.\<close>

definition skkn_form_texts :: "js_string list" where
  "skkn_form_texts =
     [''H'' @ [CHR 0xE1, CHR 0xBB, CHR 0x93] @ '' s'' @ [CHR 0xC6, CHR 0xA1] @ '' S'' @ [CHR 0xC3, CHR 0xA1] @ ''ng ki'' @ [CHR 0xE1, CHR 0xBA, CHR 0xBF] @ ''n'',
      ''Gi'' @ [CHR 0xC3, CHR 0xA1] @ ''o vi'' @ [CHR 0xC3, CHR 0xAA] @ ''n: VANHA'',
      [CHR 0xE2, CHR 0x80, CHR 0xA2] @ '' AI Powered Support'',
      ''X'' @ [CHR 0xC3, CHR 0xA1] @ ''c nh'' @ [CHR 0xE1, CHR 0xBA, CHR 0xAD] @ ''n th'' @ [CHR 0xC3, CHR 0xB4] @ ''ng tin h'' @ [CHR 0xE1, CHR 0xBB, CHR 0x93] @ '' s'' @ [CHR 0xC6, CHR 0xA1] @ '' cho gi'' @ [CHR 0xC3, CHR 0xA1] @ ''o vi'' @ [CHR 0xC3, CHR 0xAA] @ ''n VANHA'']"

text \<open>The submit button: \<open>disabled={!isFormValid || isSubmitting}\<close>,
  \<open>isLoading={isSubmitting}\<close>, the primary variant, no icon.\<close>

definition skkn_submit :: "user_info \<Rightarrow> bool \<Rightarrow> rendered_button" where
  "skkn_submit info isSubmitting =
     Button (Some Primary) isSubmitting False (Some ''w-full md:w-auto px-12 h-14'')
       (\<not> isFormValid info \<or> isSubmitting)"

subsection \<open>Lemmas\<close>

lemma skkn_inputs_length [simp]: "length (skkn_inputs u) = 5"
  by (simp add: skkn_inputs_def)

lemma skkn_inputs_names: "map input_name (skkn_inputs u) = [''topic'', ''subject'', ''grade'', ''school'', ''textbook'']"
  by (simp add: skkn_inputs_def)

lemma skkn_inputs_values: "map input_value (skkn_inputs u) = user_info_values u"
  by (simp add: skkn_inputs_def user_info_values_def)

lemma skkn_inputs_static:
  "map (\<lambda>x. (input_label x, input_name x, input_placeholder x)) (skkn_inputs u)
   = map (\<lambda>x. (input_label x, input_name x, input_placeholder x)) (skkn_inputs u')"
  by (simp add: skkn_inputs_def)

lemma skkn_submit_start_enabled:
  "start_enabled u s \<longleftrightarrow> step s = INPUT_FORM \<and> \<not> btn_disabled (skkn_submit u (isStreaming s))"
  by (simp add: start_enabled_def skkn_submit_def Button_def)

text \<open>C33: The form's inputs are controlled correctly: a change event on any of the five
  rendered inputs is accepted (its \<open>name\<close> is a key of \<open>UserInfo\<close>), and after it
  that input, and no other, displays the typed value.\<close>

theorem input_change_roundtrip:
  assumes "i < length (skkn_inputs u)"
  shows "\<exists>u'. input_change i v u = Some u'
           \<and> map input_value (skkn_inputs u') = (map input_value (skkn_inputs u))[i := v]"
proof -
  have "i = 0 \<or> i = 1 \<or> i = 2 \<or> i = 3 \<or> i = 4" using assms by auto
  then show ?thesis
    by (elim disjE) (simp_all add: input_change_def handleChange_def skkn_inputs_def)
qed

theorem input_change_roundtrip_witness:
  "input_change 2 ''12'' empty_user_info = Some (empty_user_info\<lparr>grade := ''12''\<rparr>)
   \<and> map input_value (skkn_inputs (empty_user_info\<lparr>grade := ''12''\<rparr>)) = ['''', '''', ''12'', '''', '''']"
proof -
  have "2 < length (skkn_inputs empty_user_info)" by simp
  from input_change_roundtrip [OF this, of "''12''"] obtain u' where
    "input_change 2 ''12'' empty_user_info = Some u'"
    "map input_value (skkn_inputs u') = (map input_value (skkn_inputs empty_user_info))[2 := ''12'']"
    by blast
  moreover have "input_change 2 ''12'' empty_user_info = Some (empty_user_info\<lparr>grade := ''12''\<rparr>)"
    by (simp add: input_change_def handleChange_def skkn_inputs_def)
  ultimately show ?thesis by (simp add: skkn_inputs_values user_info_values_def empty_user_info_def)
qed

end
