(* ===== verification/MagicJson.thy ===== *)
theory MagicJson
  imports InitiativeForm
begin

text \<open>
  The structured answer of \<open>generateSKKNStructure\<close>
  (\<^verbatim>\<open>src/services/geminiService.ts\<close>) at the level of JSON values, and what
  \<open>handleMagicFill\<close> (\<^verbatim>\<open>src/components/InitiativeForm.tsx\<close>) does with each
  value: \<open>if (data)\<close> on its truthiness, the property reads \<open>data.abstract\<close>,
  \<open>data.situation\<close>, \<open>data.results\<close>, and \<open>data.solutions.join('\n')\<close>, which
  throws a \<open>TypeError\<close> unless \<open>solutions\<close> is an array.  \<open>JSON.parse\<close> itself
  is a parameter (a library function): \<open>None\<close> is its \<open>SyntaxError\<close>.

  The theory \<open>InitiativeForm\<close> models the answer as a record of optional
  fields (\<open>skkn_structure\<close>); the lemmas here show that this record is an
  abstraction of the JSON-level behaviour on answers that follow the response
  schema, and give the behaviour on every other answer.
\<close>

text \<open>A JSON value as \<open>JSON.parse\<close> returns it.  A number is kept as its JavaScript
  string form (\<open>Number.prototype.toString\<close>), the text \<open>join\<close> writes for it; it is
  zero exactly when that form is \<open>0\<close>.  An object is the list of its members in
  source order.\<close>

datatype json = JNull | JBool bool | JNum js_string | JStr js_string
  | JArr "json list" | JObj "(js_string \<times> json) list"

text \<open>\<open>if (data)\<close>: \<open>null\<close>, \<open>false\<close>, \<open>0\<close> and \<open>""\<close> are falsy; arrays and objects,
  also empty ones, are truthy.\<close>

fun json_truthy :: "json \<Rightarrow> bool" where
  "json_truthy JNull = False"
| "json_truthy (JBool b) = b"
| "json_truthy (JNum n) = (n \<noteq> ''0'')"
| "json_truthy (JStr s) = (s \<noteq> [])"
| "json_truthy (JArr xs) = True"
| "json_truthy (JObj ms) = True"

text \<open>\<open>v.key\<close> on a value that is not \<open>null\<close>: an object's own member, the last one
  when the key repeats (as \<open>JSON.parse\<close> keeps it); \<open>None\<close> is \<open>undefined\<close>.
  Strings, numbers, booleans and arrays have no such own property.\<close>

fun json_get :: "json \<Rightarrow> js_string \<Rightarrow> json option" where
  "json_get (JObj ms) k = map_of (rev ms) k"
| "json_get v k = None"

text \<open>The text \<open>Array.prototype.join\<close> writes for an element: \<open>null\<close> as the empty
  string, an array as its elements joined by commas, an object as
  \<open>[object Object]\<close>.\<close>

fun join_elem :: "json \<Rightarrow> js_string" where
  "join_elem JNull = []"
| "join_elem (JBool b) = (if b then ''true'' else ''false'')"
| "join_elem (JNum n) = n"
| "join_elem (JStr s) = s"
| "join_elem (JArr xs) = js_join '','' (map join_elem xs)"
| "join_elem (JObj ms) = ''[object Object]''"

text \<open>\<open>v.join(sep)\<close> where \<open>v\<close> is a property read: \<open>None\<close> is the \<open>TypeError\<close>
  (\<open>undefined\<close> has no properties, other values no \<open>join\<close> method).\<close>

fun js_array_join :: "json option \<Rightarrow> js_string \<Rightarrow> js_string option" where
  "js_array_join (Some (JArr xs)) sep = Some (js_join sep (map join_elem xs))"
| "js_array_join v sep = None"

text \<open>\<open>generateSKKNStructure\<close> after the request: \<open>JSON.parse(response.text || "{}")\<close>,
  with \<open>null\<close> when the parse throws.\<close>

definition generateSKKNStructure_json ::
  "(js_string \<Rightarrow> json option) \<Rightarrow> js_string option \<Rightarrow> json" where
  "generateSKKNStructure_json json_parse response_text =
     (case json_parse (js_or_default response_text ''{}'') of None \<Rightarrow> JNull | Some v \<Rightarrow> v)"

text \<open>What \<open>handleMagicFill\<close> does with the answer: nothing when it is falsy; a
  \<open>TypeError\<close> in the queued updater (a render error) when \<open>solutions\<close> is no
  array; otherwise the four values the updater assigns.\<close>

datatype magic_outcome = MagicSkip | MagicTypeError
  | MagicAssign "json option" "json option" js_string "json option"

definition magic_fill_json :: "json \<Rightarrow> magic_outcome" where
  "magic_fill_json data =
     (if \<not> json_truthy data then MagicSkip
      else case js_array_join (json_get data ''solutions'') [CHR 0x0A] of
             None \<Rightarrow> MagicTypeError
           | Some sols \<Rightarrow> MagicAssign (json_get data ''abstract'') (json_get data ''situation'') sols
                            (json_get data ''results''))"

subsection \<open>The response schema\<close>

text \<open>A member that the schema declares a string: absent, or a string.\<close>

fun json_str_field :: "json option \<Rightarrow> js_string option option" where
  "json_str_field None = Some None"
| "json_str_field (Some (JStr s)) = Some (Some s)"
| "json_str_field (Some v) = None"

fun json_str :: "json \<Rightarrow> js_string option" where
  "json_str (JStr s) = Some s"
| "json_str v = None"

text \<open>The member \<open>solutions\<close>: absent, or an array of strings.\<close>

fun json_str_list_field :: "json option \<Rightarrow> js_string list option option" where
  "json_str_list_field None = Some None"
| "json_str_list_field (Some (JArr xs)) =
     (if list_all (\<lambda>x. json_str x \<noteq> None) xs then Some (Some (map (the \<circ> json_str) xs)) else None)"
| "json_str_list_field (Some v) = None"

text \<open>The abstraction: an object whose four members have the types the schema
  declares is the record \<open>skkn_structure\<close> of theory \<open>Gemini\<close>.  A member may be
  absent here, as in the record model: the schema marks all four required, but
  the code does not check the answer against it.\<close>

definition json_structure :: "json \<Rightarrow> skkn_structure option" where
  "json_structure v =
     (case v of
        JObj ms \<Rightarrow>
          (case (json_str_field (json_get v ''abstract''), json_str_field (json_get v ''situation''),
                 json_str_list_field (json_get v ''solutions''), json_str_field (json_get v ''results'')) of
             (Some a, Some s, Some l, Some r) \<Rightarrow>
               Some \<lparr>s_abstract = a, s_situation = s, s_solutions = l, s_results = r\<rparr>
           | _ \<Rightarrow> None)
      | _ \<Rightarrow> None)"

subsection \<open>Lemmas\<close>

lemma json_str_field_Some: "json_str_field v = Some a \<Longrightarrow> v = map_option JStr a"
  by (cases v rule: json_str_field.cases) auto

lemma json_str_list_field_Some:
  "json_str_list_field v = Some l \<Longrightarrow> js_array_join v sep = map_option (js_join sep) l"
proof (cases v rule: json_str_list_field.cases)
  case (2 xs)
  assume "json_str_list_field v = Some l"
  with 2 have all: "list_all (\<lambda>x. json_str x \<noteq> None) xs" and l: "l = Some (map (the \<circ> json_str) xs)"
    by (auto split: if_splits)
  have m: "map join_elem xs = map (the \<circ> json_str) xs"
    using all by (induction xs) (auto elim: json_str.elims)
  show ?thesis unfolding 2 l by (simp only: js_array_join.simps m option.map)
qed auto

lemma json_structure_JObj:
  assumes "json_structure v = Some d"
  obtains ms where "v = JObj ms"
    "json_get v ''abstract'' = map_option JStr (s_abstract d)"
    "json_get v ''situation'' = map_option JStr (s_situation d)"
    "js_array_join (json_get v ''solutions'') sep = map_option (js_join sep) (s_solutions d)"
    "json_get v ''results'' = map_option JStr (s_results d)"
  using assms json_str_field_Some json_str_list_field_Some
  by (auto simp: json_structure_def split: json.splits option.splits)

text \<open>The record model of the structured answer is an abstraction of the JSON
  one: on every answer that follows the response schema, the magic fill at the level
  of JSON values throws exactly when the record model's updater does (no
  \<open>solutions\<close>), and otherwise assigns the values the record model writes into
  the form.\<close>

lemma magic_json_refines:
  assumes "json_structure data = Some d"
  shows "magic_fill_json data =
           (case magic_update d prev of
              None \<Rightarrow> MagicTypeError
            | Some fd \<Rightarrow> MagicAssign (map_option JStr (fd_abstract fd)) (map_option JStr (fd_situation fd))
                           (the (fd_solutions fd)) (map_option JStr (fd_results fd)))"
proof -
  obtain ms where o: "data = JObj ms"
    "json_get data ''abstract'' = map_option JStr (s_abstract d)"
    "json_get data ''situation'' = map_option JStr (s_situation d)"
    "js_array_join (json_get data ''solutions'') [CHR 0x0A] = map_option (js_join [CHR 0x0A]) (s_solutions d)"
    "json_get data ''results'' = map_option JStr (s_results d)"
    using json_structure_JObj [OF assms] by metis
  then show ?thesis
    by (cases "s_solutions d") (simp_all add: magic_fill_json_def magic_update_def)
qed

text \<open>C28: The magic fill throws in its updater (and the form fails to render) exactly
  on a truthy answer with no array under \<open>solutions\<close>: a non-empty string, a
  non-zero number, \<open>true\<close>, any array, and every object whose \<open>solutions\<close> is missing
  or not an array; on a falsy answer (\<open>null\<close>, also after a parse error, \<open>false\<close>,
  \<open>0\<close>, \<open>""\<close>) it does nothing.\<close>

theorem magic_json_type_error:
  "(magic_fill_json v = MagicTypeError \<longleftrightarrow> json_truthy v \<and> \<not> (\<exists>xs. json_get v ''solutions'' = Some (JArr xs)))
   \<and> (magic_fill_json v = MagicSkip \<longleftrightarrow> \<not> json_truthy v)"
  by (auto simp: magic_fill_json_def elim!: js_array_join.elims split: option.splits)

theorem magic_json_type_error_witness:
  "magic_fill_json (JStr ''ok'') = MagicTypeError
   \<and> magic_fill_json (JObj [(''solutions'', JStr ''x'')]) = MagicTypeError
   \<and> magic_fill_json (generateSKKNStructure_json (\<lambda>t. if t = ''{}'' then Some (JObj []) else None) None)
       = MagicTypeError
   \<and> magic_fill_json (generateSKKNStructure_json (\<lambda>t. None) (Some ''oops'')) = MagicSkip
   \<and> magic_fill_json (JNum ''0'') = MagicSkip"
  using magic_json_type_error [of "JStr ''ok''"] magic_json_type_error [of "JObj [(''solutions'', JStr ''x'')]"]
    magic_json_type_error [of "JObj []"] magic_json_type_error [of JNull] magic_json_type_error [of "JNum ''0''"]
  by (simp add: generateSKKNStructure_json_def)

end
