(* ===== verification/Spec2Isabelle.thy ===== *)
theory Spec2Isabelle
  imports Abstract Export InitiativeForm Presentation SKKNForm MagicJson
begin

text \<open>
  \<^bold>\<open>A verification model of the SKKN drafting assistant.\<close>

  The program (\<^verbatim>\<open>src/\<close>) is a single-page React application.  Its only
  component with control logic is the document-generation sequencer in
  \<^verbatim>\<open>src/App.tsx\<close>: \<open>startGeneration\<close> opens a chat session with the hosted
  model (\<^verbatim>\<open>src/services/geminiService.ts\<close>) and streams an outline;
  \<open>generateNextSection\<close> looks the current phase up in a fixed table, shows the
  table's target phase at once, sends the table's prompt and appends the
  streamed fragments to the document; the views (\<^verbatim>\<open>src/components/\<close>) decide
  which of these actions the user can trigger.  The theories:

  \<^item> \<open>Prelude\<close>: the named collections \<open>handler_simps\<close> (equations for
    evaluating runs) and \<open>inv_simps\<close> (unfolding of the invariant and the UI
    guards), JavaScript truthiness of optional strings, \<open>includes\<close>, \<open>trim\<close>
    and \<open>toLowerCase\<close> on byte strings, \<open>charAt(0)\<close> and \<open>slice(0, n)\<close> over
    the UTF-8 characters (\<open>utf8_chars\<close>, with \<open>concat (utf8_chars s) = s\<close>),
    generic list lemmas.  Strings are byte
    strings: every literal of the source is written as its UTF-8 bytes.
  \<^item> \<open>Types\<close>: \<^verbatim>\<open>src/types.ts\<close>.  \<open>generation_step\<close> is the enum
    \<open>GenerationStep\<close> with its numbering \<open>step_num\<close> and the order the code
    compares phases by (a \<open>linorder\<close> instance); \<open>user_info\<close> and
    \<open>generation_state\<close> are the interfaces \<open>UserInfo\<close> and \<open>GenerationState\<close>.
  \<^item> \<open>Constants\<close>: \<^verbatim>\<open>src/constants.ts\<close>: \<open>SYSTEM_INSTRUCTION\<close> as its bytes
    and \<open>STEPS_INFO\<close> as its entries in key order.
  \<^item> \<open>Gemini\<close>: \<^verbatim>\<open>src/services/geminiService.ts\<close>.  A session records the
    configuration it was created with (\<open>gemini_config\<close>, carrying
    \<open>SYSTEM_INSTRUCTION\<close>) and the messages sent on it; \<open>sendMessageStream\<close>
    fails without a session;
    \<open>deliverChunk\<close> is the streaming loop's \<open>if (chunk.text)\<close>.  The loop
    itself, \<open>for await (const chunk of responseStream)\<close> with its \<open>catch\<close>, is
    \<open>consume_stream\<close>, a \<open>partial_function (option)\<close> over an iterator
    \<open>nat \<Rightarrow> stream_item\<close> (a chunk, the end, or a rejection), so that a
    stream that never ends is the value \<open>None\<close>.  Its lemmas:
    \<open>consume_stream_terminates\<close> (the loop returns exactly when the stream
    stops yielding at some index) and, on a finite stream, the delivered texts
    are the truthy chunks in order.
  \<^item> \<open>Sequencer\<close>: the handlers of \<^verbatim>\<open>src/App.tsx\<close> as transitions of a world
    \<open>app_world\<close> (the two React states, the key, the module's session and the
    pending stream continuations).  \<open>startGeneration\<close> and
    \<open>generateNextSection\<close> are the synchronous parts of the two handlers,
    \<open>onStreamChunk\<close>, \<open>onStreamEnd\<close>, \<open>onStreamError\<close> their asynchronous
    continuations, \<open>app_step\<close> one event and \<open>run\<close> a list of events.  Its
    lemmas give the result of every handler on every branch: the missing key,
    the key present, the phases without a table entry, a session present or
    missing, the fragments of each kind of stream, the normal end and the error
    of a stream, and a whole advance (click, fragments, end).
  \<^item> \<open>Views\<close>: \<^verbatim>\<open>src/components/SKKNForm.tsx\<close> (\<open>isFormValid\<close>),
    \<^verbatim>\<open>src/components/Button.tsx\<close> (what \<open>Button\<close> renders: class,
    \<open>disabled\<close>, spinner or icon, children) and the rendering conditions of
    \<^verbatim>\<open>src/App.tsx\<close>: which buttons are live in which state, and the sidebar's
    step list over the keys of \<open>STEPS_INFO\<close>.  Its lemma
    \<open>next_buttons_equivalent\<close> shows the sidebar and mobile "next section"
    controls guard the action identically.
  \<^item> \<open>Concurrency\<close>: the interleavings.  \<open>ui_reach\<close> is the set of worlds
    reachable by events the rendered UI permits, \<open>any_reach\<close> the set
    reachable when handlers may be invoked while a stream is running.  The
    invariant \<open>seq_inv\<close> holds in every \<open>ui_reach\<close> world (rule induction,
    one lemma per event); from it follow the monotone phase, the append-only
    document, the single pending stream, the unreachable \<open>APPENDIX\<close>.  Without
    the guards, \<open>race_step_regresses\<close> shows, from every world whose phase and
    its successor have table entries, that two clicks followed by the end of the
    older stream move the phase backward and clear the streaming flag while the
    newer stream is pending; \<open>any_streams_unbounded\<close> shows that without the guards any number of
    streams can be pending at once (from the \<open>any_reach\<close> invariants that the
    key never changes and that stream ids lie below \<open>nextId\<close>), and a concrete
    run shows the chunks of two such streams interleaved in the document.
  \<^item> \<open>Abstract\<close>: the contract of the specification, \<open>start\<close> and
    \<open>advance\<close> as atomic operations on a four-field \<open>spec_state\<close> taking the
    whole outcome of their stream; \<open>abs_world\<close> maps a world to it.  The
    refinement lemmas \<open>advance_refines\<close> and \<open>start_refines\<close> show that from
    every quiescent \<open>ui_reach\<close> world the concrete click, chunks and end (or
    error) commute with the abstraction, and that the UI permits that run;
    the one exception is \<open>PART_V_VI\<close>, where the code's table has an entry the
    specification's lacks.  Progress: \<open>ui_streams_settle\<close> (one permitted
    event ends the pending stream) and \<open>generation_completes\<close> (a permitted run
    reaches \<open>COMPLETED\<close>), the latter by induction on the measure
    \<open>8 - step_num\<close>, which every completed advance decreases.
  \<^item> \<open>Export\<close>: \<open>exportToWord\<close> of \<^verbatim>\<open>src/App.tsx\<close>: the HTML envelope
    (\<open>word_html\<close>), \<open>encodeURIComponent\<close> on the UTF-8 bytes, the \<open>data:\<close> URL
    and the file name.  \<open>marked.parse\<close> and the current year are parameters.
    Its lemmas: the payload percent-decodes back to the envelope
    (\<open>decodeURIComponent\<close> is written here as the inverse), every character
    of the link after the \<open>data:\<close> prefix is URL-safe, the year is read back
    from the file name.
  \<^item> \<open>Initiatives\<close>: \<open>Status\<close> and \<open>Initiative\<close> of \<^verbatim>\<open>src/types.ts\<close>, the
    statistics of \<^verbatim>\<open>src/components/Dashboard.tsx\<close> and the search and status
    filter of \<^verbatim>\<open>src/components/InitiativeList.tsx\<close> with its three state
    updates.  Its lemmas: the counts partition the list, the Dashboard agrees
    with the list, clearing the filters shows everything, a longer search term
    only removes rows, the search ignores ASCII case, choosing a status option
    shows only rows labelled with it.  The list's rows (short id, badge, label,
    the callback of each row button) are rendered from the filtered list.  The
    Dashboard's four
    statistic cards, pie legend, constant bar data and recent-activity rows
    (avatar \<open>charAt(0)\<close> on the UTF-8 bytes, meta line, status badge) are
    rendered from the statistics, as are the data handed to the two charts;
    the cards, the legend and the ring chart show the same numbers.
  \<^item> \<open>InitiativeForm\<close>: \<^verbatim>\<open>src/components/InitiativeForm.tsx\<close> as transitions
    of \<open>form_state\<close>; \<open>handleAIHelp\<close> and \<open>handleMagicFill\<close> are split at their
    \<open>await\<close>, the settling of each request being an event on a pending job;
    \<open>form_reach\<close> is the set of states the rendered buttons permit, with the
    invariant \<open>form_inv\<close>.  Its lemmas: no spinner once every request has
    settled, the AI never writes the header fields, the result of each handler
    on each branch, and two defects (the magic button live during a suggestion,
    the crash on an empty structured answer).
  \<^item> \<open>MagicJson\<close>: the structured answer as a JSON value (\<open>json\<close>), with the
    truthiness test, the property reads and \<open>Array.prototype.join\<close> of
    \<open>handleMagicFill\<close>.  \<open>magic_json_type_error\<close> characterises the
    behaviour on every JSON value: a truthy value without an array under
    \<open>solutions\<close> throws in the state updater, a falsy one is ignored.  The
    lemma \<open>magic_json_refines\<close> checks that this model agrees with the record
    \<open>skkn_structure\<close> of \<open>InitiativeForm\<close> on answers of the schema's types
    (a consistency check of the two models of the same lines, not a property
    of the code).
  \<^item> \<open>Presentation\<close>: what the screens show: the article/placeholder switch of
    \<^verbatim>\<open>src/components/DocumentPreview.tsx\<close>, the main area, error banner,
    phase badge and download button of \<^verbatim>\<open>src/App.tsx\<close>, and the menu of
    \<^verbatim>\<open>src/components/Layout.tsx\<close> as a function of its \<open>activeTab\<close> prop.
    Its lemmas: once shown, the document stays shown and only grows
    (\<open>preview_article_stable\<close>, from the monotonicity lemma of
    \<open>Concurrency\<close>); the menu highlights exactly the active entry, its
    buttons' classes follow the highlight, the header has a title exactly when
    an entry is highlighted.
  \<^item> \<open>SKKNForm\<close>: the five controlled inputs of
    \<^verbatim>\<open>src/components/SKKNForm.tsx\<close>, \<open>handleChange\<close> (the input's
    \<open>name\<close> cast to a key of \<open>UserInfo\<close>, passed to \<open>handleUserChange\<close>) and
    the submit button.  Its lemma \<open>input_change_roundtrip\<close>: a change on the
    i-th input is accepted and afterwards exactly that input shows the value.
  \<^item> this theory: the end-to-end scenarios of the specification, evaluated as
    tests through the UI-permitted relation, the sidebar's progress list (\<open>sidebar_items\<close>
    of theory \<open>Views\<close>) in every UI-reachable state, and
    \<open>advance_delivers_loop_text\<close>, which composes the streaming loop of
    \<open>Gemini\<close> with the handlers of \<open>Sequencer\<close>: the texts the loop delivers
    are exactly what the document gains, on completion and on rejection.

  Dashboard, list and form are not rendered by \<^verbatim>\<open>src/App.tsx\<close> (nothing
  imports them); they are modelled as stand-alone components over the list of
  initiatives their caller would pass.

  \<^bold>\<open>Modelling choices.\<close>  Each synchronous piece of an \<open>async\<close> handler is one
  atomic transition (JavaScript runs it without interruption); React's
  functional \<open>setState\<close> updates are applied in order to the current state; a
  handler's closure reads the phase of the render it was created in, and events
  are taken to occur after re-rendering, so it reads the current phase.  The
  hosted model is not modelled: the chunks, ends and errors of each stream are
  events chosen by the environment, for pending streams only; likewise the value
  or rejection of each request of the initiative form.  No fuel or bound is
  needed: every function of the model is total, by structural recursion except
  \<open>decimal\<close>, whose recursion on \<open>n div 10\<close> terminates by the measure \<open>n\<close>,
  \<open>utf8_chars\<close>, which terminates by the measure \<open>length\<close>,
  and \<open>consume_stream\<close>, which may not terminate (a stream may yield for
  ever) and is therefore a partial function into \<open>option\<close>; that it returns
  on every stream that ends is proved, not assumed.

  \<^bold>\<open>Not modelled.\<close>  Styling and layout, the icons, the chart library (the
  Dashboard's chart data is modelled, its drawing is not), the 4-byte
  characters on which \<open>charAt(0)\<close> returns half a surrogate pair, the markdown renderers (\<open>marked\<close>,
  \<open>react-markdown\<close>), the browser download (\<open>link.click\<close>), the real-valued
  sampling parameters of the session configuration (temperature, top-p), the
  Unicode white space that \<open>trim\<close> removes beyond the ASCII one and the non-ASCII
  letters that \<open>toLowerCase\<close> maps (so the lower-cased section labels in the
  placeholders of the initiative form's text areas are not modelled).
  \<open>JSON.parse\<close> is a parameter (a library function), both as the record of
  optional fields of \<open>InitiativeForm\<close> and as the JSON value of \<open>MagicJson\<close>;
  a JSON number is represented by its JavaScript string form, not by its value.
  When the magic fill stores a value that is not a string (a number, an object)
  into the form data, the value assigned is recorded, but how the form then
  renders it is not modelled.  A stream rejection is taken to carry a message
  (\<open>error.message\<close>); a rejection with a value that is not an \<open>Error\<close>, whose
  message is \<open>undefined\<close>, is not modelled.  The two identical \<open>catch\<close> blocks of
  \<open>startGeneration\<close> and \<open>generateNextSection\<close> are one definition,
  \<open>onStreamError\<close>.  What remains of \<^verbatim>\<open>src/\<close> outside the map is imports,
  type declarations without behaviour, wrapper markup and styling.
\<close>

definition scenario_user :: user_info where
  "scenario_user =
     \<lparr>topic = ''X'', subject = ''To'' @ [CHR 0xC3, CHR 0xA1] @ ''n'', grade = ''10'',
      school = ''Y'', textbook = ''Z''\<rparr>"

definition fragment_outline :: js_string where
  "fragment_outline = ''D'' @ [CHR 0xC3, CHR 0xA0] @ ''n '' @ [CHR 0xC3, CHR 0xBD] @ '': ''"

definition fragment_intro :: js_string where
  "fragment_intro =
     ''I. M'' @ [CHR 0xE1, CHR 0xBB, CHR 0x9F] @ '' '' @ [CHR 0xC4, CHR 0x91, CHR 0xE1, CHR 0xBA, CHR 0xA7] @ ''u''"

definition fill_form :: "user_info \<Rightarrow> event list" where
  "fill_form u =
     [UserChange Topic (topic u), UserChange Subject (subject u), UserChange Grade (grade u),
      UserChange School (school u), UserChange Textbook (textbook u)]"

definition scenario_start :: "event list" where
  "scenario_start = fill_form scenario_user @ [ClickStart]"

definition scenario_done :: "event list" where
  "scenario_done =
     scenario_start @ [Chunk 0 (Some fragment_outline), Chunk 0 (Some fragment_intro), StreamEnd 0]"

definition scenario_to_part_iii :: "event list" where
  "scenario_to_part_iii =
     fill_form scenario_user @ [ClickStart, StreamEnd 0, ClickNext, StreamEnd 1, ClickNext, StreamEnd 2]"

lemmas scenario_simps = scenario_user_def fragment_outline_def fragment_intro_def fill_form_def
  scenario_start_def scenario_done_def scenario_to_part_iii_def

text \<open>Scenario of the specification: with the form filled in and a key present,
  submitting moves to \<open>OUTLINE\<close> with the flag set before any fragment; after the
  fragments \<open>fragment_outline\<close> and \<open>fragment_intro\<close> (the bytes of the specification's
  two fragments) and the end of the stream the document is their concatenation and
  the flag is clear.\<close>

theorem scenario_outline:
  "ui_trace (init_world (Some ''key'')) scenario_done
   \<and> step (state (run (init_world (Some ''key'')) scenario_start)) = OUTLINE
   \<and> isStreaming (state (run (init_world (Some ''key'')) scenario_start))
   \<and> fullDocument (state (run (init_world (Some ''key'')) scenario_start)) = []
   \<and> step (state (run (init_world (Some ''key'')) scenario_done)) = OUTLINE
   \<and> fullDocument (state (run (init_world (Some ''key'')) scenario_done))
       = fragment_outline @ fragment_intro
   \<and> \<not> isStreaming (state (run (init_world (Some ''key'')) scenario_done))"
  by (simp add: scenario_simps handler_simps inv_simps Let_def)

text \<open>Scenario of the specification: in \<open>PART_III\<close>, "next section" shows
  \<open>PART_IV_SOL1\<close> before any fragment; when the stream then fails the flag is
  clear, the error is shown and the phase stays \<open>PART_IV_SOL1\<close>.\<close>

theorem scenario_failure_keeps_phase:
  "ui_trace (init_world (Some ''key'')) (scenario_to_part_iii @ [ClickNext, StreamError 3 ''E''])
   \<and> step (state (run (init_world (Some ''key'')) scenario_to_part_iii)) = PART_III
   \<and> step (state (run (init_world (Some ''key'')) (scenario_to_part_iii @ [ClickNext])))
       = PART_IV_SOL1
   \<and> step (state (run (init_world (Some ''key'')) (scenario_to_part_iii @ [ClickNext, StreamError 3 ''E''])))
       = PART_IV_SOL1
   \<and> \<not> isStreaming (state (run (init_world (Some ''key''))
        (scenario_to_part_iii @ [ClickNext, StreamError 3 ''E''])))
   \<and> error (state (run (init_world (Some ''key'')) (scenario_to_part_iii @ [ClickNext, StreamError 3 ''E''])))
       = Some ''E''"
  by (simp add: scenario_simps handler_simps inv_simps Let_def)

theorem scenario_outline_witness:
  "ui_reach (Some ''key'') (run (init_world (Some ''key'')) scenario_done)
   \<and> fullDocument (state (run (init_world (Some ''key'')) scenario_done))
       = fragment_outline @ fragment_intro"
  using scenario_outline ui_trace_reach [OF ui_reach.ui_init] by blast

theorem scenario_failure_keeps_phase_witness:
  "ui_reach (Some ''key'') (run (init_world (Some ''key''))
      (scenario_to_part_iii @ [ClickNext, StreamError 3 ''E'']))
   \<and> step (state (run (init_world (Some ''key''))
      (scenario_to_part_iii @ [ClickNext, StreamError 3 ''E'']))) = PART_IV_SOL1"
  using scenario_failure_keeps_phase ui_trace_reach [OF ui_reach.ui_init] by blast

text \<open>C35: The sidebar's progress list in every state the UI can reach: before
  \<open>COMPLETED\<close> exactly one entry is active, the one of the current phase; in
  \<open>COMPLETED\<close> every entry is shown done; and the last entry (key 7, labelled
  "complete" in \<open>STEPS_INFO\<close>, the number of \<open>APPENDIX\<close>) is never the active one.\<close>

theorem sidebar_progress:
  assumes "ui_reach k w"
  shows "(if step (state w) = COMPLETED
          then list_all (\<lambda>x. snd x = Done) (sidebar_items (step (state w)))
          else length (filter (\<lambda>x. snd x = Active) (sidebar_items (step (state w)))) = 1
               \<and> (step_num (step (state w)), Active) \<in> set (sidebar_items (step (state w))))
         \<and> (7, Active) \<notin> set (sidebar_items (step (state w)))"
proof -
  have "step (state w) \<noteq> APPENDIX" using ui_reach_seq_inv [OF assms] by (simp add: seq_inv_def)
  then show ?thesis by (cases "step (state w)") (simp_all add: sidebar_items_eval)
qed

theorem sidebar_progress_witness:
  "(0, Active) \<in> set (sidebar_items (step (state filled_world)))
   \<and> (7, Active) \<notin> set (sidebar_items (step (state filled_world)))"
proof -
  have s: "step (state filled_world) = INPUT_FORM" by (simp add: filled_world_def handler_simps)
  show ?thesis using sidebar_progress [OF filled_world_ui_reach] s by simp
qed

text \<open>C13: The streaming loop of \<open>sendMessageStream\<close> and the document agree: on a
  finite response stream of a "next section" request, the loop ends (completing, or
  rethrowing the stream's rejection) having handed to \<open>onChunk\<close> a list of texts, and
  the document has grown by exactly their concatenation, whichever way the stream
  ended.\<close>

theorem advance_delivers_loop_text:
  assumes "nextStepMap (step (state w)) = Some (p, n)" and "chatSession w = Some c"
  shows "\<exists>ts. consume_stream (finite_stream cs (stream_ending fail)) 0 []
               = Some (case fail of None \<Rightarrow> Completed ts | Some e \<Rightarrow> Failed e ts)
          \<and> fullDocument (state (run w (ClickNext # stream_events (nextId w) cs fail)))
               = fullDocument (state w) @ concat ts"
proof -
  let ?w1 = "generateNextSection w"
  have w1: "streams ?w1 (nextId w) = Some (NextStream n)"
    using generateNextSection_Some [OF assms] by simp
  have chunks: "run ?w1 (map (Chunk (nextId w)) cs) =
      ?w1\<lparr>state := (state ?w1)\<lparr>fullDocument := fullDocument (state ?w1) @ concat (map opt_text cs)\<rparr>\<rparr>"
    using w1 by (rule run_next_chunks)
  have doc1: "fullDocument (state ?w1) = fullDocument (state w)"
    using generateNextSection_Some [OF assms] by simp
  have "fullDocument (state (run ?w1 (stream_events (nextId w) cs fail)))
        = fullDocument (state w) @ concat (map opt_text cs)"
    using run_stream_end [of "run ?w1 (map (Chunk (nextId w)) cs)" "nextId w" "NextStream n" fail] w1 chunks doc1
    by (cases fail) (simp_all add: stream_events_def run_append generateNextSection_onEnd_def onStreamError_def)
  then show ?thesis
    using consume_finite_outcome [of cs fail] concat_delivered_texts [of cs]
    by (intro exI [of _ "map the (filter js_truthy cs)"]) simp
qed

theorem advance_delivers_loop_text_witness:
  "consume_stream (finite_stream [Some ''cd'', None, Some ''e''] (stream_ending (Some ''x''))) 0 []
     = Some (Failed ''x'' [''cd'', ''e''])
   \<and> fullDocument (state (run demo_outline
       (ClickNext # stream_events 1 [Some ''cd'', None, Some ''e''] (Some ''x'')))) = ''abcde''"
proof -
  obtain p n where m: "nextStepMap (step (state demo_outline)) = Some (p, n)"
    by (simp add: demo_outline_facts)
  obtain c where c: "chatSession demo_outline = Some c" by (simp add: demo_outline_facts)
  obtain ts where
    l: "consume_stream (finite_stream [Some ''cd'', None, Some ''e''] (stream_ending (Some ''x''))) 0 []
        = Some (Failed ''x'' ts)" and
    d: "fullDocument (state (run demo_outline (ClickNext # stream_events 1 [Some ''cd'', None, Some ''e''] (Some ''x''))))
        = ''ab'' @ concat ts"
    using advance_delivers_loop_text [OF m c, of "[Some ''cd'', None, Some ''e'']" "Some ''x''"]
    by (auto simp: demo_outline_facts)
  have "ts = [''cd'', ''e'']" using l consume_finite_outcome [of "[Some ''cd'', None, Some ''e'']" "Some ''x''"]
    by simp
  then show ?thesis using l d by simp
qed

end
